theory Spec2Isabelle
  imports Main
begin

section \<open>The Linear webhook handler of the Linear/GitHub synchroniser\<close>

text \<open>
  The development embeds \<^verbatim>\<open>linearWebhookHandler\<close> (the reconciliation engine for
  events sent by Linear) and the tables of the Prisma schema it reads and writes.
  The handler is an \<^verbatim>\<open>async\<close> function: every \<^verbatim>\<open>await\<close> on a collaborator (the
  Linear SDK, \<^verbatim>\<open>got\<close> on the GitHub REST API, the helpers imported from other modules)
  is an entry of the call trace of the state, answered by an oracle that sees the whole
  trace so far. An oracle may answer \<open>None\<close>: the collaborator threw. Whether \<^verbatim>\<open>got\<close>
  hands a given status code back as a response or rejects with an exception (its option
  \<^verbatim>\<open>throwHttpErrors\<close>, which only the estimate reconciler switches off) is left to
  the oracle: the handler is embedded for both. The Prisma tables are lists of rows in
  the state. API keys and the two HTTP headers built from them are the same for every
  call of one event and are left out of the call records.
\<close>

subsection \<open>JavaScript values\<close>

text \<open>\<^verbatim>\<open>a ?? b\<close>\<close>

definition nullish :: "'a option \<Rightarrow> 'a option \<Rightarrow> 'a option" where
  "nullish a b = (case a of Some x \<Rightarrow> Some x | None \<Rightarrow> b)"

text \<open>Truthiness of an optional string (the empty string is falsy) and number (0 is falsy).\<close>

definition truthy :: "string option \<Rightarrow> bool" where
  "truthy v = (case v of None \<Rightarrow> False | Some s \<Rightarrow> s \<noteq> [])"

definition truthy_num :: "nat option \<Rightarrow> bool" where
  "truthy_num v = (case v of None \<Rightarrow> False | Some n \<Rightarrow> n \<noteq> 0)"

text \<open>A number inside a template literal.\<close>

fun show_nat :: "nat \<Rightarrow> string" where
  "show_nat n =
     (if n < 10 then [char_of (48 + n)]
      else show_nat (n div 10) @ [char_of (48 + n mod 10)])"

declare show_nat.simps [simp del]

definition show_number :: "nat option \<Rightarrow> string" where
  "show_number v = (case v of None \<Rightarrow> ''undefined'' | Some n \<Rightarrow> show_nat n)"

text \<open>
  In \<^verbatim>\<open>data\<close> a missing value is an absent key (\<^verbatim>\<open>undefined\<close>); a key of
  \<^verbatim>\<open>updatedFrom\<close> that is present without a value holds the JSON \<^verbatim>\<open>null\<close>.
\<close>

definition show_null :: "nat option \<Rightarrow> string" where
  "show_null v = (case v of None \<Rightarrow> ''null'' | Some n \<Rightarrow> show_nat n)"

definition show_string :: "string option \<Rightarrow> string" where
  "show_string v = (case v of None \<Rightarrow> ''undefined'' | Some s \<Rightarrow> s)"

text \<open>
  The same for a string that comes from a GraphQL answer of Linear, where a missing value
  is \<^verbatim>\<open>null\<close>.
\<close>

definition show_nullable :: "string option \<Rightarrow> string" where
  "show_nullable v = (case v of None \<Rightarrow> ''null'' | Some s \<Rightarrow> s)"

text \<open>
  \<^verbatim>\<open>startsWith\<close> and \<^verbatim>\<open>includes\<close> compare the strings unit by unit. \<^verbatim>\<open>toLowerCase\<close>
  and \<^verbatim>\<open>trim\<close> depend on the Unicode tables of the runtime and are parameters (below).
\<close>

definition startsWith :: "string \<Rightarrow> string \<Rightarrow> bool" where
  "startsWith s p = (take (length p) s = p)"

fun str_includes :: "string \<Rightarrow> string \<Rightarrow> bool" where
  "str_includes [] sub = (sub = [])"
| "str_includes (c # cs) sub = (startsWith (c # cs) sub \<or> str_includes cs sub)"

text \<open>
  A Prisma \<^verbatim>\<open>where\<close> filter on one column: a filter whose value is \<^verbatim>\<open>undefined\<close> is
  dropped from the query.
\<close>

definition prisma_where :: "'a option \<Rightarrow> 'a \<Rightarrow> bool" where
  "prisma_where v x = (case v of None \<Rightarrow> True | Some y \<Rightarrow> x = y)"

subsection \<open>The Prisma schema\<close>

record githubRepo =
  repoId :: nat
  repoName :: string

record linearTeam =
  publicLabelId :: string
  canceledStateId :: string
  doneStateId :: string

text \<open>A row of \<^verbatim>\<open>syncs\<close> with the two relations the query includes.\<close>

record sync =
  sy_githubUserId :: nat
  sy_linearUserId :: string
  sy_linearTeamId :: string
  sy_LinearTeam :: "linearTeam option"
  sy_GitHubRepo :: "githubRepo option"

text \<open>
  A row of \<^verbatim>\<open>synced_issues\<close> (the Issue Link) with its included \<^verbatim>\<open>GitHubRepo\<close>. The
  \<^verbatim>\<open>cuid()\<close> primary key is a number here.
\<close>

record syncedIssue =
  si_id :: nat
  si_githubIssueNumber :: nat
  si_linearIssueNumber :: nat
  si_githubIssueId :: nat
  si_linearIssueId :: string
  si_linearTeamId :: string
  si_githubRepoId :: nat
  si_GitHubRepo :: githubRepo

record milestone =
  ms_milestoneId :: nat
  ms_cycleId :: string
  ms_linearTeamId :: string
  ms_githubRepoId :: nat

record user =
  us_githubUsername :: string
  us_linearUserId :: string

subsection \<open>The webhook payload\<close>

text \<open>
  \<^verbatim>\<open>data\<close>: the current values. \<open>d_team\<close> is \<^verbatim>\<open>data.team.key\<close>, \<open>d_issue\<close> is
  \<^verbatim>\<open>data.issue.id\<close>, \<open>d_user\<close> is \<^verbatim>\<open>data.user.name\<close>, each \<open>None\<close> when the object is
  missing. A field that is \<open>None\<close> is a key the payload does not carry.
\<close>

record issueData =
  d_id :: string
  d_userId :: "string option"
  d_creatorId :: "string option"
  d_teamId :: "string option"
  d_team :: "string option"
  d_number :: "nat option"
  d_title :: string
  d_description :: "string option"
  d_labelIds :: "string list option"
  d_assigneeId :: "string option"
  d_priority :: "nat option"
  d_estimate :: "nat option"
  d_cycleId :: "string option"
  d_stateId :: "string option"
  d_body :: "string option"
  d_issueId :: "string option"
  d_issue :: "string option"
  d_user :: "string option"

text \<open>
  \<^verbatim>\<open>updatedFrom\<close>: the prior values of the changed fields. Where the handler tests
  \<^verbatim>\<open>"key" in updatedFrom\<close> the field is \<open>None\<close> when the key is absent and \<open>Some v\<close>
  when it is present with the (possibly null) value \<open>v\<close>.
\<close>

record updatedFrom =
  uf_labelIds :: "string list option"
  uf_title :: "string option"
  uf_description :: "string option"
  uf_cycleId :: "string option option"
  uf_stateId :: "string option"
  uf_assigneeId :: "string option option"
  uf_priority :: "nat option option"
  uf_estimate :: "nat option option"

record payload =
  p_action :: string
  p_type :: string
  p_data :: issueData
  p_updatedFrom :: updatedFrom
  p_url :: string

subsection \<open>Collaborators\<close>

record label =
  label_name :: string
  label_color :: string

datatype json =
    NewIssue string string "string option"
  | Title string
  | Body string
  | State string string
  | Assignees "string option list"
  | PrevAssignees "string option list option"

datatype call =
    UpsertUser nat string
  | IssueLabel "string option"
  | LinearIssue string
  | IssueComments string
  | PrepareMarkdownContent "string option"
  | ReplaceMentions "string option"
  | GotGet string
  | GotPost string json
  | GotPatch string json
  | GotDelete string "json option"
  | CreateLabel string label
  | ApplyLabel string nat "string list"
  | CreateComment string nat string
  | InviteMember "string option" "string option" string
  | LinearQuery string
  | SetIssueMilestone string nat "nat option"
  | GetLinearCycle string
  | CreateMilestone string string string string

text \<open>
  The calls the handler addresses to the GitHub API, the counterpart system of this
  handler. \<^verbatim>\<open>upsertUser\<close> is the identity helper of another module: the trace records
  that it was called, not the requests it may send itself.
\<close>

fun github_call :: "call \<Rightarrow> bool" where
  "github_call (GotGet _) = True"
| "github_call (GotPost _ _) = True"
| "github_call (GotPatch _ _) = True"
| "github_call (GotDelete _ _) = True"
| "github_call (CreateLabel _ _) = True"
| "github_call (ApplyLabel _ _ _) = True"
| "github_call (CreateComment _ _ _) = True"
| "github_call (SetIssueMilestone _ _ _) = True"
| "github_call (CreateMilestone _ _ _ _) = True"
| "github_call _ = False"

text \<open>The call that creates an issue: \<^verbatim>\<open>got.post(issuesEndpoint, ...)\<close>.\<close>

fun issue_creation :: "call \<Rightarrow> bool" where
  "issue_creation (GotPost _ (NewIssue _ _ _)) = True"
| "issue_creation _ = False"

record linearIssue =
  li_description :: "string option"

record linearComment =
  lc_body :: "string option"
  lc_displayName :: string

record createdIssueResponse =
  cr_statusCode :: nat
  cr_body :: string

text \<open>
  What the handler reads of the body of that response once it is parsed: two fields that
  the document may lack.
\<close>

record createdIssueData =
  cd_id :: "nat option"
  cd_number :: "nat option"

record createLabelResult =
  createdLabel :: "label option"
  createLabelError :: bool

record attachmentResponse =
  at_success :: bool
  at_text :: string

record cycle =
  cy_name :: "string option"
  cy_number :: nat
  cy_description :: "string option"
  cy_endsAt :: nat

text \<open>
  The answers of the collaborators, each a function of the call trace up to and including
  the call answered; \<open>None\<close> is a thrown exception. \<open>w_status\<close> answers every call of
  which the handler reads the status code only.
\<close>

record world =
  w_upsertUser :: "call list \<Rightarrow> user list \<Rightarrow> user list option"
  w_issueLabel :: "call list \<Rightarrow> label option option"
  w_issue :: "call list \<Rightarrow> linearIssue option option"
  w_comments :: "call list \<Rightarrow> linearComment option list option"
  w_text :: "call list \<Rightarrow> string option option"
  w_status :: "call list \<Rightarrow> nat option"
  w_createdIssue :: "call list \<Rightarrow> createdIssueResponse option"
  w_assignees :: "call list \<Rightarrow> string option list option option"
  w_createLabel :: "call list \<Rightarrow> createLabelResult option"
  w_error :: "call list \<Rightarrow> bool option"
  w_done :: "call list \<Rightarrow> unit option"
  w_attachment :: "call list \<Rightarrow> attachmentResponse option"
  w_cycle :: "call list \<Rightarrow> cycle option option"
  w_milestone :: "call list \<Rightarrow> nat option option"
  w_today :: nat

text \<open>
  The constants of \<^verbatim>\<open>../constants\<close>, the environment switch and the pure helpers of
  \<^verbatim>\<open>../index\<close>, \<^verbatim>\<open>../github\<close> and \<^verbatim>\<open>../errors\<close>, none of which is part of the handler's
  file: parameters of the model. So are three functions of the JavaScript runtime:
  \<^verbatim>\<open>String.prototype.toLowerCase\<close>, \<^verbatim>\<open>String.prototype.trim\<close> and \<^verbatim>\<open>JSON.parse\<close>, whose
  answer \<open>None\<close> is its \<^verbatim>\<open>SyntaxError\<close>.
\<close>

record config =
  IP_ORIGINS :: "string list"
  ALLOWED_LABELS :: "string list"
  GERRIT_COMMENT_PREFIX :: string
  REPO_ENDPOINT :: string
  UUID_SUFFIX :: string
  INLINE_IMG_TAG_REGEX :: "string \<Rightarrow> bool"
  PRIORITY_LABELS :: "nat \<Rightarrow> label option"
  disableLinearMetadata :: bool
  skipReason :: "string \<Rightarrow> string \<Rightarrow> bool \<Rightarrow> string"
  getSyncFooter :: string
  getGitHubFooter :: "string option \<Rightarrow> string"
  getIssueUpdateError :: "string \<Rightarrow> issueData \<Rightarrow> syncedIssue \<Rightarrow> nat \<Rightarrow> string"
  formatJSON :: "createdIssueData \<Rightarrow> string"
  getAttachmentQuery :: "string \<Rightarrow> nat option \<Rightarrow> string \<Rightarrow> string"
  isNumber :: "string \<Rightarrow> bool"
  toLowerCase :: "string \<Rightarrow> string"
  trim :: "string \<Rightarrow> string"
  JSON_parse :: "string \<Rightarrow> createdIssueData option"

subsection \<open>State, outcomes and control flow\<close>

record state =
  syncs :: "sync list"
  users :: "user list"
  issues :: "syncedIssue list"
  milestones :: "milestone list"
  calls :: "call list"
  logs :: "string list"

datatype error =
    Error string
  | ApiError string nat
  | TypeError
  | SyntaxError
  | PrismaError
  | Thrown

text \<open>
  A piece of the handler's body either throws, returns from the handler, or runs to its
  end so that the statement after it is next.
\<close>

datatype outcome = Raise error | Return string | Next

type_synonym block = "state \<Rightarrow> outcome \<times> state"

definition throw :: "error \<Rightarrow> block" where
  "throw e s = (Raise e, s)"

definition ret :: "string \<Rightarrow> block" where
  "ret r s = (Return r, s)"

definition next_stmt :: block where
  "next_stmt s = (Next, s)"

definition seq :: "block \<Rightarrow> block \<Rightarrow> block" where
  "seq a b s = (case a s of (Next, s') \<Rightarrow> b s' | r \<Rightarrow> r)"

definition console_log :: "string \<Rightarrow> block \<Rightarrow> block" where
  "console_log m k s = k (s\<lparr>logs := logs s @ [m]\<rparr>)"

definition await :: "call \<Rightarrow> (call list \<Rightarrow> 'a option) \<Rightarrow> ('a \<Rightarrow> block) \<Rightarrow> block" where
  "await c oracle k s =
     (let s' = s\<lparr>calls := calls s @ [c]\<rparr>
      in case oracle (calls s') of None \<Rightarrow> (Raise Thrown, s') | Some r \<Rightarrow> k r s')"

text \<open>\<^verbatim>\<open>try { ... } catch (e) { ... }\<close>\<close>

definition try_catch :: "block \<Rightarrow> block \<Rightarrow> block" where
  "try_catch body handler s = (case body s of (Raise e, s') \<Rightarrow> handler s' | r \<Rightarrow> r)"

subsection \<open>What the handler derives from the Sync Link and the payload\<close>

record scope =
  sc_body :: payload
  sc_syncs :: "sync list"
  sc_sync :: sync
  sc_team :: linearTeam
  sc_repo :: githubRepo

definition data :: "scope \<Rightarrow> issueData" where
  "data x = p_data (sc_body x)"

definition updatedFrom :: "scope \<Rightarrow> updatedFrom" where
  "updatedFrom x = p_updatedFrom (sc_body x)"

definition actionType :: "scope \<Rightarrow> string" where
  "actionType x = p_type (sc_body x)"

definition repoFullName :: "scope \<Rightarrow> string" where
  "repoFullName x = repoName (sc_repo x)"

text \<open>\<^verbatim>\<open>`${data.team?.key ?? ""}-${data.number}`\<close>\<close>

definition ticketName :: "scope \<Rightarrow> string" where
  "ticketName x =
     (case d_team (data x) of None \<Rightarrow> [] | Some k \<Rightarrow> k) @ ''-'' @ show_number (d_number (data x))"

definition issuesEndpoint :: "scope \<Rightarrow> string" where
  "issuesEndpoint x = ''https://api.github.com/repos/'' @ repoFullName x @ ''/issues''"

text \<open>\<^verbatim>\<open>`${GITHUB.REPO_ENDPOINT}/${syncedIssue.GitHubRepo.repoName}/issues/${syncedIssue.githubIssueNumber}`\<close>\<close>

definition issueEndpoint :: "config \<Rightarrow> syncedIssue \<Rightarrow> string" where
  "issueEndpoint C si =
     REPO_ENDPOINT C @ ''/'' @ repoName (si_GitHubRepo si) @ ''/issues/''
       @ show_nat (si_githubIssueNumber si)"

text \<open>\<^verbatim>\<open>data.userId ?? data.creatorId\<close>\<close>

definition actor :: "issueData \<Rightarrow> string option" where
  "actor d = nullish (d_userId d) (d_creatorId d)"

text \<open>\<^verbatim>\<open>createdLabel ? createdLabel.name : label.name\<close>\<close>

definition labelNameOf :: "createLabelResult \<Rightarrow> label \<Rightarrow> string" where
  "labelNameOf r l = (case createdLabel r of Some c \<Rightarrow> label_name c | None \<Rightarrow> label_name l)"

definition allowed :: "config \<Rightarrow> label \<Rightarrow> bool" where
  "allowed C l = (toLowerCase C (label_name l) \<in> set (ALLOWED_LABELS C))"

subsection \<open>Update: a label change on an already public issue (lines 188 to 283)\<close>

definition label_updated :: "config \<Rightarrow> world \<Rightarrow> scope \<Rightarrow> syncedIssue option \<Rightarrow> string list \<Rightarrow> block" where
  \<open>label_updated C W x syncedIssue prev =
     (case syncedIssue of
        None \<Rightarrow>
          console_log (skipReason C ''label'' (ticketName x) False)
            (ret (skipReason C ''label'' (ticketName x) False))
      | Some si \<Rightarrow>
          (case d_labelIds (data x) of
             None \<Rightarrow> throw TypeError
           | Some cur \<Rightarrow>
               if length cur < length prev then
                 (let removedLabelId = find (\<lambda>i. i \<notin> set cur) prev in
                  if removedLabelId = Some (publicLabelId (sc_team x)) then
                    (\<lambda>s. (let reason = ''Deleted synced issue '' @ ticketName x
                                  @ '' after Public label removed.''
                           in console_log reason (ret reason))
                          (s\<lparr>issues := filter (\<lambda>r. si_id r \<noteq> si_id si) (issues s)\<rparr>))
                  else
                    await (IssueLabel removedLabelId) (w_issueLabel W) (\<lambda>label.
                      case label of
                        None \<Rightarrow> throw (ApiError ''Could not find label.'' 403)
                      | Some l \<Rightarrow>
                          await (GotDelete (issueEndpoint C si @ ''/labels/'' @ label_name l) None)
                            (w_status W) (\<lambda>statusCode.
                            if statusCode > 201 then
                              console_log (''Could not remove label "'' @ label_name l @ ''".'')
                                (throw (ApiError (''Could not remove label "'' @ label_name l
                                           @ ''".'') 403))
                            else
                              console_log (''Removed label "'' @ label_name l @ ''" from issue #''
                                  @ show_nat (si_githubIssueNumber si) @ ''.'')
                                next_stmt)))
               else if length cur > length prev then
                 (let addedLabelId = find (\<lambda>i. i \<notin> set prev) cur in
                  await (IssueLabel addedLabelId) (w_issueLabel W) (\<lambda>label.
                    case label of
                      None \<Rightarrow> throw (ApiError ''Could not find label.'' 403)
                    | Some l \<Rightarrow>
                        if \<not> allowed C l then
                          ret (''Label is not in the allowed list: '' @ label_name l)
                        else
                          await (CreateLabel (repoFullName x) l) (w_createLabel W) (\<lambda>r.
                            if createLabelError r then
                              console_log ''Could not create label.''
                                (throw (ApiError ''Could not create label.'' 403))
                            else
                              await (ApplyLabel (repoName (si_GitHubRepo si))
                                       (si_githubIssueNumber si) [labelNameOf r l])
                                (w_error W) (\<lambda>applyLabelError.
                                if applyLabelError then
                                  console_log ''Could not apply label.''
                                    (throw (ApiError ''Could not apply label.'' 403))
                                else
                                  console_log (''Applied label "'' @ labelNameOf r l
                                      @ ''" to issue #'' @ show_nat (si_githubIssueNumber si)
                                      @ ''.'')
                                    next_stmt))))
               else next_stmt))\<close>

subsection \<open>Creating the GitHub issue (lines 298 to 532 and 1067 to 1247)\<close>

text \<open>
  The description sent to GitHub: the payload's own, or the one fetched from Linear when
  it holds an inline image, passed through \<^verbatim>\<open>prepareMarkdownContent\<close>.
\<close>

definition modifiedDescription :: "config \<Rightarrow> world \<Rightarrow> scope \<Rightarrow> (string option \<Rightarrow> block) \<Rightarrow> block" where
  "modifiedDescription C W x k =
     (let markdown = d_description (data x) in
      if (case markdown of None \<Rightarrow> False | Some m \<Rightarrow> INLINE_IMG_TAG_REGEX C m) then
        await (LinearIssue (d_id (data x))) (w_issue W) (\<lambda>publicIssue.
          await (PrepareMarkdownContent
                   (case publicIssue of
                      None \<Rightarrow> markdown
                    | Some i \<Rightarrow> if truthy (li_description i) then li_description i else markdown))
            (w_text W) k)
      else await (PrepareMarkdownContent markdown) (w_text W) k)"

text \<open>\<^verbatim>\<open>prisma.user.findFirst({ where: { linearUserId: ... } })\<close>\<close>

definition findUser :: "state \<Rightarrow> string option \<Rightarrow> user option" where
  "findUser s linearId = find (\<lambda>u. prisma_where linearId (us_linearUserId u)) (users s)"

definition issueTitle :: "config \<Rightarrow> scope \<Rightarrow> string" where
  "issueTitle C x =
     (if disableLinearMetadata C then d_title (data x)
      else ''['' @ ticketName x @ ''] '' @ d_title (data x))"

definition issueBody :: "config \<Rightarrow> scope \<Rightarrow> string option \<Rightarrow> string" where
  "issueBody C x md =
     (let text = (case md of None \<Rightarrow> [] | Some m \<Rightarrow> m) in
      if disableLinearMetadata C then text
      else text @ [CHR 0x0A, CHR 0x0A] @ ''<sub>'' @ getSyncFooter C @ '' | ['' @ ticketName x
             @ '']('' @ p_url (sc_body x) @ '')</sub>'')"

text \<open>The JSON of the new issue; \<open>assignees\<close> is present only for a mapped assignee.\<close>

definition newIssue :: "config \<Rightarrow> scope \<Rightarrow> string option \<Rightarrow> user option \<Rightarrow> json" where
  "newIssue C x md assignee =
     NewIssue (issueTitle C x) (issueBody C x md)
       (if truthy (d_assigneeId (data x))
          \<and> truthy (case assignee of None \<Rightarrow> None | Some u \<Rightarrow> Some (us_githubUsername u))
        then map_option us_githubUsername assignee else None)"

definition createFailed :: "config \<Rightarrow> scope \<Rightarrow> createdIssueResponse \<Rightarrow> block" where
  "createFailed C x r =
     (case d_team (data x) of
        None \<Rightarrow> throw TypeError
      | Some k \<Rightarrow>
          (case JSON_parse C (cr_body r) of
             None \<Rightarrow> throw SyntaxError
           | Some parsed \<Rightarrow>
               console_log (''Failed to create GitHub issue for '' @ k @ ''-''
                   @ show_number (d_number (data x)) @ '', received status code ''
                   @ show_nat (cr_statusCode r) @ '', body of '' @ formatJSON C parsed @ ''.'')
                 (throw (ApiError (''I was unable to create an issue on Github. Status code: ''
                            @ show_nat (cr_statusCode r)) 500))))"

definition fresh_id :: "syncedIssue list \<Rightarrow> nat" where
  "fresh_id rows = Suc (fold max (map si_id rows) 0)"

text \<open>
  \<^verbatim>\<open>Promise.all\<close> of the attachment query and \<^verbatim>\<open>prisma.syncedIssue.create\<close>: the query
  is sent, the row is written, then the answer of the query is logged. The four columns
  the schema requires and the payload or the parsed body may lack make Prisma reject the
  row. What follows is given the id and the number of the created issue.
\<close>

definition persistIssueLink :: "config \<Rightarrow> world \<Rightarrow> scope \<Rightarrow> createdIssueData \<Rightarrow> (nat \<Rightarrow> nat \<Rightarrow> block) \<Rightarrow> block" where
  "persistIssueLink C W x createdIssueData k s =
     (let s1 = s\<lparr>calls := calls s
                   @ [LinearQuery (getAttachmentQuery C (d_id (data x))
                                     (cd_number createdIssueData) (repoFullName x))]\<rparr>
      in case (d_teamId (data x), d_number (data x), cd_id createdIssueData,
               cd_number createdIssueData) of
           (Some team, Some n, Some githubIssueId, Some githubIssueNumber) \<Rightarrow>
             (let s2 = s1\<lparr>issues := issues s1 @
                         [\<lparr>si_id = fresh_id (issues s1),
                           si_githubIssueNumber = githubIssueNumber,
                           si_linearIssueNumber = n,
                           si_githubIssueId = githubIssueId,
                           si_linearIssueId = d_id (data x),
                           si_linearTeamId = team,
                           si_githubRepoId = repoId (sc_repo x),
                           si_GitHubRepo = sc_repo x\<rparr>]\<rparr>
              in case w_attachment W (calls s1) of
                   None \<Rightarrow> (Raise Thrown, s2)
                 | Some a \<Rightarrow>
                     console_log
                       (if \<not> at_success a then
                          ''Failed to create attachment on '' @ ticketName x
                            @ '' for GitHub issue #'' @ show_nat githubIssueNumber
                            @ '', received response '' @ at_text a @ ''.''
                        else
                          ''Created attachment on '' @ ticketName x @ '' for GitHub issue #''
                            @ show_nat githubIssueNumber @ ''.'')
                       (k githubIssueId githubIssueNumber) s2)
         | _ \<Rightarrow> (Raise PrismaError, s1))"

text \<open>The loop over the ticket's labels, collecting the names to apply.\<close>

fun labelLoop :: "config \<Rightarrow> world \<Rightarrow> scope \<Rightarrow> string list \<Rightarrow> string list \<Rightarrow> (string list \<Rightarrow> block) \<Rightarrow> block" where
  "labelLoop C W x [] labelNames k = k labelNames"
| \<open>labelLoop C W x (labelId # rest) labelNames k =
     (if labelId = publicLabelId (sc_team x) then labelLoop C W x rest labelNames k
      else
        await (IssueLabel (Some labelId)) (w_issueLabel W) (\<lambda>label.
          case label of
            None \<Rightarrow>
              console_log (''Could not find label '' @ labelId @ '' for '' @ ticketName x @ ''.'')
                (labelLoop C W x rest labelNames k)
          | Some l \<Rightarrow>
              if \<not> allowed C l then
                console_log (''Label is not in the allowed list: '' @ label_name l)
                  (labelLoop C W x rest labelNames k)
              else
                await (CreateLabel (repoFullName x) l) (w_createLabel W) (\<lambda>r.
                  if createLabelError r then
                    console_log (''Could not create GH label "'' @ label_name l @ ''" in ''
                        @ repoFullName x @ ''.'')
                      (labelLoop C W x rest labelNames k)
                  else labelLoop C W x rest (labelNames @ [labelNameOf r l]) k)))\<close>

text \<open>The priority label of the new issue, if the ticket has a priority with a label.\<close>

definition priorityLabelOf :: "config \<Rightarrow> nat option \<Rightarrow> label option" where
  "priorityLabelOf C p = (case p of None \<Rightarrow> None | Some n \<Rightarrow> PRIORITY_LABELS C n)"

definition addPriorityLabel :: "config \<Rightarrow> world \<Rightarrow> scope \<Rightarrow> string list \<Rightarrow> (string list \<Rightarrow> block) \<Rightarrow> block" where
  \<open>addPriorityLabel C W x labelNames k =
     (case (if truthy_num (d_priority (data x)) then priorityLabelOf C (d_priority (data x))
            else None) of
        None \<Rightarrow> k labelNames
      | Some priorityLabel \<Rightarrow>
          await (CreateLabel (repoFullName x) priorityLabel) (w_createLabel W) (\<lambda>r.
            if createLabelError r then
              console_log (''Could not create priority label "'' @ label_name priorityLabel
                  @ ''" in '' @ repoFullName x @ ''.'')
                (k labelNames)
            else k (labelNames @ [labelNameOf r priorityLabel])))\<close>

definition replayLabels :: "config \<Rightarrow> world \<Rightarrow> scope \<Rightarrow> nat \<Rightarrow> string list \<Rightarrow> block" where
  "replayLabels C W x githubIssueNumber cur =
     labelLoop C W x (filter (\<lambda>i. i \<noteq> publicLabelId (sc_team x)) cur) [] (\<lambda>labelNames.
       addPriorityLabel C W x labelNames (\<lambda>labelNames.
         await (ApplyLabel (repoFullName x) githubIssueNumber labelNames) (w_error W)
           (\<lambda>applyLabelError.
             console_log
               (if applyLabelError then
                  ''Could not apply labels to #'' @ show_nat githubIssueNumber @ '' in ''
                    @ repoFullName x @ ''.''
                else
                  ''Applied labels to #'' @ show_nat githubIssueNumber @ '' in ''
                    @ repoFullName x @ ''.'')
               next_stmt)))"

text \<open>\<^verbatim>\<open>body && body.trim().startsWith(LINEAR.GERRIT_COMMENT_PREFIX)\<close>\<close>

definition internalComment :: "config \<Rightarrow> string option \<Rightarrow> bool" where
  "internalComment C body =
     (truthy body
      \<and> startsWith (trim C (case body of None \<Rightarrow> [] | Some b \<Rightarrow> b)) (GERRIT_COMMENT_PREFIX C))"

text \<open>The loop over the ticket's comments (lines 497 to 531).\<close>

fun commentLoop :: "config \<Rightarrow> world \<Rightarrow> scope \<Rightarrow> nat \<times> nat \<Rightarrow> linearComment option list \<Rightarrow> block" where
  "commentLoop C W x created [] = next_stmt"
| "commentLoop C W x created (None # rest) = commentLoop C W x created rest"
| "commentLoop C W x (githubIssueId, githubIssueNumber) (Some c # rest) =
     (if internalComment C (lc_body c) then
        console_log (''Skipping syncing internal Gerrit comment for issue '' @ ticketName x)
          (commentLoop C W x (githubIssueId, githubIssueNumber) rest)
      else
        await (ReplaceMentions (lc_body c)) (w_text W) (\<lambda>modifiedComment.
          await (CreateComment (repoFullName x) githubIssueNumber
                   ((case modifiedComment of None \<Rightarrow> [] | Some m \<Rightarrow> m)
                      @ getGitHubFooter C (Some (lc_displayName c))))
            (w_error W) (\<lambda>commentError.
            console_log
              (if commentError then
                 ''Failed to add comment to GitHub issue '' @ show_nat githubIssueNumber
                   @ '' for '' @ ticketName x @ ''.''
               else
                 ''Created comment on GitHub issue #'' @ show_nat githubIssueNumber @ '' [''
                   @ show_nat githubIssueId @ ''] for Linear issue '' @ ticketName x @ ''.'')
              (commentLoop C W x (githubIssueId, githubIssueNumber) rest))))"

text \<open>\<^verbatim>\<open>syncs.some(sync => sync.linearUserId === id)\<close>\<close>

definition someSync :: "scope \<Rightarrow> string option \<Rightarrow> bool" where
  "someSync x i = (\<exists>sy \<in> set (sc_syncs x). Some (sy_linearUserId sy) = i)"

subsection \<open>Update: the public label added to a ticket (lines 284 to 532)\<close>

text \<open>
  What follows a created issue: the body of the response is parsed (line 365), then come
  the Issue Link, the labels, the comments.
\<close>

definition syncNewIssue :: "config \<Rightarrow> world \<Rightarrow> scope \<Rightarrow> createdIssueResponse \<Rightarrow> string list \<Rightarrow> block" where
  "syncNewIssue C W x createdIssueResponse cur =
     (case JSON_parse C (cr_body createdIssueResponse) of
        None \<Rightarrow> throw SyntaxError
      | Some createdIssueData \<Rightarrow>
          await (LinearIssue (d_id (data x))) (w_issue W) (\<lambda>linearIssue.
            persistIssueLink C W x createdIssueData (\<lambda>githubIssueId githubIssueNumber.
              seq (replayLabels C W x githubIssueNumber cur)
                (case linearIssue of
                   None \<Rightarrow> throw TypeError
                 | Some _ \<Rightarrow>
                     await (IssueComments (d_id (data x))) (w_comments W)
                       (commentLoop C W x (githubIssueId, githubIssueNumber))))))"

definition public_label_added :: "config \<Rightarrow> world \<Rightarrow> scope \<Rightarrow> syncedIssue option \<Rightarrow> string list \<Rightarrow> block" where
  "public_label_added C W x syncedIssue cur =
     (case syncedIssue of
        Some si \<Rightarrow>
          console_log (''Not creating issue after label added as issue '' @ ticketName x
              @ '' ['' @ d_id (data x) @ ''] already exists on GitHub as issue #''
              @ show_nat (si_githubIssueNumber si) @ '' ['' @ show_nat (si_githubIssueId si)
              @ ''].'')
            (ret ''Issue already exists on GitHub.'')
      | None \<Rightarrow>
          modifiedDescription C W x (\<lambda>md s.
            await (GotPost (issuesEndpoint x)
                     (newIssue C x md (findUser s (d_assigneeId (data x)))))
              (w_createdIssue W) (\<lambda>createdIssueResponse.
              seq (if \<not> someSync x (actor (data x)) then
                     await (InviteMember (d_creatorId (data x)) (d_teamId (data x))
                              (repoFullName x))
                       (w_done W) (\<lambda>_. next_stmt)
                   else next_stmt)
                (if cr_statusCode createdIssueResponse > 201 then
                   createFailed C x createdIssueResponse
                 else syncNewIssue C W x createdIssueResponse cur)) s))"

subsection \<open>Update: the field reconcilers of a synced issue (lines 541 to 991)\<close>

definition title_change :: "config \<Rightarrow> world \<Rightarrow> scope \<Rightarrow> syncedIssue \<Rightarrow> block" where
  "title_change C W x si =
     (if truthy (uf_title (updatedFrom x)) \<and> actionType x = ''Issue'' then
        await (GotPatch (issueEndpoint C si) (Title (issueTitle C x))) (w_status W)
          (\<lambda>statusCode.
            console_log
              (if statusCode > 201 then getIssueUpdateError C ''title'' (data x) si statusCode
               else
                 ''Updated GitHub issue title for '' @ ticketName x @ '' ['' @ d_id (data x)
                   @ ''] on GitHub issue #'' @ show_nat (si_githubIssueNumber si) @ '' [''
                   @ show_nat (si_githubIssueId si) @ ''].'')
              next_stmt)
      else next_stmt)"

definition description_change :: "config \<Rightarrow> world \<Rightarrow> scope \<Rightarrow> syncedIssue \<Rightarrow> block" where
  "description_change C W x si =
     (if truthy (uf_description (updatedFrom x)) \<and> actionType x = ''Issue'' then
        modifiedDescription C W x (\<lambda>md.
          await (GotPatch (issueEndpoint C si) (Body (issueBody C x md))) (w_status W)
            (\<lambda>statusCode.
              console_log
                (if statusCode > 201 then
                   getIssueUpdateError C ''description'' (data x) si statusCode
                 else
                   ''Updated GitHub issue description for '' @ ticketName x @ '' [''
                     @ d_id (data x) @ ''] on GitHub issue #''
                     @ show_nat (si_githubIssueNumber si) @ '' [''
                     @ show_nat (si_githubIssueId si) @ ''].'')
                next_stmt))
      else next_stmt)"

text \<open>\<^verbatim>\<open>console.log(reason); throw new ApiError(reason, 500)\<close> and \<^verbatim>\<open>console.log(reason); return reason\<close>\<close>

definition fail500 :: "string \<Rightarrow> block" where
  "fail500 reason = console_log reason (throw (ApiError reason 500))"

definition done_with :: "string \<Rightarrow> block" where
  "done_with reason = console_log reason (ret reason)"

definition milestoneTitle :: "config \<Rightarrow> cycle \<Rightarrow> string" where
  "milestoneTitle C cy =
     (if \<not> truthy (cy_name cy) then ''v.'' @ show_nat (cy_number cy)
      else if isNumber C (the (cy_name cy)) then ''v.'' @ the (cy_name cy)
      else the (cy_name cy))"

text \<open>
  The cycle reconciler (lines 617 to 720); its last step, \<open>applyMilestone\<close>, is lines 704
  to 720. It runs after the handler has returned for a missing Issue Link (line 535), so
  its own test of \<^verbatim>\<open>syncedIssue\<close> at line 619 cannot succeed and has no branch here.
\<close>

definition applyMilestone :: "world \<Rightarrow> scope \<Rightarrow> syncedIssue \<Rightarrow> nat \<Rightarrow> block" where
  "applyMilestone W x si milestoneId =
     await (SetIssueMilestone (repoName (si_GitHubRepo si)) (si_githubIssueNumber si)
              (Some milestoneId))
       (w_status W) (\<lambda>status.
       if status > 201 then fail500 (''Could not add milestone for '' @ ticketName x @ ''.'')
       else
         done_with (''Added milestone to #'' @ show_nat (si_githubIssueNumber si) @ '' for ''
           @ ticketName x @ ''.''))"

definition cycle_change :: "config \<Rightarrow> world \<Rightarrow> scope \<Rightarrow> syncedIssue \<Rightarrow> block" where
  \<open>cycle_change C W x si =
     (if uf_cycleId (updatedFrom x) \<noteq> None \<and> actionType x = ''Issue'' then
        (if \<not> truthy (d_cycleId (data x)) then
           await (SetIssueMilestone (repoName (si_GitHubRepo si)) (si_githubIssueNumber si) None)
             (w_status W) (\<lambda>status.
             if status > 201 then
               fail500 (''Could not remove milestone for '' @ ticketName x @ ''.'')
             else done_with (''Removed milestone for '' @ ticketName x @ ''.''))
         else
           (\<lambda>s.
             (case find (\<lambda>m. ms_cycleId m = the (d_cycleId (data x))
                             \<and> ms_linearTeamId m = sy_linearTeamId (sc_sync x))
                     (milestones s) of
                Some syncedMilestone \<Rightarrow> applyMilestone W x si (ms_milestoneId syncedMilestone)
              | None \<Rightarrow>
                  await (GetLinearCycle (the (d_cycleId (data x)))) (w_cycle W) (\<lambda>cycle.
                    case cycle of
                      None \<Rightarrow> fail500 (''Could not find cycle for '' @ ticketName x @ ''.'')
                    | Some cy \<Rightarrow>
                        if (case cy_description cy of
                              None \<Rightarrow> False
                            | Some d \<Rightarrow> str_includes d (getSyncFooter C))
                        then
                          done_with (''Skipping over cycle "'' @ show_nullable (cy_name cy)
                            @ ''" because it is caused by sync'')
                        else
                          await (CreateMilestone (repoName (si_GitHubRepo si))
                                   (milestoneTitle C cy)
                                   (show_nullable (cy_description cy) @ [CHR 0x0A, CHR 0x0A]
                                      @ ''> '' @ getSyncFooter C)
                                   (if cy_endsAt cy > w_today W then ''open'' else ''closed''))
                            (w_milestone W) (\<lambda>createdMilestone.
                            if \<not> truthy_num createdMilestone then
                              fail500 (''Could not create milestone for '' @ ticketName x
                                @ ''.'')
                            else
                              (\<lambda>s. applyMilestone W x si (the createdMilestone)
                                 (s\<lparr>milestones := milestones s @
                                    [\<lparr>ms_milestoneId = the createdMilestone,
                                      ms_cycleId = the (d_cycleId (data x)),
                                      ms_linearTeamId = sy_linearTeamId (sc_sync x),
                                      ms_githubRepoId = si_githubRepoId si\<rparr>]\<rparr>))))) s))
      else next_stmt)\<close>

definition state_change :: "config \<Rightarrow> world \<Rightarrow> scope \<Rightarrow> syncedIssue \<Rightarrow> block" where
  "state_change C W x si =
     (if truthy (uf_stateId (updatedFrom x)) then
        await (GotPatch (issueEndpoint C si)
                 (State
                    (if d_stateId (data x) \<in> {Some (doneStateId (sc_team x)),
                                               Some (canceledStateId (sc_team x))}
                     then ''closed'' else ''open'')
                    (if Some (doneStateId (sc_team x)) = d_stateId (data x) then ''completed''
                     else ''not_planned'')))
          (w_status W) (\<lambda>statusCode.
          console_log
            (if statusCode > 201 then getIssueUpdateError C ''state'' (data x) si statusCode
             else
               ''Updated GitHub issue state for '' @ ticketName x @ '' ['' @ d_id (data x)
                 @ ''] on GitHub issue #'' @ show_nat (si_githubIssueNumber si) @ '' [''
                 @ show_nat (si_githubIssueId si) @ ''].'')
            next_stmt)
      else next_stmt)"

text \<open>
  The assignee reconciler (lines 758 to 848). \<open>newAssignee\<close> is
  \<^verbatim>\<open>newAssignee?.githubUsername\<close>, \<open>None\<close> when it is undefined.
\<close>

definition assignee_change :: "config \<Rightarrow> world \<Rightarrow> scope \<Rightarrow> syncedIssue \<Rightarrow> block" where
  "assignee_change C W x si =
     (if uf_assigneeId (updatedFrom x) \<noteq> None then
        await (GotGet (issueEndpoint C si)) (w_assignees W) (\<lambda>prevAssignees s.
          (let newAssignee =
                 (if truthy (d_assigneeId (data x))
                  then map_option us_githubUsername (findUser s (d_assigneeId (data x)))
                  else None)
           in
             if truthy (d_assigneeId (data x)) \<and> \<not> truthy newAssignee then
               console_log (''Skipping assignee for '' @ ticketName x
                   @ '' as no GitHub username was found for Linear user ''
                   @ show_string (d_assigneeId (data x)) @ ''.'')
                 next_stmt
             else if (case prevAssignees of None \<Rightarrow> False | Some prev \<Rightarrow> newAssignee \<in> set prev)
             then
               console_log (''Skipping assignee for '' @ ticketName x @ '' as Linear user ''
                   @ show_string (d_assigneeId (data x)) @ '' is already assigned.'')
                 next_stmt
             else
               await (GotPost (issueEndpoint C si @ ''/assignees'') (Assignees [newAssignee]))
                 (w_status W) (\<lambda>statusCode.
                 console_log
                   (if statusCode > 201 then
                      getIssueUpdateError C ''assignee'' (data x) si statusCode
                    else
                      ''Added assignee to GitHub issue #'' @ show_nat (si_githubIssueNumber si)
                        @ '' for '' @ ticketName x @ ''.'')
                   (await (GotDelete (issueEndpoint C si @ ''/assignees'')
                             (Some (PrevAssignees prevAssignees)))
                      (w_status W) (\<lambda>statusCode.
                      console_log
                        (if statusCode > 201 then
                           getIssueUpdateError C ''assignee'' (data x) si statusCode
                         else
                           ''Removed assignee from GitHub issue #''
                             @ show_nat (si_githubIssueNumber si) @ '' for '' @ ticketName x
                             @ ''.'')
                        next_stmt)))) s)
      else next_stmt)"

text \<open>
  The priority reconciler (lines 850 to 922), in its three steps: the look-up of both
  labels, the removal of the old label inside \<^verbatim>\<open>try\<close>/\<^verbatim>\<open>catch\<close>, the creation and
  application of the new one.
\<close>

definition priority_add :: "config \<Rightarrow> world \<Rightarrow> scope \<Rightarrow> syncedIssue \<Rightarrow> label \<Rightarrow> label \<Rightarrow> block" where
  \<open>priority_add C W x si prevPriorityLabel priorityLabel =
     (if d_priority (data x) = Some 0 then
        ret (''Removed priority label "'' @ label_name prevPriorityLabel @ ''" from issue #''
          @ show_nat (si_githubIssueNumber si) @ ''.'')
      else
        await (CreateLabel (repoFullName x) priorityLabel) (w_createLabel W) (\<lambda>r.
          if createLabelError r then throw (ApiError ''Could not create label.'' 403)
          else
            await (ApplyLabel (repoName (si_GitHubRepo si)) (si_githubIssueNumber si)
                     [labelNameOf r priorityLabel])
              (w_error W) (\<lambda>applyLabelError.
              if applyLabelError then throw (ApiError ''Could not apply label.'' 403)
              else
                ret (''Applied priority label "'' @ labelNameOf r priorityLabel
                  @ ''" to issue #'' @ show_nat (si_githubIssueNumber si) @ ''.''))))\<close>

definition priority_remove :: "config \<Rightarrow> world \<Rightarrow> syncedIssue \<Rightarrow> label \<Rightarrow> block" where
  \<open>priority_remove C W si prevPriorityLabel =
     try_catch
       (await (GotDelete (issueEndpoint C si @ ''/labels/'' @ label_name prevPriorityLabel) None)
          (w_status W) (\<lambda>statusCode.
          console_log
            (if statusCode > 201 then
               ''Did not remove priority label "'' @ label_name prevPriorityLabel @ ''".''
             else
               ''Removed priority "'' @ label_name prevPriorityLabel @ ''" from issue #''
                 @ show_nat (si_githubIssueNumber si) @ ''.'')
            next_stmt))
       (console_log ''Could not remove previous priority label.'' next_stmt)\<close>

definition priority_change :: "config \<Rightarrow> world \<Rightarrow> scope \<Rightarrow> syncedIssue \<Rightarrow> block" where
  "priority_change C W x si =
     (case uf_priority (updatedFrom x) of
        None \<Rightarrow> next_stmt
      | Some prev \<Rightarrow>
          (case (priorityLabelOf C (d_priority (data x)), priorityLabelOf C prev) of
             (Some priorityLabel, Some prevPriorityLabel) \<Rightarrow>
               seq (priority_remove C W si prevPriorityLabel)
                 (priority_add C W x si prevPriorityLabel priorityLabel)
           | _ \<Rightarrow>
               throw (ApiError (''Could not find a priority label for '' @ show_null prev
                        @ '' or '' @ show_number (d_priority (data x)) @ ''.'') 403)))"

text \<open>The estimate reconciler (lines 924 to 991), in the same steps.\<close>

definition estimate_add :: "config \<Rightarrow> world \<Rightarrow> scope \<Rightarrow> syncedIssue \<Rightarrow> string \<Rightarrow> block" where
  \<open>estimate_add C W x si prevLabelName =
     (if \<not> truthy_num (d_estimate (data x)) then
        ret (''Removed estimate label "'' @ prevLabelName @ ''" from issue #''
          @ show_nat (si_githubIssueNumber si) @ ''.'')
      else
        (let estimateLabel = \<lparr>label_name = show_number (d_estimate (data x)) @ '' points'',
                               label_color = ''666''\<rparr>
         in
           await (CreateLabel (repoFullName x) estimateLabel) (w_createLabel W) (\<lambda>r.
             if createLabelError r then
               console_log ''Could not create estimate label.''
                 (throw (ApiError ''Could not create estimate label.'' 403))
             else
               await (ApplyLabel (repoName (si_GitHubRepo si)) (si_githubIssueNumber si)
                        [labelNameOf r estimateLabel])
                 (w_error W) (\<lambda>applyLabelError.
                 if applyLabelError then
                   console_log ''Could not apply label.''
                     (throw (ApiError ''Could not apply label.'' 403))
                 else
                   console_log (''Applied estimate label "'' @ labelNameOf r estimateLabel
                       @ ''" to issue #'' @ show_nat (si_githubIssueNumber si) @ ''.'')
                     next_stmt))))\<close>

definition estimate_change :: "config \<Rightarrow> world \<Rightarrow> scope \<Rightarrow> syncedIssue \<Rightarrow> block" where
  \<open>estimate_change C W x si =
     (case uf_estimate (updatedFrom x) of
        None \<Rightarrow> next_stmt
      | Some prev \<Rightarrow>
          (let prevLabelName = show_null prev @ '' points'' in
           await (GotDelete (issueEndpoint C si @ ''/labels/'' @ prevLabelName) None)
             (w_status W) (\<lambda>statusCode.
             console_log
               (if statusCode > 201 then
                  ''Did not remove estimate label "'' @ prevLabelName @ ''".''
                else
                  ''Removed estimate "'' @ prevLabelName @ ''" from issue #''
                    @ show_nat (si_githubIssueNumber si) @ ''.'')
               (estimate_add C W x si prevLabelName))))\<close>

subsection \<open>The update branch (lines 186 to 991)\<close>

definition label_change :: "config \<Rightarrow> world \<Rightarrow> scope \<Rightarrow> syncedIssue option \<Rightarrow> block" where
  "label_change C W x syncedIssue =
     (case uf_labelIds (updatedFrom x) of
        None \<Rightarrow> next_stmt
      | Some prev \<Rightarrow>
          if publicLabelId (sc_team x) \<in> set prev then label_updated C W x syncedIssue prev
          else
            (case d_labelIds (data x) of
               None \<Rightarrow> next_stmt
             | Some cur \<Rightarrow>
                 if publicLabelId (sc_team x) \<in> set cur
                 then public_label_added C W x syncedIssue cur
                 else next_stmt))"

definition field_changes :: "config \<Rightarrow> world \<Rightarrow> scope \<Rightarrow> syncedIssue \<Rightarrow> block" where
  "field_changes C W x si =
     seq (title_change C W x si)
       (seq (description_change C W x si)
          (seq (cycle_change C W x si)
             (seq (state_change C W x si)
                (seq (assignee_change C W x si)
                   (seq (priority_change C W x si)
                      (estimate_change C W x si))))))"

definition update :: "config \<Rightarrow> world \<Rightarrow> scope \<Rightarrow> syncedIssue option \<Rightarrow> block" where
  "update C W x syncedIssue =
     seq (label_change C W x syncedIssue)
       (case syncedIssue of
          None \<Rightarrow>
            console_log (skipReason C ''edit'' (ticketName x) False)
              (ret (skipReason C ''edit'' (ticketName x) False))
        | Some si \<Rightarrow> field_changes C W x si)"

subsection \<open>The create branch (lines 992 to 1248)\<close>

definition comment_created :: "config \<Rightarrow> world \<Rightarrow> scope \<Rightarrow> block" where
  "comment_created C W x =
     (if str_includes (d_id (data x)) (UUID_SUFFIX C) then
        (case d_issue (data x) of
           None \<Rightarrow> throw TypeError
         | Some i \<Rightarrow>
             console_log (skipReason C ''comment'' i True) (ret (skipReason C ''comment'' i True)))
      else if internalComment C (d_body (data x)) then
        done_with (''Skipping syncing internal Gerrit comment for issue #''
          @ show_string (d_issue (data x)))
      else
        (\<lambda>s.
          (case find (\<lambda>r. prisma_where (d_issueId (data x)) (si_linearIssueId r)) (issues s) of
             None \<Rightarrow>
               console_log (skipReason C ''comment''
                   (show_string (d_team (data x)) @ ''-'' @ show_number (d_number (data x))) False)
                 (ret (skipReason C ''comment''
                   (show_string (d_team (data x)) @ ''-'' @ show_number (d_number (data x)))
                   False))
           | Some syncedIssue \<Rightarrow>
               await (ReplaceMentions (d_body (data x))) (w_text W) (\<lambda>modifiedBody.
                 await (CreateComment (repoName (si_GitHubRepo syncedIssue))
                          (si_githubIssueNumber syncedIssue)
                          ((case modifiedBody of None \<Rightarrow> [] | Some m \<Rightarrow> m)
                             @ getGitHubFooter C (d_user (data x))))
                   (w_error W) (\<lambda>commentError.
                   console_log
                     (if commentError then
                        ''Failed to update GitHub issue state for ''
                          @ show_string (d_issue (data x)) @ '' on GitHub issue #''
                          @ show_nat (si_githubIssueNumber syncedIssue) @ ''.''
                      else
                        ''Synced comment ['' @ d_id (data x) @ ''] for ''
                          @ show_string (d_issue (data x)) @ '' on GitHub issue #''
                          @ show_nat (si_githubIssueNumber syncedIssue) @ '' [''
                          @ show_nat (si_githubIssueId syncedIssue) @ ''].'')
                     next_stmt))) s))"

text \<open>
  What follows a created issue here: the body of the response is parsed (line 1120), then
  come the Issue Link, the labels, the invitation.
\<close>

definition linkNewIssue :: "config \<Rightarrow> world \<Rightarrow> scope \<Rightarrow> createdIssueResponse \<Rightarrow> string list \<Rightarrow> block" where
  "linkNewIssue C W x createdIssueResponse cur =
     (case JSON_parse C (cr_body createdIssueResponse) of
        None \<Rightarrow> throw SyntaxError
      | Some createdIssueData \<Rightarrow>
          persistIssueLink C W x createdIssueData (\<lambda>githubIssueId githubIssueNumber.
            seq (replayLabels C W x githubIssueNumber cur)
              (if \<not> someSync x (d_creatorId (data x)) then
                 await (InviteMember (d_creatorId (data x)) (d_teamId (data x))
                          (repoFullName x))
                   (w_done W) (\<lambda>_. next_stmt)
               else next_stmt)))"

definition issue_created :: "config \<Rightarrow> world \<Rightarrow> scope \<Rightarrow> syncedIssue option \<Rightarrow> block" where
  "issue_created C W x syncedIssue =
     (case (case d_labelIds (data x) of
              None \<Rightarrow> None
            | Some cur \<Rightarrow> if publicLabelId (sc_team x) \<in> set cur then Some cur else None) of
        None \<Rightarrow> done_with ''Issue is not labeled as public''
      | Some cur \<Rightarrow>
          (case syncedIssue of
             Some si \<Rightarrow>
               done_with (''Not creating issue after label added as issue '' @ ticketName x
                 @ '' already exists on GitHub as #'' @ show_nat (si_githubIssueNumber si)
                 @ ''.'')
           | None \<Rightarrow>
               if str_includes (d_id (data x)) (UUID_SUFFIX C) then
                 done_with (skipReason C ''issue'' (d_id (data x)) True)
               else
                 modifiedDescription C W x (\<lambda>md s.
                   await (GotPost (issuesEndpoint x)
                            (newIssue C x md (findUser s (d_assigneeId (data x)))))
                     (w_createdIssue W) (\<lambda>createdIssueResponse.
                     if cr_statusCode createdIssueResponse > 201 then
                       createFailed C x createdIssueResponse
                     else linkNewIssue C W x createdIssueResponse cur) s)))"

subsection \<open>The handler\<close>

text \<open>Lines 103 to 123: the Sync Links of the actor, and the first one of the event's team.\<close>

definition findSyncs :: "state \<Rightarrow> issueData \<Rightarrow> sync list" where
  "findSyncs s d = filter (\<lambda>sy. prisma_where (actor d) (sy_linearUserId sy)) (syncs s)"

definition isMatching :: "issueData \<Rightarrow> sync \<Rightarrow> bool" where
  "isMatching d sy =
     (Some (sy_linearUserId sy) = actor d
      \<and> (if truthy (d_teamId d) then Some (sy_linearTeamId sy) = d_teamId d else True))"

text \<open>Lines 178 to 184: the Issue Link of the ticket.\<close>

definition findSyncedIssue :: "state \<Rightarrow> issueData \<Rightarrow> syncedIssue option" where
  "findSyncedIssue s d =
     find (\<lambda>r. si_linearIssueId r = d_id d \<and> prisma_where (d_teamId d) (si_linearTeamId r))
       (issues s)"

definition dispatch :: "config \<Rightarrow> world \<Rightarrow> scope \<Rightarrow> syncedIssue option \<Rightarrow> block" where
  "dispatch C W x syncedIssue =
     (if p_action (sc_body x) = ''update'' then update C W x syncedIssue
      else if p_action (sc_body x) = ''create'' then
        (if actionType x = ''Comment'' then comment_created C W x
         else if actionType x = ''Issue'' then issue_created C W x syncedIssue
         else next_stmt)
      else next_stmt)"

definition handler :: "config \<Rightarrow> world \<Rightarrow> payload \<Rightarrow> string \<Rightarrow> block" where
  \<open>handler C W body originIp s =
     (if originIp \<notin> set (IP_ORIGINS C) then
        console_log ''Could not verify Linear webhook.''
          (throw (Error ''Could not verify Linear webhook.'')) s
      else
        (let found = findSyncs s (p_data body) in
         case (if found = [] then None else find (isMatching (p_data body)) found) of
           None \<Rightarrow> done_with ''Could not find Linear user in syncs.'' s
         | Some sy \<Rightarrow>
             (case (sy_LinearTeam sy, sy_GitHubRepo sy) of
                (Some team, Some repo) \<Rightarrow>
                  await (UpsertUser (sy_githubUserId sy) (sy_linearUserId sy))
                    (\<lambda>trace. w_upsertUser W trace (users s)) (\<lambda>mapped s'.
                    (let s'' = s'\<lparr>users := mapped\<rparr> in
                     dispatch C W
                       \<lparr>sc_body = body, sc_syncs = found, sc_sync = sy, sc_team = team,
                        sc_repo = repo\<rparr>
                       (findSyncedIssue s'' (p_data body)) s'')) s
              | _ \<Rightarrow>
                  console_log ''Could not find ticket's corresponding repo.''
                    (throw (ApiError ''Could not find ticket's corresponding repo.'' 404)) s)))\<close>

text \<open>
  The promise of the handler: rejected with an error, or resolved with the returned
  string, or with \<^verbatim>\<open>undefined\<close> when the body runs to its end.
\<close>

definition linearWebhookHandler :: "config \<Rightarrow> world \<Rightarrow> payload \<Rightarrow> string \<Rightarrow> state \<Rightarrow> (error + string option) \<times> state" where
  "linearWebhookHandler C W body originIp s =
     (case handler C W body originIp s of
        (Raise e, s') \<Rightarrow> (Inl e, s')
      | (Return r, s') \<Rightarrow> (Inr (Some r), s')
      | (Next, s') \<Rightarrow> (Inr None, s'))"

subsection \<open>Vocabulary of the statements\<close>

text \<open>
  The event passes the first part of the handler (lines 90 to 176): the origin is on the
  allow-list, \<open>sy\<close> is the Sync Link found for the actor, it has its team \<open>team\<close> and its
  repository \<open>repo\<close>, and \<^verbatim>\<open>upsertUser\<close> comes back with the table \<open>mapped\<close> of
  identity mappings.
\<close>

definition accepted :: "config \<Rightarrow> world \<Rightarrow> payload \<Rightarrow> string \<Rightarrow> state \<Rightarrow> sync \<Rightarrow> linearTeam \<Rightarrow> githubRepo \<Rightarrow> user list \<Rightarrow> bool" where
  "accepted C W body originIp s sy team repo mapped =
     (originIp \<in> set (IP_ORIGINS C)
      \<and> find (isMatching (p_data body)) (findSyncs s (p_data body)) = Some sy
      \<and> sy_LinearTeam sy = Some team
      \<and> sy_GitHubRepo sy = Some repo
      \<and> w_upsertUser W (calls s @ [UpsertUser (sy_githubUserId sy) (sy_linearUserId sy)])
            (users s) = Some mapped)"

text \<open>The scope and the state with which the handler then reaches its dispatch.\<close>

definition scope_of :: "payload \<Rightarrow> state \<Rightarrow> sync \<Rightarrow> linearTeam \<Rightarrow> githubRepo \<Rightarrow> scope" where
  "scope_of body s sy team repo =
     \<lparr>sc_body = body, sc_syncs = findSyncs s (p_data body), sc_sync = sy, sc_team = team,
      sc_repo = repo\<rparr>"

definition entered :: "state \<Rightarrow> sync \<Rightarrow> user list \<Rightarrow> state" where
  "entered s sy mapped =
     s\<lparr>calls := calls s @ [UpsertUser (sy_githubUserId sy) (sy_linearUserId sy)],
       users := mapped\<rparr>"

text \<open>The calls a block adds to the trace of the state it starts from.\<close>

definition calls_of :: "block \<Rightarrow> state \<Rightarrow> call list" where
  "calls_of b s = drop (length (calls s)) (calls (snd (b s)))"

text \<open>The calls one run of the handler adds to the trace.\<close>

definition calls_made :: "config \<Rightarrow> world \<Rightarrow> payload \<Rightarrow> string \<Rightarrow> state \<Rightarrow> call list" where
  "calls_made C W body originIp s =
     drop (length (calls s)) (calls (snd (linearWebhookHandler C W body originIp s)))"

text \<open>Two states with the same rows in every table.\<close>

definition same_tables :: "state \<Rightarrow> state \<Rightarrow> bool" where
  "same_tables s s' =
     (syncs s' = syncs s \<and> users s' = users s \<and> issues s' = issues s
      \<and> milestones s' = milestones s)"

text \<open>The calls of the create-label path: \<^verbatim>\<open>createLabel\<close> and \<^verbatim>\<open>applyLabel\<close>.\<close>

fun create_label_path :: "call \<Rightarrow> bool" where
  "create_label_path (CreateLabel _ _) = True"
| "create_label_path (ApplyLabel _ _ _) = True"
| "create_label_path _ = False"

text \<open>What an update of a synced issue runs before it reaches the priority reconciler.\<close>

definition before_priority :: "config \<Rightarrow> world \<Rightarrow> scope \<Rightarrow> syncedIssue \<Rightarrow> block" where
  "before_priority C W x si =
     seq (label_change C W x (Some si))
       (seq (title_change C W x si)
          (seq (description_change C W x si)
             (seq (cycle_change C W x si)
                (seq (state_change C W x si) (assignee_change C W x si)))))"

text \<open>A block that leaves the table of Issue Links as it found it.\<close>

definition keeps_issues :: "block \<Rightarrow> bool" where
  "keeps_issues b = (\<forall>s. issues (snd (b s)) = issues s)"

text \<open>
  A block that, unless it ends with an error, adds one row to the table of Issue Links:
  the Issue Link of the event's ticket and team.
\<close>

definition links :: "scope \<Rightarrow> block \<Rightarrow> bool" where
  "links x b =
     (\<forall>s. (\<forall>e. fst (b s) \<noteq> Raise e) \<longrightarrow>
        (\<exists>row. issues (snd (b s)) = issues s @ [row]
           \<and> si_linearIssueId row = d_id (data x)
           \<and> d_teamId (data x) = Some (si_linearTeamId row)))"

subsection \<open>A deployment on which the statements are exercised\<close>

definition the_repo :: githubRepo where
  "the_repo = \<lparr>repoId = 11, repoName = ''acme/app''\<rparr>"

definition the_team :: linearTeam where
  "the_team = \<lparr>publicLabelId = ''public'', canceledStateId = ''canceled'', doneStateId = ''done''\<rparr>"

definition the_sync :: sync where
  "the_sync =
     \<lparr>sy_githubUserId = 5, sy_linearUserId = ''ann'', sy_linearTeamId = ''team-eng'',
      sy_LinearTeam = Some the_team, sy_GitHubRepo = Some the_repo\<rparr>"

definition the_link :: syncedIssue where
  "the_link =
     \<lparr>si_id = 1, si_githubIssueNumber = 7, si_linearIssueNumber = 42, si_githubIssueId = 700,
      si_linearIssueId = ''issue-42'', si_linearTeamId = ''team-eng'', si_githubRepoId = 11,
      si_GitHubRepo = the_repo\<rparr>"

text \<open>The same ticket linked under another team.\<close>

definition other_link :: syncedIssue where
  "other_link = the_link\<lparr>si_id := 2, si_linearTeamId := ''team-ops''\<rparr>"

text \<open>
  The strings of this deployment are ASCII; on them \<^verbatim>\<open>toLowerCase\<close> and \<^verbatim>\<open>trim\<close> are
  the two functions below, and the two bodies GitHub answers with are parsed as
  \<^verbatim>\<open>JSON.parse\<close> does.
\<close>

definition ascii_toLowerCase :: "string \<Rightarrow> string" where
  "ascii_toLowerCase s =
     map (\<lambda>c. let n = (of_char c :: nat) in if 65 \<le> n \<and> n \<le> 90 then char_of (n + 32) else c) s"

definition isSpace :: "char \<Rightarrow> bool" where
  "isSpace c = ((of_char c :: nat) \<in> {9, 10, 11, 12, 13, 32})"

definition ascii_trim :: "string \<Rightarrow> string" where
  "ascii_trim s = rev (dropWhile isSpace (rev (dropWhile isSpace s)))"

definition the_config :: config where
  \<open>the_config =
     \<lparr>IP_ORIGINS = [''35.231.147.226''],
      ALLOWED_LABELS = [''bug''],
      GERRIT_COMMENT_PREFIX = ''Gerrit'',
      REPO_ENDPOINT = ''https://api.github.com/repos'',
      UUID_SUFFIX = ''decafbad'',
      INLINE_IMG_TAG_REGEX = (\<lambda>_. False),
      PRIORITY_LABELS =
        (\<lambda>n. if n = 0 then Some \<lparr>label_name = ''No priority'', label_color = ''ccc''\<rparr>
             else if n = 1 then Some \<lparr>label_name = ''Urgent'', label_color = ''f00''\<rparr>
             else if n = 2 then Some \<lparr>label_name = ''High'', label_color = ''f80''\<rparr>
             else if n = 3 then Some \<lparr>label_name = ''Medium'', label_color = ''fc0''\<rparr>
             else None),
      disableLinearMetadata = False,
      skipReason = (\<lambda>resource ticket causedBySync. ''Skipping over '' @ resource @ '' for '' @ ticket),
      getSyncFooter = ''From SyncLinear.com'',
      getGitHubFooter = (\<lambda>_. '' (via Linear)''),
      getIssueUpdateError = (\<lambda>resource _ _ _. ''Failed to update '' @ resource),
      formatJSON = (\<lambda>_. ''{}''),
      getAttachmentQuery = (\<lambda>_ _ _. ''attachmentCreate''),
      isNumber = (\<lambda>_. False),
      toLowerCase = ascii_toLowerCase,
      trim = ascii_trim,
      JSON_parse =
        (\<lambda>b. if b = ''{"id":700,"number":7}''
             then Some \<lparr>cd_id = Some 700, cd_number = Some 7\<rparr>
             else if b = ''{"message":"Validation Failed"}''
             then Some \<lparr>cd_id = None, cd_number = None\<rparr>
             else None)\<rparr>\<close>

text \<open>A world in which every call succeeds, and the same with one answer changed.\<close>

definition the_world :: world where
  \<open>the_world =
     \<lparr>w_upsertUser = (\<lambda>_ mapped. Some mapped),
      w_issueLabel = (\<lambda>_. Some (Some \<lparr>label_name = ''Bug'', label_color = ''d73a4a''\<rparr>)),
      w_issue = (\<lambda>_. Some (Some \<lparr>li_description = None\<rparr>)),
      w_comments = (\<lambda>_. Some [Some \<lparr>lc_body = Some ''First'', lc_displayName = ''Ann''\<rparr>]),
      w_text = (\<lambda>_. Some (Some ''text'')),
      w_status = (\<lambda>_. Some 200),
      w_createdIssue =
        (\<lambda>_. Some \<lparr>cr_statusCode = 201, cr_body = ''{"id":700,"number":7}''\<rparr>),
      w_assignees = (\<lambda>_. Some (Some [Some ''al-gh''])),
      w_createLabel = (\<lambda>_. Some \<lparr>createdLabel = None, createLabelError = False\<rparr>),
      w_error = (\<lambda>_. Some False),
      w_done = (\<lambda>_. Some ()),
      w_attachment = (\<lambda>_. Some \<lparr>at_success = True, at_text = []\<rparr>),
      w_cycle = (\<lambda>_. Some None),
      w_milestone = (\<lambda>_. Some None),
      w_today = 0\<rparr>\<close>

definition failing_status :: world where
  "failing_status = the_world\<lparr>w_status := (\<lambda>_. Some 404)\<rparr>"

definition failing_create :: world where
  \<open>failing_create =
     the_world\<lparr>w_createdIssue :=
       (\<lambda>_. Some \<lparr>cr_statusCode = 422, cr_body = ''{"message":"Validation Failed"}''\<rparr>)\<rparr>\<close>

definition failing_comment :: world where
  "failing_comment = the_world\<lparr>w_error := (\<lambda>_. Some True)\<rparr>"

definition failing_label :: world where
  "failing_label =
     the_world\<lparr>w_createLabel := (\<lambda>_. Some \<lparr>createdLabel = None, createLabelError = True\<rparr>)\<rparr>"

definition the_state :: state where
  "the_state =
     \<lparr>syncs = [the_sync],
      users = [\<lparr>us_githubUsername = ''bob-gh'', us_linearUserId = ''bob''\<rparr>],
      issues = [the_link],
      milestones = [\<lparr>ms_milestoneId = 3, ms_cycleId = ''cycle-9'', ms_linearTeamId = ''team-eng'',
                     ms_githubRepoId = 11\<rparr>],
      calls = [],
      logs = []\<rparr>"

definition unlinked_state :: state where
  "unlinked_state = the_state\<lparr>issues := []\<rparr>"

text \<open>The ticket ENG-42 as Linear sends it, and an empty delta.\<close>

definition the_data :: issueData where
  "the_data =
     \<lparr>d_id = ''issue-42'', d_userId = None, d_creatorId = Some ''ann'',
      d_teamId = Some ''team-eng'', d_team = Some ''ENG'', d_number = Some 42,
      d_title = ''Crash on start'', d_description = Some ''It crashes.'',
      d_labelIds = Some [''public''], d_assigneeId = None, d_priority = Some 0,
      d_estimate = None, d_cycleId = None, d_stateId = Some ''todo'', d_body = None,
      d_issueId = None, d_issue = None, d_user = None\<rparr>"

definition no_delta :: updatedFrom where
  "no_delta =
     \<lparr>uf_labelIds = None, uf_title = None, uf_description = None, uf_cycleId = None,
      uf_stateId = None, uf_assigneeId = None, uf_priority = None, uf_estimate = None\<rparr>"

definition update_event :: "issueData \<Rightarrow> updatedFrom \<Rightarrow> payload" where
  "update_event d u =
     \<lparr>p_action = ''update'', p_type = ''Issue'', p_data = d, p_updatedFrom = u,
      p_url = ''https://linear.app/acme/issue/ENG-42''\<rparr>"

definition create_event :: "string \<Rightarrow> issueData \<Rightarrow> payload" where
  "create_event t d =
     \<lparr>p_action = ''create'', p_type = t, p_data = d, p_updatedFrom = no_delta,
      p_url = ''https://linear.app/acme/issue/ENG-42''\<rparr>"

text \<open>The public label added to ENG-42, as an update and as the creation of the ticket.\<close>

definition made_visible :: payload where
  "made_visible = update_event the_data (no_delta\<lparr>uf_labelIds := Some []\<rparr>)"

definition created_visible :: payload where
  "created_visible = create_event ''Issue'' the_data"

text \<open>The public label removed from ENG-42, in a store that also links it under another team.\<close>

definition made_private :: payload where
  "made_private =
     update_event (the_data\<lparr>d_labelIds := Some []\<rparr>) (no_delta\<lparr>uf_labelIds := Some [''public'']\<rparr>)"

definition two_links :: state where
  "two_links = the_state\<lparr>issues := [the_link, other_link]\<rparr>"

text \<open>The public label and another label removed from ENG-42 by one update.\<close>

definition public_and_bug_removed :: payload where
  "public_and_bug_removed =
     update_event (the_data\<lparr>d_labelIds := Some []\<rparr>)
       (no_delta\<lparr>uf_labelIds := Some [''l-bug'', ''public'']\<rparr>)"

text \<open>
  Other events on ENG-42: a label removed together with an estimate change, a label added,
  a cycle set together with a state change, a state change alone, a new assignee, a
  priority change from a value without a label, and a comment (which carries no team).
\<close>

definition label_removed :: payload where
  "label_removed =
     update_event (the_data\<lparr>d_estimate := Some 3\<rparr>)
       (no_delta\<lparr>uf_labelIds := Some [''public'', ''l-bug''], uf_estimate := Some (Some 2)\<rparr>)"

definition label_added :: payload where
  "label_added =
     update_event (the_data\<lparr>d_labelIds := Some [''public'', ''l-new'']\<rparr>)
       (no_delta\<lparr>uf_labelIds := Some [''public'']\<rparr>)"

definition cycle_and_state :: payload where
  "cycle_and_state =
     update_event (the_data\<lparr>d_cycleId := Some ''cycle-9'', d_stateId := Some ''done''\<rparr>)
       (no_delta\<lparr>uf_cycleId := Some None, uf_stateId := Some ''todo''\<rparr>)"

definition state_only :: payload where
  "state_only =
     update_event (the_data\<lparr>d_stateId := Some ''done''\<rparr>) (no_delta\<lparr>uf_stateId := Some ''todo''\<rparr>)"

definition reassigned :: payload where
  "reassigned =
     update_event (the_data\<lparr>d_assigneeId := Some ''bob''\<rparr>)
       (no_delta\<lparr>uf_assigneeId := Some (Some ''al'')\<rparr>)"

definition priority_changed :: payload where
  "priority_changed =
     update_event (the_data\<lparr>d_priority := Some 2\<rparr>) (no_delta\<lparr>uf_priority := Some (Some 7)\<rparr>)"

definition priority_raised :: payload where
  "priority_raised =
     update_event (the_data\<lparr>d_priority := Some 2\<rparr>) (no_delta\<lparr>uf_priority := Some (Some 3)\<rparr>)"

definition title_and_priority :: payload where
  "title_and_priority =
     update_event (the_data\<lparr>d_priority := Some 2\<rparr>)
       (no_delta\<lparr>uf_title := Some ''Crash'', uf_priority := Some (Some 7)\<rparr>)"

definition estimate_changed :: payload where
  "estimate_changed =
     update_event (the_data\<lparr>d_estimate := Some 3\<rparr>) (no_delta\<lparr>uf_estimate := Some (Some 2)\<rparr>)"

definition title_changed :: payload where
  "title_changed = update_event the_data (no_delta\<lparr>uf_title := Some ''Crash''\<rparr>)"

definition commented :: payload where
  "commented =
     create_event ''Comment''
       (the_data\<lparr>d_id := ''comment-1'', d_userId := Some ''ann'', d_teamId := None,
          d_team := None, d_number := None, d_body := Some ''Looks good'',
          d_issueId := Some ''issue-42'', d_issue := Some ''issue-42'',
          d_user := Some ''Ann''\<rparr>)"

definition other_team_only :: state where
  "other_team_only = the_state\<lparr>issues := [other_link]\<rparr>"

text \<open>
  A store in which the link of ENG-42 under the other team, to the GitHub issue 9, comes
  before its link under the team of the events.
\<close>

definition ops_link :: syncedIssue where
  "ops_link = other_link\<lparr>si_githubIssueNumber := 9, si_githubIssueId := 900\<rparr>"

definition both_teams :: state where
  "both_teams = the_state\<lparr>issues := [ops_link, the_link]\<rparr>"

text \<open>A world whose Linear labels are all called Internal.\<close>

definition internal_label :: world where
  "internal_label =
     the_world\<lparr>w_issueLabel :=
       (\<lambda>_. Some (Some \<lparr>label_name = ''Internal'', label_color = ''000''\<rparr>))\<rparr>"

text \<open>A world whose status calls throw, and the answers of the worlds above by name.\<close>

definition throwing_status :: world where
  "throwing_status = the_world\<lparr>w_status := (\<lambda>_. None)\<rparr>"

definition bug_label :: label where
  "bug_label = \<lparr>label_name = ''Bug'', label_color = ''d73a4a''\<rparr>"

definition high_label :: label where
  "high_label = \<lparr>label_name = ''High'', label_color = ''f80''\<rparr>"

definition medium_label :: label where
  "medium_label = \<lparr>label_name = ''Medium'', label_color = ''fc0''\<rparr>"

definition label_refused :: createLabelResult where
  "label_refused = \<lparr>createdLabel = None, createLabelError = True\<rparr>"

definition three_points :: label where
  "three_points = \<lparr>label_name = ''3 points'', label_color = ''666''\<rparr>"

definition label_exists :: createLabelResult where
  "label_exists = \<lparr>createdLabel = None, createLabelError = False\<rparr>"

section \<open>Properties of the handler\<close>

subsection \<open>Evaluation and the first part of the handler\<close>

lemmas block_defs = await_def console_log_def throw_def ret_def next_stmt_def seq_def
  done_with_def fail500_def try_catch_def

lemmas fixture_defs = the_config_def the_world_def the_state_def unlinked_state_def the_sync_def
  the_team_def the_repo_def the_link_def other_link_def the_data_def no_delta_def update_event_def create_event_def
  made_visible_def created_visible_def made_private_def two_links_def label_removed_def
  label_added_def cycle_and_state_def state_only_def reassigned_def priority_changed_def
  estimate_changed_def title_changed_def commented_def other_team_only_def internal_label_def
  throwing_status_def bug_label_def high_label_def three_points_def label_exists_def failing_status_def failing_create_def failing_comment_def
  failing_label_def priority_raised_def title_and_priority_def public_and_bug_removed_def
  ops_link_def both_teams_def medium_label_def label_refused_def

lemmas handler_defs = linearWebhookHandler_def handler_def dispatch_def update_def label_change_def
  label_updated_def public_label_added_def syncNewIssue_def issue_created_def linkNewIssue_def comment_created_def field_changes_def
  title_change_def description_change_def cycle_change_def state_change_def assignee_change_def
  priority_change_def priority_remove_def priority_add_def estimate_change_def estimate_add_def
  modifiedDescription_def internalComment_def newIssue_def issueTitle_def issueBody_def createFailed_def
  persistIssueLink_def replayLabels_def addPriorityLabel_def applyMilestone_def
  findSyncs_def isMatching_def findSyncedIssue_def findUser_def someSync_def
  data_def updatedFrom_def actionType_def repoFullName_def ticketName_def issuesEndpoint_def
  issueEndpoint_def actor_def labelNameOf_def allowed_def priorityLabelOf_def milestoneTitle_def fresh_id_def
  nullish_def truthy_def truthy_num_def show_number_def show_null_def show_string_def show_nullable_def
  prisma_where_def ascii_toLowerCase_def ascii_trim_def isSpace_def startsWith_def

lemma show_nat_7 [simp]: "show_nat 7 = ''7''"
  by code_simp

lemma show_nat_2 [simp]: "show_nat 2 = ''2''"
  by code_simp

lemma show_nat_3 [simp]: "show_nat 3 = ''3''"
  by code_simp

lemma show_nat_42 [simp]: "show_nat 42 = ''42''"
  by code_simp

lemma show_nat_700 [simp]: "show_nat 700 = ''700''"
  by code_simp

lemma show_nat_422 [simp]: "show_nat 422 = ''422''"
  by code_simp

lemma handler_accepted:
  assumes "accepted C W body originIp s sy team repo mapped"
  shows "handler C W body originIp s =
           dispatch C W (scope_of body s sy team repo)
             (findSyncedIssue s (p_data body)) (entered s sy mapped)"
  using assms
  by (auto simp: accepted_def handler_def scope_of_def entered_def await_def
      findSyncedIssue_def Let_def)

lemma scope_simps [simp]:
  "data (scope_of body s sy team repo) = p_data body"
  "updatedFrom (scope_of body s sy team repo) = p_updatedFrom body"
  "actionType (scope_of body s sy team repo) = p_type body"
  "sc_team (scope_of body s sy team repo) = team"
  "sc_repo (scope_of body s sy team repo) = repo"
  "sc_sync (scope_of body s sy team repo) = sy"
  "sc_body (scope_of body s sy team repo) = body"
  "sc_syncs (scope_of body s sy team repo) = findSyncs s (p_data body)"
  by (simp_all add: scope_of_def data_def updatedFrom_def actionType_def)

lemma entered_simps [simp]:
  "calls (entered s sy mapped) = calls s @ [UpsertUser (sy_githubUserId sy) (sy_linearUserId sy)]"
  "issues (entered s sy mapped) = issues s"
  "milestones (entered s sy mapped) = milestones s"
  "syncs (entered s sy mapped) = syncs s"
  "users (entered s sy mapped) = mapped"
  "logs (entered s sy mapped) = logs s"
  by (simp_all add: entered_def)

lemma same_tables_refl [simp]: "same_tables s s"
  by (simp add: same_tables_def)

lemma same_tables_trans: "same_tables s s' \<Longrightarrow> same_tables s' s'' \<Longrightarrow> same_tables s s''"
  by (simp add: same_tables_def)

lemma accepted_someSync:
  assumes "accepted C W body originIp s sy team repo mapped"
  shows "someSync (scope_of body s sy team repo) (actor (p_data body))"
proof -
  from assms have f: "find (isMatching (p_data body)) (findSyncs s (p_data body)) = Some sy"
    by (simp add: accepted_def)
  then have "sy \<in> set (findSyncs s (p_data body))" and "isMatching (p_data body) sy"
    by (auto simp: find_Some_iff)
  then show ?thesis
    by (auto simp: someSync_def isMatching_def)
qed

lemma seq_next_stmt [simp]: "seq next_stmt b = b"
  by (rule ext) (simp add: seq_def next_stmt_def)

lemma seq_Raise: "a s = (Raise e, s') \<Longrightarrow> seq a b s = (Raise e, s')"
  by (simp add: seq_def)

lemma seq_Return: "a s = (Return r, s') \<Longrightarrow> seq a b s = (Return r, s')"
  by (simp add: seq_def)

lemma seq_Next: "a s = (Next, s') \<Longrightarrow> seq a b s = b s'"
  by (simp add: seq_def)

lemma await_run:
  obtains (threw) "oracle (calls s @ [c]) = None"
      "await c oracle k s = (Raise Thrown, s\<lparr>calls := calls s @ [c]\<rparr>)"
  | (answered) r where "oracle (calls s @ [c]) = Some r"
      "await c oracle k s = k r (s\<lparr>calls := calls s @ [c]\<rparr>)"
  by (cases "oracle (calls s @ [c])") (simp_all add: await_def)

lemma modifiedDescription_run:
  obtains (threw) s' where "modifiedDescription C W x k s = (Raise Thrown, s')"
      "same_tables s s'" "(\<exists>t. w_issue W t = None) \<or> (\<exists>t. w_text W t = None)"
  | (prepared) md s' where "modifiedDescription C W x k s = k md s'" "same_tables s s'"
proof (cases "case d_description (data x) of None \<Rightarrow> False | Some m \<Rightarrow> INLINE_IMG_TAG_REGEX C m")
  case False
  let ?c = "PrepareMarkdownContent (d_description (data x))"
  have eq: "modifiedDescription C W x k s = await ?c (w_text W) k s"
    using False by (simp add: modifiedDescription_def)
  show ?thesis
  proof (cases rule: await_run [of "w_text W" s ?c k])
    case threw
    show ?thesis
      by (rule that(1) [of "s\<lparr>calls := calls s @ [?c]\<rparr>"])
        (use threw eq in \<open>auto simp: same_tables_def\<close>)
  next
    case (answered r)
    show ?thesis
      by (rule that(2) [of r "s\<lparr>calls := calls s @ [?c]\<rparr>"])
        (use answered eq in \<open>auto simp: same_tables_def\<close>)
  qed
next
  case True
  let ?c1 = "LinearIssue (d_id (data x))"
  let ?k1 = "\<lambda>publicIssue.
          await (PrepareMarkdownContent
                   (case publicIssue of
                      None \<Rightarrow> d_description (data x)
                    | Some i \<Rightarrow> if truthy (li_description i) then li_description i else d_description (data x)))
            (w_text W) k"
  have eq: "modifiedDescription C W x k s = await ?c1 (w_issue W) ?k1 s"
    using True by (simp add: modifiedDescription_def Let_def)
  show ?thesis
  proof (cases rule: await_run [of "w_issue W" s ?c1 ?k1])
    case threw
    show ?thesis
      by (rule that(1) [of "s\<lparr>calls := calls s @ [?c1]\<rparr>"])
        (use threw eq in \<open>auto simp: same_tables_def\<close>)
  next
    case (answered p)
    let ?s1 = "s\<lparr>calls := calls s @ [?c1]\<rparr>"
    let ?c2 = "PrepareMarkdownContent
                   (case p of
                      None \<Rightarrow> d_description (data x)
                    | Some i \<Rightarrow> if truthy (li_description i) then li_description i else d_description (data x))"
    show ?thesis
    proof (cases rule: await_run [of "w_text W" ?s1 ?c2 k])
      case threw
      show ?thesis
        by (rule that(1) [of "?s1\<lparr>calls := calls ?s1 @ [?c2]\<rparr>"])
          (use threw answered eq in \<open>auto simp: same_tables_def\<close>)
    next
      case (answered r)
      show ?thesis
        by (rule that(2) [of r "?s1\<lparr>calls := calls ?s1 @ [?c2]\<rparr>"])
          (use answered \<open>await ?c1 (w_issue W) ?k1 s = ?k1 p ?s1\<close> eq in \<open>auto simp: same_tables_def\<close>)
    qed
  qed
qed

lemma await_failed_create:
  assumes "\<forall>trace. \<exists>r. w_createdIssue W trace = Some r \<and> 201 < cr_statusCode r"
  shows "\<exists>e s2. await c (w_createdIssue W)
                  (\<lambda>r. if 201 < cr_statusCode r then createFailed C x r else rest r) s1
                = (Raise e, s2)
           \<and> same_tables s1 s2
           \<and> (d_team (data x) \<noteq> None
                \<and> (\<forall>t. case w_createdIssue W t of
                           None \<Rightarrow> True
                         | Some r \<Rightarrow> JSON_parse C (cr_body r) \<noteq> None) \<longrightarrow>
                (\<exists>n. 201 < n \<and> e = ApiError (''I was unable to create an issue on Github. Status code: ''
                       @ show_nat n) 500))"
proof -
  from assms obtain r where r: "w_createdIssue W (calls s1 @ [c]) = Some r" "201 < cr_statusCode r"
    by blast
  show ?thesis
  proof (cases "d_team (data x)")
    case None
    with r show ?thesis
      by (simp add: await_def createFailed_def throw_def same_tables_def)
  next
    case (Some k)
    show ?thesis
    proof (cases "JSON_parse C (cr_body r)")
      case None
      with r(1) have "\<not> (\<forall>t. case w_createdIssue W t of
                           None \<Rightarrow> True
                         | Some r \<Rightarrow> JSON_parse C (cr_body r) \<noteq> None)"
        by (auto intro!: exI [of _ "calls s1 @ [c]"])
      with r Some None show ?thesis
        by (simp add: await_def createFailed_def throw_def same_tables_def)
    next
      case (Some parsed)
      with r \<open>d_team (data x) = Some k\<close> show ?thesis
        by (auto simp: await_def createFailed_def throw_def console_log_def same_tables_def)
    qed
  qed
qed

lemma seq_assoc: "seq (seq a b) c = seq a (seq b c)"
  by (rule ext) (simp add: seq_def split: prod.splits outcome.splits)

lemma update_before_priority:
  "update C W x (Some si) =
     seq (before_priority C W x si)
       (seq (priority_change C W x si) (estimate_change C W x si))"
  by (simp add: update_def field_changes_def before_priority_def seq_assoc)

subsection \<open>Identity resolution\<close>

text \<open>
  C5. An event from an accepted origin whose actor (\<^verbatim>\<open>data.userId ?? data.creatorId\<close>)
  is the Linear user of no Sync Link makes the handler return the string
  \<^verbatim>\<open>Could not find Linear user in syncs.\<close> instead of throwing; the state it leaves differs
  from the one it found by that one log line only, so the call trace is unchanged (no
  call to Linear or GitHub) and so is every table.
\<close>

theorem no_sync_link_no_calls:
  assumes "originIp \<in> set (IP_ORIGINS C)"
      and "\<forall>sy \<in> set (syncs s). Some (sy_linearUserId sy) \<noteq> actor (p_data body)"
  shows "linearWebhookHandler C W body originIp s =
           (Inr (Some ''Could not find Linear user in syncs.''),
            s\<lparr>logs := logs s @ [''Could not find Linear user in syncs.'']\<rparr>)
         \<and> calls (snd (linearWebhookHandler C W body originIp s)) = calls s"
proof -
  have "find (isMatching (p_data body)) (findSyncs s (p_data body)) = None"
    using assms(2) by (auto simp: find_None_iff findSyncs_def isMatching_def)
  then show ?thesis
    using assms(1)
    by (simp add: linearWebhookHandler_def handler_def block_defs Let_def)
qed

theorem no_sync_link_no_calls_witness:
  "''35.231.147.226'' \<in> set (IP_ORIGINS the_config)
   \<and> list_all
        (\<lambda>sy. Some (sy_linearUserId sy)
           \<noteq> actor (p_data (update_event (the_data\<lparr>d_creatorId := Some ''zed''\<rparr>) no_delta)))
        (syncs the_state)
   \<and> linearWebhookHandler the_config the_world
        (update_event (the_data\<lparr>d_creatorId := Some ''zed''\<rparr>) no_delta)
        ''35.231.147.226'' the_state =
       (Inr (Some ''Could not find Linear user in syncs.''),
        the_state\<lparr>logs := [''Could not find Linear user in syncs.'']\<rparr>)"
  using no_sync_link_no_calls [of "''35.231.147.226''" the_config the_state
      "update_event (the_data\<lparr>d_creatorId := Some ''zed''\<rparr>) no_delta" the_world]
  by (simp add: the_config_def the_state_def the_sync_def update_event_def the_data_def
      actor_def nullish_def)

subsection \<open>Creation of the counterpart issue\<close>

text \<open>The first delivery of the two events on a store without the Issue Link.\<close>

lemma first_run_update:
  "linearWebhookHandler the_config the_world made_visible ''35.231.147.226'' unlinked_state =
    (Inr (Some ''Skipping over edit for ENG-42''),
     unlinked_state\<lparr>issues := [the_link],
       calls :=
       [UpsertUser 5 ''ann'', PrepareMarkdownContent (Some ''It crashes.''),
        GotPost ''https://api.github.com/repos/acme/app/issues''
         (NewIssue ''[ENG-42] Crash on start''
           (''text'' @ [CHR 0x0A, CHR 0x0A] @ ''<sub>From SyncLinear.com | [ENG-42](https://linear.app/acme/issue/ENG-42)</sub>'')
           None),
        LinearIssue ''issue-42'', LinearQuery ''attachmentCreate'',
        ApplyLabel ''acme/app'' 7 [], IssueComments ''issue-42'',
        ReplaceMentions (Some ''First''),
        CreateComment ''acme/app'' 7 ''text (via Linear)''],
       logs := [''Created attachment on ENG-42 for GitHub issue #7.'',
         ''Applied labels to #7 in acme/app.'',
         ''Created comment on GitHub issue #7 [700] for Linear issue ENG-42.'',
         ''Skipping over edit for ENG-42'']\<rparr>)"
  by (simp add: handler_defs fixture_defs block_defs Let_def)

lemma first_run_create:
  "linearWebhookHandler the_config the_world created_visible ''35.231.147.226'' unlinked_state =
    (Inr None,
     unlinked_state\<lparr>issues := [the_link],
       calls :=
       [UpsertUser 5 ''ann'', PrepareMarkdownContent (Some ''It crashes.''),
        GotPost ''https://api.github.com/repos/acme/app/issues''
         (NewIssue ''[ENG-42] Crash on start''
           (''text'' @ [CHR 0x0A, CHR 0x0A] @ ''<sub>From SyncLinear.com | [ENG-42](https://linear.app/acme/issue/ENG-42)</sub>'')
           None),
        LinearQuery ''attachmentCreate'',
        ApplyLabel ''acme/app'' 7 []],
       logs := [''Created attachment on ENG-42 for GitHub issue #7.'',
         ''Applied labels to #7 in acme/app.'']\<rparr>)"
  by (simp add: handler_defs fixture_defs block_defs Let_def)

text \<open>
  C3. Replay of a "ticket made visible" event when the Issue Link of the ticket is in the
  store (the look-up of lines 178 to 184 finds it). On the update path (the public label
  is in \<^verbatim>\<open>data.labelIds\<close> and not in \<^verbatim>\<open>updatedFrom.labelIds\<close>) the handler returns
  \<^verbatim>\<open>Issue already exists on GitHub.\<close>; on the create path (a created ticket that carries
  the public label) it returns \<^verbatim>\<open>Not creating issue after label added as issue ... already
  exists on GitHub as #n.\<close> On both paths the only call of the run is \<^verbatim>\<open>upsertUser\<close>: no
  issue is created.
\<close>

theorem replay_creates_no_issue:
  assumes "accepted C W body originIp s sy team repo mapped"
      and "findSyncedIssue s (p_data body) = Some si"
      and "d_labelIds (p_data body) = Some cur"
      and "publicLabelId team \<in> set cur"
  shows "(p_action body = ''update'' \<and> uf_labelIds (p_updatedFrom body) = Some prev
            \<and> publicLabelId team \<notin> set prev \<longrightarrow>
          fst (linearWebhookHandler C W body originIp s)
            = Inr (Some ''Issue already exists on GitHub.'')
          \<and> calls_made C W body originIp s
            = [UpsertUser (sy_githubUserId sy) (sy_linearUserId sy)])
       \<and> (p_action body = ''create'' \<and> p_type body = ''Issue'' \<longrightarrow>
          fst (linearWebhookHandler C W body originIp s)
            = Inr (Some (''Not creating issue after label added as issue ''
                @ ticketName (scope_of body s sy team repo) @ '' already exists on GitHub as #''
                @ show_nat (si_githubIssueNumber si) @ ''.''))
          \<and> calls_made C W body originIp s
            = [UpsertUser (sy_githubUserId sy) (sy_linearUserId sy)])"
  using assms(2-4)
  by (simp add: calls_made_def linearWebhookHandler_def handler_accepted [OF assms(1)] dispatch_def update_def
      label_change_def public_label_added_def issue_created_def block_defs)

theorem replay_creates_no_issue_witness:
  "(let s1 = snd (linearWebhookHandler the_config the_world made_visible ''35.231.147.226''
                   unlinked_state)
    in accepted the_config the_world made_visible ''35.231.147.226'' s1 the_sync the_team
         the_repo (users s1)
       \<and> findSyncedIssue s1 (p_data made_visible) = Some the_link
       \<and> d_labelIds (p_data made_visible) = Some [''public'']
       \<and> publicLabelId the_team \<in> set [''public'']
       \<and> p_action made_visible = ''update''
       \<and> uf_labelIds (p_updatedFrom made_visible) = Some []
       \<and> fst (linearWebhookHandler the_config the_world made_visible ''35.231.147.226'' s1)
           = Inr (Some ''Issue already exists on GitHub.'')
       \<and> calls_made the_config the_world made_visible ''35.231.147.226'' s1
           = [UpsertUser 5 ''ann''])
   \<and> (let s1 = snd (linearWebhookHandler the_config the_world created_visible
                      ''35.231.147.226'' unlinked_state)
       in accepted the_config the_world created_visible ''35.231.147.226'' s1 the_sync the_team
            the_repo (users s1)
          \<and> findSyncedIssue s1 (p_data created_visible) = Some the_link
          \<and> p_action created_visible = ''create'' \<and> p_type created_visible = ''Issue''
          \<and> fst (linearWebhookHandler the_config the_world created_visible ''35.231.147.226''
                    s1)
              = Inr (Some ''Not creating issue after label added as issue ENG-42 already exists on GitHub as #7.'')
          \<and> calls_made the_config the_world created_visible ''35.231.147.226'' s1
              = [UpsertUser 5 ''ann''])"
  using
    replay_creates_no_issue [of the_config the_world made_visible "''35.231.147.226''"
      "snd (linearWebhookHandler the_config the_world made_visible ''35.231.147.226''
              unlinked_state)"
      the_sync the_team the_repo
      "users (snd (linearWebhookHandler the_config the_world made_visible ''35.231.147.226''
              unlinked_state))" the_link "[''public'']" "[]"]
    replay_creates_no_issue [of the_config the_world created_visible "''35.231.147.226''"
      "snd (linearWebhookHandler the_config the_world created_visible ''35.231.147.226''
              unlinked_state)"
      the_sync the_team the_repo
      "users (snd (linearWebhookHandler the_config the_world created_visible ''35.231.147.226''
              unlinked_state))" the_link "[''public'']" "[]"]
  apply (simp only: first_run_update first_run_create snd_conv Let_def)
  apply (simp add: accepted_def findSyncs_def isMatching_def
      findSyncedIssue_def actor_def nullish_def prisma_where_def truthy_def ticketName_def
      data_def scope_of_def show_number_def fixture_defs)
  done

text \<open>
  The first run. When the event asks for a counterpart issue, no Issue Link of the ticket
  is in the store and the run does not end with an error, the run has added exactly one
  row to the table of Issue Links, and the look-up of lines 178 to 184 finds that row
  afterwards: what follows \<^verbatim>\<open>prisma.syncedIssue.create\<close> (labels, comments, invitation)
  leaves the table alone.
\<close>

lemma keeps_next_stmt [simp]: "keeps_issues next_stmt"
  by (simp add: keeps_issues_def next_stmt_def)

lemma keeps_throw [simp]: "keeps_issues (throw e)"
  by (simp add: keeps_issues_def throw_def)

lemma keeps_ret [simp]: "keeps_issues (ret r)"
  by (simp add: keeps_issues_def ret_def)

lemma keeps_console_log: "keeps_issues k \<Longrightarrow> keeps_issues (console_log m k)"
  by (simp add: keeps_issues_def console_log_def)

lemma keeps_await: "(\<And>r. keeps_issues (k r)) \<Longrightarrow> keeps_issues (await c oracle k)"
  by (simp add: keeps_issues_def await_def Let_def split: option.splits)

lemma keeps_seq: "keeps_issues a \<Longrightarrow> keeps_issues b \<Longrightarrow> keeps_issues (seq a b)"
proof -
  assume a: "keeps_issues a" and b: "keeps_issues b"
  have "issues (snd (seq a b s)) = issues s" for s
  proof (cases "a s")
    case (Pair out s')
    with a have s': "issues s' = issues s"
      unfolding keeps_issues_def by (metis snd_conv)
    show ?thesis
    proof (cases out)
      case Next
      with Pair have "seq a b s = b s'" by (simp add: seq_def)
      with b s' show ?thesis by (simp add: keeps_issues_def)
    qed (use Pair s' in \<open>simp_all add: seq_def\<close>)
  qed
  then show ?thesis by (simp add: keeps_issues_def)
qed

lemma keeps_if: "keeps_issues a \<Longrightarrow> keeps_issues b \<Longrightarrow> keeps_issues (if c then a else b)"
  by simp

lemma keeps_case_option:
  "keeps_issues a \<Longrightarrow> (\<And>v. keeps_issues (b v)) \<Longrightarrow> keeps_issues (case_option a b v)"
  by (cases v) simp_all

lemmas keeps_intros = keeps_if keeps_case_option keeps_await keeps_console_log keeps_seq
  keeps_next_stmt keeps_throw keeps_ret

lemma keeps_labelLoop:
  "(\<And>names. keeps_issues (k names)) \<Longrightarrow> keeps_issues (labelLoop C W x ids labelNames k)"
proof (induction ids arbitrary: labelNames)
  case Nil
  then show ?case by simp
next
  case (Cons labelId rest)
  show ?case
    unfolding labelLoop.simps
    by (intro keeps_intros Cons.IH Cons.prems)
qed

lemma keeps_addPriorityLabel:
  "(\<And>names. keeps_issues (k names)) \<Longrightarrow> keeps_issues (addPriorityLabel C W x labelNames k)"
  unfolding addPriorityLabel_def
  by (intro keeps_intros) 

lemma keeps_replayLabels: "keeps_issues (replayLabels C W x r cur)"
  unfolding replayLabels_def
  by (intro keeps_labelLoop keeps_addPriorityLabel keeps_intros)

lemma keeps_commentLoop: "keeps_issues (commentLoop C W x r cs)"
proof (induction C W x r cs rule: commentLoop.induct)
  case (3 C W x githubIssueId githubIssueNumber c rest)
  show ?case
  proof (cases "internalComment C (lc_body c)")
    case True
    with 3 show ?thesis by (simp add: keeps_console_log)
  next
    case False
    with 3 have "keeps_issues (commentLoop C W x (githubIssueId, githubIssueNumber) rest)"
      by simp
    with False show ?thesis by (simp add: keeps_await keeps_console_log)
  qed
qed simp_all

lemma links_throw [simp]: "links x (throw e)"
  by (simp add: links_def throw_def)

lemma links_if: "links x a \<Longrightarrow> links x b \<Longrightarrow> links x (if c then a else b)"
  by simp

lemma links_case_option:
  "links x a \<Longrightarrow> (\<And>v. links x (b v)) \<Longrightarrow> links x (case_option a b v)"
  by (cases v) simp_all

lemma linksD:
  assumes "links x b" and "\<forall>e. fst (b s) \<noteq> Raise e" and "issues s = rows"
  shows "\<exists>row. issues (snd (b s)) = rows @ [row]
           \<and> si_linearIssueId row = d_id (data x)
           \<and> d_teamId (data x) = Some (si_linearTeamId row)"
  using assms unfolding links_def by blast

lemma links_console_log:
  assumes "links x k"
  shows "links x (console_log m k)"
  unfolding links_def
proof (intro allI impI)
  fix s
  assume "\<forall>e. fst (console_log m k s) \<noteq> Raise e"
  then have "\<forall>e. fst (k (s\<lparr>logs := logs s @ [m]\<rparr>)) \<noteq> Raise e"
    by (simp add: console_log_def)
  from linksD [OF assms this, of "issues s"]
  show "\<exists>row. issues (snd (console_log m k s)) = issues s @ [row]
           \<and> si_linearIssueId row = d_id (data x)
           \<and> d_teamId (data x) = Some (si_linearTeamId row)"
    by (simp add: console_log_def)
qed

lemma links_await:
  assumes "\<And>r. links x (k r)"
  shows "links x (await c oracle k)"
  unfolding links_def
proof (intro allI impI)
  fix s
  assume ok: "\<forall>e. fst (await c oracle k s) \<noteq> Raise e"
  show "\<exists>row. issues (snd (await c oracle k s)) = issues s @ [row]
           \<and> si_linearIssueId row = d_id (data x)
           \<and> d_teamId (data x) = Some (si_linearTeamId row)"
  proof (cases rule: await_run [of "oracle" s c k])
    case threw
    with ok show ?thesis by simp
  next
    case (answered r)
    with ok have "\<forall>e. fst (k r (s\<lparr>calls := calls s @ [c]\<rparr>)) \<noteq> Raise e"
      by simp
    from linksD [OF assms this, of "issues s"] answered show ?thesis
      by simp
  qed
qed

lemma links_seq:
  assumes "keeps_issues a" and "\<And>s r. fst (a s) \<noteq> Return r" and "links x b"
  shows "links x (seq a b)"
  unfolding links_def
proof (intro allI impI)
  fix s
  assume ok: "\<forall>e. fst (seq a b s) \<noteq> Raise e"
  show "\<exists>row. issues (snd (seq a b s)) = issues s @ [row]
           \<and> si_linearIssueId row = d_id (data x)
           \<and> d_teamId (data x) = Some (si_linearTeamId row)"
  proof (cases "a s")
    case (Pair out s')
    with assms(1) have s': "issues s' = issues s"
      unfolding keeps_issues_def by (metis snd_conv)
    show ?thesis
    proof (cases out)
      case Next
      with Pair have eq: "seq a b s = b s'" by (simp add: seq_def)
      with ok have "\<forall>e. fst (b s') \<noteq> Raise e" by simp
      from linksD [OF assms(3) this s'] eq show ?thesis by simp
    next
      case (Raise e)
      with Pair ok show ?thesis by (simp add: seq_def)
    next
      case (Return r)
      with Pair assms(2) [of s r] show ?thesis by simp
    qed
  qed
qed

lemma links_persistIssueLink:
  assumes "\<And>i n. keeps_issues (k i n)"
  shows "links x (persistIssueLink C W x r k)"
  unfolding links_def
proof (intro allI impI)
  fix s
  assume ok: "\<forall>e. fst (persistIssueLink C W x r k s) \<noteq> Raise e"
  from assms have k: "issues (snd (k i n t)) = issues t" for i n t
    by (simp add: keeps_issues_def)
  from ok show "\<exists>row. issues (snd (persistIssueLink C W x r k s)) = issues s @ [row]
           \<and> si_linearIssueId row = d_id (data x)
           \<and> d_teamId (data x) = Some (si_linearTeamId row)"
    by (auto simp: persistIssueLink_def Let_def console_log_def k split: option.splits)
qed

lemma links_createFailed: "links x (createFailed C x r)"
  by (simp add: createFailed_def links_case_option links_console_log)

lemma links_modifiedDescription:
  assumes "\<And>md. links x (k md)"
  shows "links x (modifiedDescription C W x k)"
  unfolding modifiedDescription_def Let_def
  by (intro links_if links_await assms)

lemma invite_falls_through:
  "fst ((if c then await call oracle (\<lambda>_. next_stmt) else next_stmt) s) \<noteq> Return r"
  by (simp add: await_def next_stmt_def Let_def split: option.splits)

lemma links_syncNewIssue: "links x (syncNewIssue C W x r cur)"
  unfolding syncNewIssue_def
  by (intro links_case_option links_throw links_await links_persistIssueLink keeps_seq
      keeps_replayLabels keeps_intros keeps_commentLoop)

lemma links_linkNewIssue: "links x (linkNewIssue C W x r cur)"
  unfolding linkNewIssue_def
  by (intro links_case_option links_throw links_persistIssueLink keeps_seq keeps_replayLabels
      keeps_intros)

lemma links_public_label_added: "links x (public_label_added C W x None cur)"
proof -
  have "links x (\<lambda>s. await (GotPost (issuesEndpoint x)
                     (newIssue C x md (findUser s (d_assigneeId (data x)))))
              (w_createdIssue W) (\<lambda>createdIssueResponse.
              seq (if \<not> someSync x (actor (data x)) then
                     await (InviteMember (d_creatorId (data x)) (d_teamId (data x))
                              (repoFullName x))
                       (w_done W) (\<lambda>_. next_stmt)
                   else next_stmt)
                (if cr_statusCode createdIssueResponse > 201 then
                   createFailed C x createdIssueResponse
                 else syncNewIssue C W x createdIssueResponse cur)) s)" for md
    unfolding links_def
  proof (intro allI impI)
    fix s
    let ?b = "await (GotPost (issuesEndpoint x)
                     (newIssue C x md (findUser s (d_assigneeId (data x)))))
              (w_createdIssue W) (\<lambda>createdIssueResponse.
              seq (if \<not> someSync x (actor (data x)) then
                     await (InviteMember (d_creatorId (data x)) (d_teamId (data x))
                              (repoFullName x))
                       (w_done W) (\<lambda>_. next_stmt)
                   else next_stmt)
                (if cr_statusCode createdIssueResponse > 201 then
                   createFailed C x createdIssueResponse
                 else syncNewIssue C W x createdIssueResponse cur))"
    assume ok: "\<forall>e. fst (?b s) \<noteq> Raise e"
    have "links x ?b"
      by (intro links_await links_seq links_if links_createFailed links_syncNewIssue
          keeps_intros invite_falls_through)
    from linksD [OF this ok refl]
    show "\<exists>row. issues (snd (?b s)) = issues s @ [row]
           \<and> si_linearIssueId row = d_id (data x)
           \<and> d_teamId (data x) = Some (si_linearTeamId row)" .
  qed
  then show ?thesis
    unfolding public_label_added_def option.case
    by (intro links_modifiedDescription)
qed


lemma links_seq_after:
  assumes "links x a" and "keeps_issues b"
  shows "links x (seq a b)"
  unfolding links_def
proof (intro allI impI)
  fix s
  assume ok: "\<forall>e. fst (seq a b s) \<noteq> Raise e"
  show "\<exists>row. issues (snd (seq a b s)) = issues s @ [row]
           \<and> si_linearIssueId row = d_id (data x)
           \<and> d_teamId (data x) = Some (si_linearTeamId row)"
  proof (cases "a s")
    case (Pair out s')
    show ?thesis
    proof (cases out)
      case Next
      with Pair have eq: "seq a b s = b s'" by (simp add: seq_def)
      from Pair Next have "\<forall>e. fst (a s) \<noteq> Raise e" by simp
      from linksD [OF assms(1) this refl] Pair
      obtain row where "issues s' = issues s @ [row]" "si_linearIssueId row = d_id (data x)"
          "d_teamId (data x) = Some (si_linearTeamId row)"
        by auto
      moreover from assms(2) have "issues (snd (b s')) = issues s'"
        by (simp add: keeps_issues_def)
      ultimately show ?thesis using eq by simp
    next
      case (Raise e)
      with Pair ok show ?thesis by (simp add: seq_def)
    next
      case (Return r)
      with Pair have eq: "seq a b s = a s" by (simp add: seq_def)
      from Pair Return have "\<forall>e. fst (a s) \<noteq> Raise e" by simp
      from linksD [OF assms(1) this refl] eq show ?thesis by simp
    qed
  qed
qed

lemma links_issue_created:
  assumes "d_labelIds (data x) = Some cur" and "publicLabelId (sc_team x) \<in> set cur"
      and "\<not> str_includes (d_id (data x)) (UUID_SUFFIX C)"
  shows "links x (issue_created C W x None)"
proof -
  have "links x (\<lambda>s. await (GotPost (issuesEndpoint x)
                            (newIssue C x md (findUser s (d_assigneeId (data x)))))
                     (w_createdIssue W) (\<lambda>createdIssueResponse.
                     if cr_statusCode createdIssueResponse > 201 then
                       createFailed C x createdIssueResponse
                     else linkNewIssue C W x createdIssueResponse cur) s)" for md
    unfolding links_def
  proof (intro allI impI)
    fix s
    let ?b = "await (GotPost (issuesEndpoint x)
                            (newIssue C x md (findUser s (d_assigneeId (data x)))))
                     (w_createdIssue W) (\<lambda>createdIssueResponse.
                     if cr_statusCode createdIssueResponse > 201 then
                       createFailed C x createdIssueResponse
                     else linkNewIssue C W x createdIssueResponse cur)"
    assume ok: "\<forall>e. fst (?b s) \<noteq> Raise e"
    have "links x ?b"
      by (intro links_await links_if links_createFailed links_linkNewIssue)
    from linksD [OF this ok refl]
    show "\<exists>row. issues (snd (?b s)) = issues s @ [row]
           \<and> si_linearIssueId row = d_id (data x)
           \<and> d_teamId (data x) = Some (si_linearTeamId row)" .
  qed
  then have "links x (modifiedDescription C W x (\<lambda>md s.
                   await (GotPost (issuesEndpoint x)
                            (newIssue C x md (findUser s (d_assigneeId (data x)))))
                     (w_createdIssue W) (\<lambda>createdIssueResponse.
                     if cr_statusCode createdIssueResponse > 201 then
                       createFailed C x createdIssueResponse
                     else linkNewIssue C W x createdIssueResponse cur) s))"
    by (intro links_modifiedDescription)
  with assms show ?thesis
    by (simp add: issue_created_def)
qed

lemma find_appended:
  "find P rows = None \<Longrightarrow> P row \<Longrightarrow> find P (rows @ [row]) = Some row"
  by (induction rows) (simp_all split: if_splits)

lemma completed_run_persists_link:
  assumes acc: "accepted C W body originIp s sy team repo mapped"
      and nolink: "findSyncedIssue s (p_data body) = None"
      and cur: "d_labelIds (p_data body) = Some cur" "publicLabelId team \<in> set cur"
      and path: "(p_action body = ''update''
             \<and> (\<exists>prev. uf_labelIds (p_updatedFrom body) = Some prev \<and> publicLabelId team \<notin> set prev))
           \<or> (p_action body = ''create'' \<and> p_type body = ''Issue''
             \<and> \<not> str_includes (d_id (p_data body)) (UUID_SUFFIX C))"
      and completed: "fst (linearWebhookHandler C W body originIp s) = Inr r"
  shows "\<exists>row. issues (snd (linearWebhookHandler C W body originIp s)) = issues s @ [row]
           \<and> findSyncedIssue (snd (linearWebhookHandler C W body originIp s)) (p_data body)
               = Some row"
proof -
  let ?x = "scope_of body s sy team repo"
  let ?s0 = "entered s sy mapped"
  have "\<exists>b. handler C W body originIp s = b ?s0 \<and> links ?x b"
    using path
  proof
    assume "p_action body = ''update''
             \<and> (\<exists>prev. uf_labelIds (p_updatedFrom body) = Some prev \<and> publicLabelId team \<notin> set prev)"
    then have "handler C W body originIp s =
        seq (public_label_added C W ?x None cur)
          (console_log (skipReason C ''edit'' (ticketName ?x) False)
              (ret (skipReason C ''edit'' (ticketName ?x) False))) ?s0"
      using nolink cur
      by (auto simp: handler_accepted [OF acc] dispatch_def update_def label_change_def)
    moreover have "links ?x (seq (public_label_added C W ?x None cur)
          (console_log (skipReason C ''edit'' (ticketName ?x) False)
              (ret (skipReason C ''edit'' (ticketName ?x) False))))"
      by (intro links_seq_after links_public_label_added keeps_intros)
    ultimately show ?thesis by blast
  next
    assume create: "p_action body = ''create'' \<and> p_type body = ''Issue''
             \<and> \<not> str_includes (d_id (p_data body)) (UUID_SUFFIX C)"
    then have "handler C W body originIp s = issue_created C W ?x None ?s0"
      using nolink
      by (simp add: handler_accepted [OF acc] dispatch_def)
    moreover have "links ?x (issue_created C W ?x None)"
      using cur create by (intro links_issue_created [of _ cur]) simp_all
    ultimately show ?thesis by blast
  qed
  then obtain b where b: "handler C W body originIp s = b ?s0" "links ?x b"
    by blast
  from completed b(1) have "\<forall>e. fst (b ?s0) \<noteq> Raise e"
    by (auto simp: linearWebhookHandler_def split: prod.splits outcome.splits)
  from linksD [OF b(2) this, of "issues s"]
  obtain row where row: "issues (snd (b ?s0)) = issues s @ [row]"
      "si_linearIssueId row = d_id (p_data body)"
      "d_teamId (p_data body) = Some (si_linearTeamId row)"
    by auto
  have snd_eq: "snd (linearWebhookHandler C W body originIp s) = snd (b ?s0)"
    using b(1) by (simp add: linearWebhookHandler_def split: prod.splits outcome.splits)
  from nolink row show ?thesis
    unfolding snd_eq
    by (auto simp: findSyncedIssue_def prisma_where_def intro!: find_appended)
qed

text \<open>
  C6. The event asks for a counterpart issue (public label added on update, or a public
  ticket created, with no Issue Link in the store) and GitHub answers every
  \<^verbatim>\<open>got.post(issuesEndpoint)\<close> with a status code above 201. Then the handler ends with an
  error, and the tables of Issue Links and of Milestone Links are what they were. The
  error is \<^verbatim>\<open>ApiError(..., 500)\<close> with the status code in its message, provided the
  payload has \<^verbatim>\<open>data.team\<close> and \<^verbatim>\<open>JSON.parse\<close> accepts the body of each response (the log
  line before the \<^verbatim>\<open>throw\<close> reads \<^verbatim>\<open>data.team.key\<close> and parses the body; without them
  the error is a \<^verbatim>\<open>TypeError\<close> or a \<^verbatim>\<open>SyntaxError\<close>), and neither \<^verbatim>\<open>linear.issue\<close> nor
  \<^verbatim>\<open>prepareMarkdownContent\<close> throws before the call.
\<close>

theorem failed_creation_writes_no_link:
  assumes acc: "accepted C W body originIp s sy team repo mapped"
      and nolink: "findSyncedIssue s (p_data body) = None"
      and cur: "d_labelIds (p_data body) = Some cur" "publicLabelId team \<in> set cur"
      and path: "(p_action body = ''update''
             \<and> (\<exists>prev. uf_labelIds (p_updatedFrom body) = Some prev \<and> publicLabelId team \<notin> set prev))
           \<or> (p_action body = ''create'' \<and> p_type body = ''Issue''
             \<and> \<not> str_includes (d_id (p_data body)) (UUID_SUFFIX C))"
      and fail: "\<forall>trace. \<exists>r. w_createdIssue W trace = Some r \<and> 201 < cr_statusCode r"
  shows "(\<exists>e. fst (linearWebhookHandler C W body originIp s) = Inl e
            \<and> (d_team (p_data body) \<noteq> None
                 \<and> (\<forall>t. case w_createdIssue W t of
                            None \<Rightarrow> True
                          | Some r \<Rightarrow> JSON_parse C (cr_body r) \<noteq> None)
                 \<and> (\<forall>t. w_issue W t \<noteq> None) \<and> (\<forall>t. w_text W t \<noteq> None)
                 \<longrightarrow> (\<exists>n. 201 < n \<and> e = ApiError (''I was unable to create an issue on Github. Status code: ''
                       @ show_nat n) 500)))
         \<and> issues (snd (linearWebhookHandler C W body originIp s)) = issues s
         \<and> milestones (snd (linearWebhookHandler C W body originIp s)) = milestones s"
proof -
  let ?x = "scope_of body s sy team repo"
  let ?s0 = "entered s sy mapped"
  define good where "good = (\<lambda>e. d_team (p_data body) \<noteq> None
                 \<and> (\<forall>t. case w_createdIssue W t of
                            None \<Rightarrow> True
                          | Some r \<Rightarrow> JSON_parse C (cr_body r) \<noteq> None)
                 \<and> (\<forall>t. w_issue W t \<noteq> None) \<and> (\<forall>t. w_text W t \<noteq> None)
                 \<longrightarrow> (\<exists>n. 201 < n \<and> e = ApiError (''I was unable to create an issue on Github. Status code: ''
                       @ show_nat n) 500))"
  have key: "\<exists>e s2. modifiedDescription C W ?x
                 (\<lambda>md s. await (GotPost (issuesEndpoint ?x) (newIssue C ?x md (findUser s (d_assigneeId (data ?x)))))
                     (w_createdIssue W)
                     (\<lambda>r. if 201 < cr_statusCode r then createFailed C ?x r else rest r) s) ?s0
               = (Raise e, s2) \<and> same_tables ?s0 s2 \<and> good e" for rest
  proof (cases rule: modifiedDescription_run [of C W ?x
        "\<lambda>md s. await (GotPost (issuesEndpoint ?x) (newIssue C ?x md (findUser s (d_assigneeId (data ?x)))))
                     (w_createdIssue W)
                     (\<lambda>r. if 201 < cr_statusCode r then createFailed C ?x r else rest r) s" ?s0])
    case (threw s')
    then show ?thesis by (auto simp: good_def)
  next
    case (prepared md s')
    from await_failed_create [OF fail, of _ C ?x rest s']
    obtain e s2 where "await (GotPost (issuesEndpoint ?x) (newIssue C ?x md (findUser s' (d_assigneeId (data ?x)))))
                     (w_createdIssue W)
                     (\<lambda>r. if 201 < cr_statusCode r then createFailed C ?x r else rest r) s' = (Raise e, s2)"
        "same_tables s' s2" "d_team (data ?x) \<noteq> None
                \<and> (\<forall>t. case w_createdIssue W t of
                           None \<Rightarrow> True
                         | Some r \<Rightarrow> JSON_parse C (cr_body r) \<noteq> None) \<longrightarrow>
                (\<exists>n. 201 < n \<and> e = ApiError (''I was unable to create an issue on Github. Status code: ''
                       @ show_nat n) 500)"
      by blast
    with prepared show ?thesis
      by (auto simp: good_def intro: same_tables_trans)
  qed
  have "\<exists>e s2. handler C W body originIp s = (Raise e, s2) \<and> same_tables ?s0 s2 \<and> good e"
    using path
  proof
    assume "p_action body = ''update''
             \<and> (\<exists>prev. uf_labelIds (p_updatedFrom body) = Some prev \<and> publicLabelId team \<notin> set prev)"
    then have upd: "handler C W body originIp s =
        seq (public_label_added C W ?x None cur)
          (console_log (skipReason C ''edit'' (ticketName ?x) False)
              (ret (skipReason C ''edit'' (ticketName ?x) False))) ?s0"
      using nolink cur
      by (auto simp: handler_accepted [OF acc] dispatch_def update_def label_change_def)
    from key [of "\<lambda>r. syncNewIssue C W ?x r cur"] accepted_someSync [OF acc]
    obtain e s2 where "public_label_added C W ?x None cur ?s0 = (Raise e, s2)"
        "same_tables ?s0 s2" "good e"
      by (auto simp: public_label_added_def)
    with upd show ?thesis
      by (auto simp: seq_Raise)
  next
    assume "p_action body = ''create'' \<and> p_type body = ''Issue''
             \<and> \<not> str_includes (d_id (p_data body)) (UUID_SUFFIX C)"
    then have "handler C W body originIp s = issue_created C W ?x None ?s0"
      using nolink
      by (simp add: handler_accepted [OF acc] dispatch_def)
    then show ?thesis
      using key [of "\<lambda>r. linkNewIssue C W ?x r cur"] cur \<open>p_action body = ''create'' \<and> p_type body = ''Issue''
             \<and> \<not> str_includes (d_id (p_data body)) (UUID_SUFFIX C)\<close>
      by (simp add: issue_created_def)
  qed
  then obtain e s2 where "handler C W body originIp s = (Raise e, s2)" "same_tables ?s0 s2" "good e"
    by blast
  then show ?thesis
    by (auto simp: linearWebhookHandler_def good_def same_tables_def)
qed

theorem failed_creation_writes_no_link_witness:
  "accepted the_config failing_create made_visible ''35.231.147.226'' unlinked_state the_sync
     the_team the_repo (users unlinked_state)
   \<and> accepted the_config failing_create created_visible ''35.231.147.226'' unlinked_state
       the_sync the_team the_repo (users unlinked_state)
   \<and> findSyncedIssue unlinked_state the_data = None
   \<and> d_labelIds the_data = Some [''public'']
   \<and> publicLabelId the_team \<in> set [''public'']
   \<and> p_action made_visible = ''update''
   \<and> uf_labelIds (p_updatedFrom made_visible) = Some []
   \<and> p_action created_visible = ''create'' \<and> p_type created_visible = ''Issue''
   \<and> \<not> str_includes (d_id the_data) (UUID_SUFFIX the_config)
   \<and> (\<forall>trace. \<exists>r. w_createdIssue failing_create trace = Some r \<and> 201 < cr_statusCode r)
   \<and> d_team the_data \<noteq> None
   \<and> (\<forall>t. case w_createdIssue failing_create t of
               None \<Rightarrow> True
             | Some r \<Rightarrow> JSON_parse the_config (cr_body r) \<noteq> None)
   \<and> (\<forall>t. w_issue failing_create t \<noteq> None) \<and> (\<forall>t. w_text failing_create t \<noteq> None)
   \<and> fst (linearWebhookHandler the_config failing_create made_visible ''35.231.147.226''
             unlinked_state)
       = Inl (ApiError ''I was unable to create an issue on Github. Status code: 422'' 500)
   \<and> issues (snd (linearWebhookHandler the_config failing_create made_visible
                     ''35.231.147.226'' unlinked_state)) = []
   \<and> fst (linearWebhookHandler the_config failing_create created_visible ''35.231.147.226''
             unlinked_state)
       = Inl (ApiError ''I was unable to create an issue on Github. Status code: 422'' 500)
   \<and> issues (snd (linearWebhookHandler the_config failing_create created_visible
                     ''35.231.147.226'' unlinked_state)) = []"
  using
    failed_creation_writes_no_link [of the_config failing_create made_visible
      "''35.231.147.226''" unlinked_state the_sync the_team the_repo "users unlinked_state"
      "[''public'']"]
    failed_creation_writes_no_link [of the_config failing_create created_visible
      "''35.231.147.226''" unlinked_state the_sync the_team the_repo "users unlinked_state"
      "[''public'']"]
  by (simp add: handler_defs fixture_defs block_defs accepted_def Let_def)

subsection \<open>The label reconciler\<close>




text \<open>
  C8. The label reconciler on a ticket whose prior label set holds the public label.
  When the label set shrank (a removal), none of the calls the reconciler adds to the
  trace is \<^verbatim>\<open>createLabel\<close> or \<^verbatim>\<open>applyLabel\<close>. When it grew (an addition) on a synced
  issue and the name of the added label, in lower case, is not in
  \<^verbatim>\<open>LINEAR.ALLOWED_LABELS\<close>, the handler returns \<^verbatim>\<open>Label is not in the allowed list: \<close>
  followed by the name; its calls are \<^verbatim>\<open>upsertUser\<close> and the look-up of the label in
  Linear, and none goes to the GitHub API.
\<close>

lemma label_removal_calls:
  assumes "uf_labelIds (updatedFrom x) = Some prev"
      and "publicLabelId (sc_team x) \<in> set prev"
      and "d_labelIds (data x) = Some cur"
      and "length cur < length prev"
  shows "\<not> list_ex create_label_path (calls_of (label_change C W x syncedIssue) s)"
proof (cases syncedIssue)
  case None
  with assms show ?thesis
    by (simp add: calls_of_def label_change_def label_updated_def block_defs)
next
  case (Some si)
  show ?thesis
  proof (cases "find (\<lambda>i. i \<notin> set cur) prev = Some (publicLabelId (sc_team x))")
    case True
    with assms Some show ?thesis
      by (simp add: calls_of_def label_change_def label_updated_def block_defs Let_def)
  next
    case False
    let ?c = "IssueLabel (find (\<lambda>i. i \<notin> set cur) prev)"
    show ?thesis
    proof (cases "w_issueLabel W (calls s @ [?c])")
      case None
      with assms Some False show ?thesis
        by (simp add: calls_of_def label_change_def label_updated_def block_defs Let_def)
    next
      case (Some label)
      note label = this
      show ?thesis
      proof (cases label)
        case None
        with assms \<open>syncedIssue = Some si\<close> False label show ?thesis
          by (simp add: calls_of_def label_change_def label_updated_def block_defs Let_def)
      next
        case (Some l)
        with assms \<open>syncedIssue = Some si\<close> False label show ?thesis
          by (cases "w_status W (calls s @ [?c, GotDelete (issueEndpoint C si @ ''/labels/'' @ label_name l) None])")
            (simp_all add: calls_of_def label_change_def label_updated_def block_defs Let_def)
      qed
    qed
  qed
qed

theorem label_reconciler_calls:
  "(uf_labelIds (updatedFrom x) = Some prev \<and> publicLabelId (sc_team x) \<in> set prev
      \<and> d_labelIds (data x) = Some cur \<and> length cur < length prev \<longrightarrow>
    \<not> list_ex create_label_path (calls_of (label_change C W x syncedIssue) s0))
   \<and> (accepted C W body originIp s sy team repo mapped
       \<and> findSyncedIssue s (p_data body) = Some si
       \<and> p_action body = ''update''
       \<and> uf_labelIds (p_updatedFrom body) = Some old \<and> publicLabelId team \<in> set old
       \<and> d_labelIds (p_data body) = Some new \<and> length old < length new
       \<and> w_issueLabel W (calls s @ [UpsertUser (sy_githubUserId sy) (sy_linearUserId sy),
                                     IssueLabel (find (\<lambda>i. i \<notin> set old) new)])
           = Some (Some l)
       \<and> toLowerCase C (label_name l) \<notin> set (ALLOWED_LABELS C) \<longrightarrow>
       fst (linearWebhookHandler C W body originIp s)
         = Inr (Some (''Label is not in the allowed list: '' @ label_name l))
       \<and> calls_made C W body originIp s
         = [UpsertUser (sy_githubUserId sy) (sy_linearUserId sy),
            IssueLabel (find (\<lambda>i. i \<notin> set old) new)]
       \<and> \<not> list_ex github_call (calls_made C W body originIp s))"
proof (intro conjI impI)
  assume "uf_labelIds (updatedFrom x) = Some prev \<and> publicLabelId (sc_team x) \<in> set prev
      \<and> d_labelIds (data x) = Some cur \<and> length cur < length prev"
  then show "\<not> list_ex create_label_path (calls_of (label_change C W x syncedIssue) s0)"
    using label_removal_calls by blast
next
  assume h: "accepted C W body originIp s sy team repo mapped
       \<and> findSyncedIssue s (p_data body) = Some si
       \<and> p_action body = ''update''
       \<and> uf_labelIds (p_updatedFrom body) = Some old \<and> publicLabelId team \<in> set old
       \<and> d_labelIds (p_data body) = Some new \<and> length old < length new
       \<and> w_issueLabel W (calls s @ [UpsertUser (sy_githubUserId sy) (sy_linearUserId sy),
                                     IssueLabel (find (\<lambda>i. i \<notin> set old) new)])
           = Some (Some l)
       \<and> toLowerCase C (label_name l) \<notin> set (ALLOWED_LABELS C)"
  then have acc: "accepted C W body originIp s sy team repo mapped" by simp
  from h have run: "linearWebhookHandler C W body originIp s =
      (Inr (Some (''Label is not in the allowed list: '' @ label_name l)),
       (entered s sy mapped)\<lparr>calls := calls s @ [UpsertUser (sy_githubUserId sy) (sy_linearUserId sy),
            IssueLabel (find (\<lambda>i. i \<notin> set old) new)]\<rparr>)"
    by (simp add: linearWebhookHandler_def handler_accepted [OF acc] dispatch_def
      update_def label_change_def label_updated_def allowed_def block_defs Let_def)
  show "fst (linearWebhookHandler C W body originIp s)
         = Inr (Some (''Label is not in the allowed list: '' @ label_name l))"
    by (simp add: run)
  show "calls_made C W body originIp s
         = [UpsertUser (sy_githubUserId sy) (sy_linearUserId sy),
            IssueLabel (find (\<lambda>i. i \<notin> set old) new)]"
    by (simp add: run calls_made_def)
  show "\<not> list_ex github_call (calls_made C W body originIp s)"
    by (simp add: run calls_made_def)
qed

lemma removal_run:
  "calls_of
     (label_change the_config the_world
        (scope_of label_removed the_state the_sync the_team the_repo) (Some the_link))
     the_state
   = [IssueLabel (Some ''l-bug''),
      GotDelete ''https://api.github.com/repos/acme/app/issues/7/labels/Bug'' None]"
  by (simp add: calls_of_def handler_defs fixture_defs block_defs scope_of_def Let_def)

theorem label_reconciler_calls_witness:
  "uf_labelIds (updatedFrom (scope_of label_removed the_state the_sync the_team the_repo))
     = Some [''public'', ''l-bug'']
   \<and> publicLabelId (sc_team (scope_of label_removed the_state the_sync the_team the_repo))
       \<in> set [''public'', ''l-bug'']
   \<and> d_labelIds (data (scope_of label_removed the_state the_sync the_team the_repo))
       = Some [''public'']
   \<and> length [''public''] < length [''public'', ''l-bug'']
   \<and> \<not> list_ex create_label_path
          (calls_of
             (label_change the_config the_world
                (scope_of label_removed the_state the_sync the_team the_repo) (Some the_link))
             the_state)
   \<and> accepted the_config internal_label label_added ''35.231.147.226'' the_state the_sync
       the_team the_repo (users the_state)
   \<and> findSyncedIssue the_state (p_data label_added) = Some the_link
   \<and> p_action label_added = ''update''
   \<and> uf_labelIds (p_updatedFrom label_added) = Some [''public'']
   \<and> d_labelIds (p_data label_added) = Some [''public'', ''l-new'']
   \<and> w_issueLabel internal_label
         (calls the_state @ [UpsertUser 5 ''ann'', IssueLabel (Some ''l-new'')])
       = Some (Some \<lparr>label_name = ''Internal'', label_color = ''000''\<rparr>)
   \<and> toLowerCase the_config ''Internal'' \<notin> set (ALLOWED_LABELS the_config)
   \<and> fst (linearWebhookHandler the_config internal_label label_added ''35.231.147.226''
             the_state)
       = Inr (Some ''Label is not in the allowed list: Internal'')
   \<and> calls_made the_config internal_label label_added ''35.231.147.226'' the_state
       = [UpsertUser 5 ''ann'', IssueLabel (Some ''l-new'')]"
  using
    label_reconciler_calls [where x = "scope_of label_removed the_state the_sync the_team the_repo"
      and prev = "[''public'', ''l-bug'']" and cur = "[''public'']" and C = the_config
      and W = the_world and syncedIssue = "Some the_link" and ?s0.0 = the_state]
    label_reconciler_calls [where C = the_config
      and W = internal_label and body = label_added and originIp = "''35.231.147.226''"
      and s = the_state and sy = the_sync and team = the_team and repo = the_repo
      and mapped = "users the_state" and si = the_link and old = "[''public'']"
      and new = "[''public'', ''l-new'']"
      and l = "\<lparr>label_name = ''Internal'', label_color = ''000''\<rparr>"]
  apply (simp only: removal_run)
  apply (simp add: accepted_def findSyncs_def isMatching_def findSyncedIssue_def actor_def
      nullish_def prisma_where_def truthy_def data_def updatedFrom_def scope_of_def
      ascii_toLowerCase_def fixture_defs)
  done

subsection \<open>The priority reconciler\<close>





subsection \<open>The Issue Link of a comment\<close>

text \<open>
  C10. A created comment is posted to the GitHub issue of the first Issue Link whose
  \<^verbatim>\<open>linearIssueId\<close> is \<^verbatim>\<open>data.issueId\<close>, whatever the team of that link. An update of a
  ticket of team \<open>t\<close> works on the first link with both the ticket's id and \<open>t\<close>. When
  every link with that id belongs to another team, an update that does not add the public
  label is skipped with \<^verbatim>\<open>skipReason("label", ticketName)\<close> or
  \<^verbatim>\<open>skipReason("edit", ticketName)\<close> and nothing is called after \<^verbatim>\<open>upsertUser\<close>. When
  there is a link with that id and \<open>t\<close>, an update of the title alone is sent to the
  GitHub issue of the first such link, whatever links with the same id come before it.
\<close>

theorem comment_link_ignores_team:
  "(accepted C W body originIp s sy team repo mapped
      \<and> p_action body = ''create'' \<and> p_type body = ''Comment''
      \<and> \<not> str_includes (d_id (p_data body)) (UUID_SUFFIX C)
      \<and> \<not> internalComment C (d_body (p_data body))
      \<and> find (\<lambda>r. si_linearIssueId r = i) (issues s) = Some link
      \<and> d_issueId (p_data body) = Some i
      \<and> (\<forall>t. w_text W t \<noteq> None) \<and> (\<forall>t. w_error W t \<noteq> None) \<longrightarrow>
    (\<exists>text. calls_made C W body originIp s
       = [UpsertUser (sy_githubUserId sy) (sy_linearUserId sy),
          ReplaceMentions (d_body (p_data body)),
          CreateComment (repoName (si_GitHubRepo link)) (si_githubIssueNumber link) text]))
   \<and> (accepted C W body originIp s sy team repo mapped
       \<and> p_action body = ''update''
       \<and> d_teamId (p_data body) = Some t
       \<and> (\<forall>r \<in> set (issues s).
             si_linearIssueId r = d_id (p_data body) \<longrightarrow> si_linearTeamId r \<noteq> t)
       \<and> (case uf_labelIds (p_updatedFrom body) of
             None \<Rightarrow> True
           | Some prev \<Rightarrow>
               publicLabelId team \<in> set prev
               \<or> (case d_labelIds (p_data body) of
                     None \<Rightarrow> True
                   | Some cur \<Rightarrow> publicLabelId team \<notin> set cur)) \<longrightarrow>
       fst (linearWebhookHandler C W body originIp s)
         = Inr (Some (skipReason C
                  (case uf_labelIds (p_updatedFrom body) of
                     None \<Rightarrow> ''edit''
                   | Some prev \<Rightarrow> if publicLabelId team \<in> set prev then ''label'' else ''edit'')
                  (ticketName (scope_of body s sy team repo)) False))
       \<and> calls_made C W body originIp s
         = [UpsertUser (sy_githubUserId sy) (sy_linearUserId sy)])
   \<and> (accepted C W body originIp s sy team repo mapped
       \<and> p_action body = ''update'' \<and> p_type body = ''Issue''
       \<and> d_teamId (p_data body) = Some t
       \<and> find (\<lambda>r. si_linearIssueId r = d_id (p_data body) \<and> si_linearTeamId r = t) (issues s)
           = Some link
       \<and> uf_title (p_updatedFrom body) = Some old \<and> old \<noteq> []
       \<and> uf_labelIds (p_updatedFrom body) = None
       \<and> uf_description (p_updatedFrom body) = None \<and> uf_cycleId (p_updatedFrom body) = None
       \<and> uf_stateId (p_updatedFrom body) = None \<and> uf_assigneeId (p_updatedFrom body) = None
       \<and> uf_priority (p_updatedFrom body) = None \<and> uf_estimate (p_updatedFrom body) = None
       \<and> w_status W (calls s @ [UpsertUser (sy_githubUserId sy) (sy_linearUserId sy),
             GotPatch (issueEndpoint C link) (Title (issueTitle C (scope_of body s sy team repo)))])
           = Some n \<longrightarrow>
       fst (linearWebhookHandler C W body originIp s) = Inr None
       \<and> calls_made C W body originIp s
         = [UpsertUser (sy_githubUserId sy) (sy_linearUserId sy),
            GotPatch (issueEndpoint C link) (Title (issueTitle C (scope_of body s sy team repo)))])"
proof (intro conjI impI)
  assume h: "accepted C W body originIp s sy team repo mapped
      \<and> p_action body = ''create'' \<and> p_type body = ''Comment''
      \<and> \<not> str_includes (d_id (p_data body)) (UUID_SUFFIX C)
      \<and> \<not> internalComment C (d_body (p_data body))
      \<and> find (\<lambda>r. si_linearIssueId r = i) (issues s) = Some link
      \<and> d_issueId (p_data body) = Some i
      \<and> (\<forall>t. w_text W t \<noteq> None) \<and> (\<forall>t. w_error W t \<noteq> None)"
  then have acc: "accepted C W body originIp s sy team repo mapped" by simp
  let ?s0 = "entered s sy mapped"
  let ?c1 = "ReplaceMentions (d_body (p_data body))"
  from h obtain m where m: "w_text W (calls ?s0 @ [?c1]) = Some m"
    by (metis not_None_eq)
  let ?c2 = "CreateComment (repoName (si_GitHubRepo link)) (si_githubIssueNumber link)
                          ((case m of None \<Rightarrow> [] | Some m \<Rightarrow> m)
                             @ getGitHubFooter C (d_user (p_data body)))"
  from h obtain e where e: "w_error W (calls ?s0 @ [?c1, ?c2]) = Some e"
    by (metis not_None_eq)
  from h have "find (\<lambda>r. prisma_where (d_issueId (p_data body)) (si_linearIssueId r)) (issues s)
      = Some link"
    by (simp add: prisma_where_def)
  with h m e have "calls_made C W body originIp s
       = [UpsertUser (sy_githubUserId sy) (sy_linearUserId sy), ?c1, ?c2]"
    by (simp add: calls_made_def linearWebhookHandler_def handler_accepted [OF acc] dispatch_def
        comment_created_def block_defs)
  then show "\<exists>text. calls_made C W body originIp s
       = [UpsertUser (sy_githubUserId sy) (sy_linearUserId sy),
          ReplaceMentions (d_body (p_data body)),
          CreateComment (repoName (si_GitHubRepo link)) (si_githubIssueNumber link) text]"
    by blast
next
  assume h: "accepted C W body originIp s sy team repo mapped
       \<and> p_action body = ''update''
       \<and> d_teamId (p_data body) = Some t
       \<and> (\<forall>r \<in> set (issues s).
             si_linearIssueId r = d_id (p_data body) \<longrightarrow> si_linearTeamId r \<noteq> t)
       \<and> (case uf_labelIds (p_updatedFrom body) of
             None \<Rightarrow> True
           | Some prev \<Rightarrow>
               publicLabelId team \<in> set prev
               \<or> (case d_labelIds (p_data body) of
                     None \<Rightarrow> True
                   | Some cur \<Rightarrow> publicLabelId team \<notin> set cur))"
  then have acc: "accepted C W body originIp s sy team repo mapped" by simp
  let ?reason = "skipReason C
                  (case uf_labelIds (p_updatedFrom body) of
                     None \<Rightarrow> ''edit''
                   | Some prev \<Rightarrow> if publicLabelId team \<in> set prev then ''label'' else ''edit'')
                  (ticketName (scope_of body s sy team repo)) False"
  from h have "findSyncedIssue s (p_data body) = None"
    by (auto simp: findSyncedIssue_def find_None_iff prisma_where_def)
  with h have run: "linearWebhookHandler C W body originIp s =
      (Inr (Some ?reason), (entered s sy mapped)\<lparr>logs := logs s @ [?reason]\<rparr>)"
    by (auto simp: linearWebhookHandler_def handler_accepted [OF acc] dispatch_def
        update_def label_change_def label_updated_def block_defs split: option.splits)
  show "fst (linearWebhookHandler C W body originIp s) = Inr (Some ?reason)"
    by (simp add: run)
  show "calls_made C W body originIp s
         = [UpsertUser (sy_githubUserId sy) (sy_linearUserId sy)]"
    by (simp add: run calls_made_def)
next
  assume h: "accepted C W body originIp s sy team repo mapped
       \<and> p_action body = ''update'' \<and> p_type body = ''Issue''
       \<and> d_teamId (p_data body) = Some t
       \<and> find (\<lambda>r. si_linearIssueId r = d_id (p_data body) \<and> si_linearTeamId r = t) (issues s)
           = Some link
       \<and> uf_title (p_updatedFrom body) = Some old \<and> old \<noteq> []
       \<and> uf_labelIds (p_updatedFrom body) = None
       \<and> uf_description (p_updatedFrom body) = None \<and> uf_cycleId (p_updatedFrom body) = None
       \<and> uf_stateId (p_updatedFrom body) = None \<and> uf_assigneeId (p_updatedFrom body) = None
       \<and> uf_priority (p_updatedFrom body) = None \<and> uf_estimate (p_updatedFrom body) = None
       \<and> w_status W (calls s @ [UpsertUser (sy_githubUserId sy) (sy_linearUserId sy),
             GotPatch (issueEndpoint C link) (Title (issueTitle C (scope_of body s sy team repo)))])
           = Some n"
  then have acc: "accepted C W body originIp s sy team repo mapped" by simp
  from h have "findSyncedIssue s (p_data body) = Some link"
    by (simp add: findSyncedIssue_def prisma_where_def)
  with h have run: "fst (linearWebhookHandler C W body originIp s) = Inr None
      \<and> calls (snd (linearWebhookHandler C W body originIp s))
        = calls s @ [UpsertUser (sy_githubUserId sy) (sy_linearUserId sy),
             GotPatch (issueEndpoint C link) (Title (issueTitle C (scope_of body s sy team repo)))]"
    by (simp add: linearWebhookHandler_def handler_accepted [OF acc] dispatch_def
        update_def label_change_def field_changes_def title_change_def description_change_def
        cycle_change_def state_change_def assignee_change_def priority_change_def
        estimate_change_def truthy_def block_defs)
  then show "fst (linearWebhookHandler C W body originIp s) = Inr None"
    by simp
  from run show "calls_made C W body originIp s
         = [UpsertUser (sy_githubUserId sy) (sy_linearUserId sy),
            GotPatch (issueEndpoint C link) (Title (issueTitle C (scope_of body s sy team repo)))]"
    by (simp add: calls_made_def)
qed


theorem comment_link_ignores_team_witness:
  "accepted the_config the_world commented ''35.231.147.226'' both_teams the_sync the_team
     the_repo (users both_teams)
   \<and> p_action commented = ''create'' \<and> p_type commented = ''Comment''
   \<and> \<not> str_includes (d_id (p_data commented)) (UUID_SUFFIX the_config)
   \<and> \<not> internalComment the_config (d_body (p_data commented))
   \<and> find (\<lambda>r. si_linearIssueId r = ''issue-42'') (issues both_teams) = Some ops_link
   \<and> d_issueId (p_data commented) = Some ''issue-42''
   \<and> si_linearTeamId ops_link \<noteq> sy_linearTeamId the_sync
   \<and> (\<forall>t. w_text the_world t \<noteq> None) \<and> (\<forall>t. w_error the_world t \<noteq> None)
   \<and> (\<exists>text. calls_made the_config the_world commented ''35.231.147.226'' both_teams
         = [UpsertUser (sy_githubUserId the_sync) (sy_linearUserId the_sync),
            ReplaceMentions (d_body (p_data commented)),
            CreateComment (repoName (si_GitHubRepo ops_link))
              (si_githubIssueNumber ops_link) text])
   \<and> calls_made the_config the_world commented ''35.231.147.226'' both_teams
       = [UpsertUser 5 ''ann'', ReplaceMentions (Some ''Looks good''),
          CreateComment ''acme/app'' 9 ''text (via Linear)'']
   \<and> accepted the_config the_world title_changed ''35.231.147.226'' other_team_only the_sync
       the_team the_repo (users other_team_only)
   \<and> p_action title_changed = ''update'' \<and> p_type title_changed = ''Issue''
   \<and> d_teamId (p_data title_changed) = Some ''team-eng''
   \<and> list_all
         (\<lambda>r. si_linearIssueId r = d_id (p_data title_changed)
            \<longrightarrow> si_linearTeamId r \<noteq> ''team-eng'')
         (issues other_team_only)
   \<and> uf_labelIds (p_updatedFrom title_changed) = None
   \<and> fst (linearWebhookHandler the_config the_world title_changed ''35.231.147.226''
             other_team_only)
       = Inr (Some ''Skipping over edit for ENG-42'')
   \<and> calls_made the_config the_world title_changed ''35.231.147.226'' other_team_only
       = [UpsertUser 5 ''ann'']
   \<and> accepted the_config the_world title_changed ''35.231.147.226'' both_teams the_sync
       the_team the_repo (users both_teams)
   \<and> find (\<lambda>r. si_linearIssueId r = d_id (p_data title_changed)
                \<and> si_linearTeamId r = ''team-eng'') (issues both_teams) = Some the_link
   \<and> uf_title (p_updatedFrom title_changed) = Some ''Crash''
   \<and> uf_description (p_updatedFrom title_changed) = None
   \<and> uf_cycleId (p_updatedFrom title_changed) = None
   \<and> uf_stateId (p_updatedFrom title_changed) = None
   \<and> uf_assigneeId (p_updatedFrom title_changed) = None
   \<and> uf_priority (p_updatedFrom title_changed) = None
   \<and> uf_estimate (p_updatedFrom title_changed) = None
   \<and> w_status the_world
         (calls both_teams @ [UpsertUser (sy_githubUserId the_sync) (sy_linearUserId the_sync),
            GotPatch (issueEndpoint the_config the_link)
              (Title (issueTitle the_config
                 (scope_of title_changed both_teams the_sync the_team the_repo)))])
       = Some 200
   \<and> fst (linearWebhookHandler the_config the_world title_changed ''35.231.147.226''
             both_teams) = Inr None
   \<and> calls_made the_config the_world title_changed ''35.231.147.226'' both_teams
       = [UpsertUser 5 ''ann'',
          GotPatch ''https://api.github.com/repos/acme/app/issues/7''
            (Title ''[ENG-42] Crash on start'')]"
proof -
  have a1: "accepted the_config the_world commented ''35.231.147.226'' both_teams the_sync
      the_team the_repo (users both_teams)"
    by (simp add: accepted_def findSyncs_def isMatching_def actor_def nullish_def
        prisma_where_def truthy_def fixture_defs)
  have a2: "p_action commented = ''create''" and a3: "p_type commented = ''Comment''"
    by (simp_all add: fixture_defs)
  have a4: "\<not> str_includes (d_id (p_data commented)) (UUID_SUFFIX the_config)"
    by (simp add: startsWith_def fixture_defs)
  have a5: "\<not> internalComment the_config (d_body (p_data commented))"
    by (simp add: internalComment_def ascii_trim_def isSpace_def startsWith_def truthy_def
        fixture_defs)
  have a6: "find (\<lambda>r. si_linearIssueId r = ''issue-42'') (issues both_teams) = Some ops_link"
    and a6': "d_issueId (p_data commented) = Some ''issue-42''"
    by (simp_all add: fixture_defs)
  have a7: "si_linearTeamId ops_link \<noteq> sy_linearTeamId the_sync"
    by (simp add: fixture_defs)
  have a8: "\<forall>t. w_text the_world t \<noteq> None" and a9: "\<forall>t. w_error the_world t \<noteq> None"
    by (simp_all add: fixture_defs)
  have b1: "accepted the_config the_world title_changed ''35.231.147.226'' other_team_only
      the_sync the_team the_repo (users other_team_only)"
    by (simp add: accepted_def findSyncs_def isMatching_def actor_def nullish_def
        prisma_where_def truthy_def fixture_defs)
  have b2: "p_action title_changed = ''update''"
    and b2': "p_type title_changed = ''Issue''"
    and b3: "d_teamId (p_data title_changed) = Some ''team-eng''"
    and b4: "uf_labelIds (p_updatedFrom title_changed) = None"
    by (simp_all add: fixture_defs)
  have b5: "\<forall>r \<in> set (issues other_team_only).
      si_linearIssueId r = d_id (p_data title_changed) \<longrightarrow> si_linearTeamId r \<noteq> ''team-eng''"
    by (simp add: fixture_defs)
  have b7: "case uf_labelIds (p_updatedFrom title_changed) of
             None \<Rightarrow> True
           | Some prev \<Rightarrow>
               publicLabelId the_team \<in> set prev
               \<or> (case d_labelIds (p_data title_changed) of
                     None \<Rightarrow> True
                   | Some cur \<Rightarrow> publicLabelId the_team \<notin> set cur)"
    by (simp add: fixture_defs)
  have e1: "accepted the_config the_world title_changed ''35.231.147.226'' both_teams
      the_sync the_team the_repo (users both_teams)"
    by (simp add: accepted_def findSyncs_def isMatching_def actor_def nullish_def
        prisma_where_def truthy_def fixture_defs)
  have e2: "find (\<lambda>r. si_linearIssueId r = d_id (p_data title_changed)
                \<and> si_linearTeamId r = ''team-eng'') (issues both_teams) = Some the_link"
    by (simp add: fixture_defs)
  have e3: "uf_title (p_updatedFrom title_changed) = Some ''Crash''"
    and e3': "''Crash'' \<noteq> []"
    and e4: "uf_description (p_updatedFrom title_changed) = None"
    and e5: "uf_cycleId (p_updatedFrom title_changed) = None"
    and e6: "uf_stateId (p_updatedFrom title_changed) = None"
    and e7: "uf_assigneeId (p_updatedFrom title_changed) = None"
    and e8: "uf_priority (p_updatedFrom title_changed) = None"
    and e9: "uf_estimate (p_updatedFrom title_changed) = None"
    by (simp_all add: fixture_defs)
  have e10: "w_status the_world
         (calls both_teams @ [UpsertUser (sy_githubUserId the_sync) (sy_linearUserId the_sync),
            GotPatch (issueEndpoint the_config the_link)
              (Title (issueTitle the_config
                 (scope_of title_changed both_teams the_sync the_team the_repo)))])
       = Some 200"
    by (simp add: fixture_defs)
  have c1: "\<exists>text. calls_made the_config the_world commented ''35.231.147.226'' both_teams
         = [UpsertUser (sy_githubUserId the_sync) (sy_linearUserId the_sync),
            ReplaceMentions (d_body (p_data commented)),
            CreateComment (repoName (si_GitHubRepo ops_link))
              (si_githubIssueNumber ops_link) text]"
    by (rule comment_link_ignores_team [where team = the_team and repo = the_repo
          and mapped = "users both_teams" and i = "''issue-42''", THEN conjunct1, rule_format])
      (intro conjI a1 a2 a3 a4 a5 a6 a6' a8 a9)
  have c2: "fst (linearWebhookHandler the_config the_world title_changed ''35.231.147.226''
             other_team_only)
       = Inr (Some (skipReason the_config
                  (case uf_labelIds (p_updatedFrom title_changed) of
                     None \<Rightarrow> ''edit''
                   | Some prev \<Rightarrow> if publicLabelId the_team \<in> set prev then ''label'' else ''edit'')
           (ticketName (scope_of title_changed other_team_only the_sync the_team the_repo))
           False))
       \<and> calls_made the_config the_world title_changed ''35.231.147.226'' other_team_only
         = [UpsertUser (sy_githubUserId the_sync) (sy_linearUserId the_sync)]"
    by (rule comment_link_ignores_team [where team = the_team and repo = the_repo
          and mapped = "users other_team_only" and t = "''team-eng''",
          THEN conjunct2, THEN conjunct1, rule_format])
      (intro conjI b1 b2 b3 b5 b7)
  have c3: "fst (linearWebhookHandler the_config the_world title_changed ''35.231.147.226''
             both_teams) = Inr None
       \<and> calls_made the_config the_world title_changed ''35.231.147.226'' both_teams
         = [UpsertUser (sy_githubUserId the_sync) (sy_linearUserId the_sync),
            GotPatch (issueEndpoint the_config the_link)
              (Title (issueTitle the_config
                 (scope_of title_changed both_teams the_sync the_team the_repo)))]"
    by (rule comment_link_ignores_team [where team = the_team and repo = the_repo
          and mapped = "users both_teams" and t = "''team-eng''" and old = "''Crash''"
          and n = 200, THEN conjunct2, THEN conjunct2, rule_format])
      (intro conjI e1 b2 b2' b3 e2 e3 e3' b4 e4 e5 e6 e7 e8 e9 e10)
  have d1: "calls_made the_config the_world commented ''35.231.147.226'' both_teams
       = [UpsertUser 5 ''ann'', ReplaceMentions (Some ''Looks good''),
          CreateComment ''acme/app'' 9 ''text (via Linear)'']"
    by (simp add: calls_made_def handler_defs fixture_defs block_defs Let_def)
  have d2: "fst (linearWebhookHandler the_config the_world title_changed ''35.231.147.226''
             other_team_only) = Inr (Some ''Skipping over edit for ENG-42'')"
    using c2 by (simp add: ticketName_def data_def scope_of_def show_number_def fixture_defs)
  have d2': "calls_made the_config the_world title_changed ''35.231.147.226'' other_team_only
       = [UpsertUser 5 ''ann'']"
    using c2 by (simp add: fixture_defs)
  have d3: "calls_made the_config the_world title_changed ''35.231.147.226'' both_teams
       = [UpsertUser 5 ''ann'',
          GotPatch ''https://api.github.com/repos/acme/app/issues/7''
            (Title ''[ENG-42] Crash on start'')]"
    using c3
    by (simp add: issueEndpoint_def issueTitle_def ticketName_def data_def scope_of_def
        show_number_def fixture_defs)
  have b6: "list_all
      (\<lambda>r. si_linearIssueId r = d_id (p_data title_changed)
         \<longrightarrow> si_linearTeamId r \<noteq> ''team-eng'')
      (issues other_team_only)"
    using b5 by (simp add: list_all_iff)
  show ?thesis
    by (intro conjI a1 a2 a3 a4 a5 a6 a6' a7 a8 a9 c1 d1 b1 b2 b2' b3 b6 b4 d2 d2' e1 e2 e3 e4
        e5 e6 e7 e8 e9 e10 c3 [THEN conjunct1] d3)
qed

subsection \<open>Failed calls to GitHub\<close>

text \<open>
  The runs below are runs of the whole handler. Where the failing call belongs to the
  priority or the estimate reconciler, \<open>s1\<close> is the state in which the handler reaches the
  priority reconciler: what comes before it has run to its end.
\<close>

lemma update_reaches_priority:
  assumes "accepted C W body originIp s sy team repo mapped"
      and "findSyncedIssue s (p_data body) = Some si"
      and "p_action body = ''update''"
      and "before_priority C W (scope_of body s sy team repo) si (entered s sy mapped) = (Next, s1)"
  shows "handler C W body originIp s =
           seq (priority_change C W (scope_of body s sy team repo) si)
             (estimate_change C W (scope_of body s sy team repo) si) s1"
  using assms(2-)
  by (simp add: handler_accepted [OF assms(1)] dispatch_def update_before_priority seq_Next)

lemma priority_remove_run:
  \<open>priority_remove C W si old s =
     (Next,
      s\<lparr>calls := calls s @ [GotDelete (issueEndpoint C si @ ''/labels/'' @ label_name old) None],
        logs := logs s @
          [case w_status W (calls s @ [GotDelete (issueEndpoint C si @ ''/labels/''
                                                   @ label_name old) None]) of
             None \<Rightarrow> ''Could not remove previous priority label.''
           | Some n \<Rightarrow>
               if 201 < n then ''Did not remove priority label "'' @ label_name old @ ''".''
               else ''Removed priority "'' @ label_name old @ ''" from issue #''
                      @ show_nat (si_githubIssueNumber si) @ ''.'']\<rparr>)\<close>
  by (cases "w_status W (calls s @ [GotDelete (issueEndpoint C si @ ''/labels/'' @ label_name old) None])")
    (simp_all add: priority_remove_def block_defs)

lemma priority_removal_not_fatal:
  assumes acc: "accepted C W body originIp s sy team repo mapped"
      and "findSyncedIssue s (p_data body) = Some si"
      and "p_action body = ''update''"
      and before: "before_priority C W (scope_of body s sy team repo) si (entered s sy mapped) = (Next, s1)"
      and "uf_priority (p_updatedFrom body) = Some prev"
      and "priorityLabelOf C prev = Some old"
      and "priorityLabelOf C (d_priority (p_data body)) = Some new"
      and "d_priority (p_data body) \<noteq> Some 0"
      and "w_status W (calls s1 @ [GotDelete (issueEndpoint C si @ ''/labels/'' @ label_name old) None]) = st"
      and "(case st of None \<Rightarrow> True | Some n \<Rightarrow> 201 < n)"
      and "w_createLabel W (calls s1 @ [GotDelete (issueEndpoint C si @ ''/labels/'' @ label_name old) None,
              CreateLabel (repoName repo) new]) = Some r"
      and "\<not> createLabelError r"
      and "w_error W (calls s1 @ [GotDelete (issueEndpoint C si @ ''/labels/'' @ label_name old) None,
              CreateLabel (repoName repo) new,
              ApplyLabel (repoName (si_GitHubRepo si)) (si_githubIssueNumber si) [labelNameOf r new]])
            = Some False"
  shows \<open>linearWebhookHandler C W body originIp s =
           (Inr (Some (''Applied priority label "'' @ labelNameOf r new @ ''" to issue #''
                    @ show_nat (si_githubIssueNumber si) @ ''.'')),
            s1\<lparr>calls := calls s1 @ [GotDelete (issueEndpoint C si @ ''/labels/'' @ label_name old) None,
                    CreateLabel (repoName repo) new,
                    ApplyLabel (repoName (si_GitHubRepo si)) (si_githubIssueNumber si)
                      [labelNameOf r new]],
               logs := logs s1 @
                 [case st of
                    None \<Rightarrow> ''Could not remove previous priority label.''
                  | Some n \<Rightarrow> ''Did not remove priority label "'' @ label_name old @ ''".'']\<rparr>)\<close>
  using assms(5-)
  by (cases st)
    (simp_all add: linearWebhookHandler_def update_reaches_priority [OF assms(1-4)]
      priority_change_def priority_add_def priority_remove_run repoFullName_def
      seq_def await_def ret_def throw_def Let_def)


lemma estimate_removal_not_fatal:
  assumes acc: "accepted C W body originIp s sy team repo mapped"
      and "findSyncedIssue s (p_data body) = Some si"
      and "p_action body = ''update''"
      and before: "before_priority C W (scope_of body s sy team repo) si (entered s sy mapped) = (Next, s1)"
      and "uf_priority (p_updatedFrom body) = None"
      and "uf_estimate (p_updatedFrom body) = Some prev"
      and "truthy_num (d_estimate (p_data body))"
      and "w_status W (calls s1 @ [GotDelete (issueEndpoint C si @ ''/labels/'' @ show_null prev
                                     @ '' points'') None]) = Some n"
      and "201 < n"
      and "new = \<lparr>label_name = show_number (d_estimate (p_data body)) @ '' points'',
                   label_color = ''666''\<rparr>"
      and "w_createLabel W (calls s1 @ [GotDelete (issueEndpoint C si @ ''/labels/'' @ show_null prev
                                     @ '' points'') None,
              CreateLabel (repoName repo) new]) = Some r"
      and "\<not> createLabelError r"
      and "w_error W (calls s1 @ [GotDelete (issueEndpoint C si @ ''/labels/'' @ show_null prev
                                     @ '' points'') None,
              CreateLabel (repoName repo) new,
              ApplyLabel (repoName (si_GitHubRepo si)) (si_githubIssueNumber si) [labelNameOf r new]])
            = Some False"
  shows \<open>linearWebhookHandler C W body originIp s =
           (Inr None,
            s1\<lparr>calls := calls s1 @ [GotDelete (issueEndpoint C si @ ''/labels/'' @ show_null prev
                                     @ '' points'') None,
                    CreateLabel (repoName repo) new,
                    ApplyLabel (repoName (si_GitHubRepo si)) (si_githubIssueNumber si)
                      [labelNameOf r new]],
               logs := logs s1 @
                 [''Did not remove estimate label "'' @ show_null prev @ '' points'' @ ''".'',
                  ''Applied estimate label "'' @ labelNameOf r new @ ''" to issue #''
                    @ show_nat (si_githubIssueNumber si) @ ''.'']\<rparr>)\<close>
  using assms(5-)
  by (simp add: linearWebhookHandler_def update_reaches_priority [OF assms(1-4)]
      priority_change_def estimate_change_def estimate_add_def repoFullName_def
      block_defs Let_def)

lemma comment_failure_not_fatal:
  assumes acc: "accepted C W body originIp s sy team repo mapped"
      and "p_action body = ''create''" and "p_type body = ''Comment''"
      and "\<not> str_includes (d_id (p_data body)) (UUID_SUFFIX C)"
      and "\<not> internalComment C (d_body (p_data body))"
      and "find (\<lambda>r. prisma_where (d_issueId (p_data body)) (si_linearIssueId r)) (issues s)
             = Some link"
      and "w_text W (calls s @ [UpsertUser (sy_githubUserId sy) (sy_linearUserId sy),
              ReplaceMentions (d_body (p_data body))]) = Some m"
      and "w_error W (calls s @ [UpsertUser (sy_githubUserId sy) (sy_linearUserId sy),
              ReplaceMentions (d_body (p_data body)),
              CreateComment (repoName (si_GitHubRepo link)) (si_githubIssueNumber link)
                ((case m of None \<Rightarrow> [] | Some t \<Rightarrow> t) @ getGitHubFooter C (d_user (p_data body)))])
            = Some True"
  shows "linearWebhookHandler C W body originIp s =
           (Inr None,
            (entered s sy mapped)
              \<lparr>calls := calls s @ [UpsertUser (sy_githubUserId sy) (sy_linearUserId sy),
                  ReplaceMentions (d_body (p_data body)),
                  CreateComment (repoName (si_GitHubRepo link)) (si_githubIssueNumber link)
                    ((case m of None \<Rightarrow> [] | Some t \<Rightarrow> t)
                       @ getGitHubFooter C (d_user (p_data body)))],
                logs := logs s @
                  [''Failed to update GitHub issue state for ''
                     @ show_string (d_issue (p_data body)) @ '' on GitHub issue #''
                     @ show_nat (si_githubIssueNumber link) @ ''.'']\<rparr>)"
  using assms(2-)
  by (simp add: linearWebhookHandler_def handler_accepted [OF acc] dispatch_def
      comment_created_def block_defs)

lemma label_removal_fatal:
  assumes acc: "accepted C W body originIp s sy team repo mapped"
      and "findSyncedIssue s (p_data body) = Some si"
      and "p_action body = ''update''"
      and "uf_labelIds (p_updatedFrom body) = Some before"
      and "publicLabelId team \<in> set before"
      and "d_labelIds (p_data body) = Some after"
      and "length after < length before"
      and "find (\<lambda>i. i \<notin> set after) before \<noteq> Some (publicLabelId team)"
      and "w_issueLabel W (calls s @ [UpsertUser (sy_githubUserId sy) (sy_linearUserId sy),
              IssueLabel (find (\<lambda>i. i \<notin> set after) before)]) = Some (Some l)"
      and "w_status W (calls s @ [UpsertUser (sy_githubUserId sy) (sy_linearUserId sy),
              IssueLabel (find (\<lambda>i. i \<notin> set after) before),
              GotDelete (issueEndpoint C si @ ''/labels/'' @ label_name l) None]) = Some n"
      and "201 < n"
  shows \<open>linearWebhookHandler C W body originIp s =
           (Inl (ApiError (''Could not remove label "'' @ label_name l @ ''".'') 403),
            (entered s sy mapped)
              \<lparr>calls := calls s @ [UpsertUser (sy_githubUserId sy) (sy_linearUserId sy),
                  IssueLabel (find (\<lambda>i. i \<notin> set after) before),
                  GotDelete (issueEndpoint C si @ ''/labels/'' @ label_name l) None],
                logs := logs s @ [''Could not remove label "'' @ label_name l @ ''".'']\<rparr>)\<close>
  using assms(2-)
  by (simp add: linearWebhookHandler_def handler_accepted [OF acc] dispatch_def update_def
      label_change_def label_updated_def block_defs Let_def)

lemma label_addition_fatal:
  assumes acc: "accepted C W body originIp s sy team repo mapped"
      and "findSyncedIssue s (p_data body) = Some si"
      and "p_action body = ''update''"
      and "uf_labelIds (p_updatedFrom body) = Some before"
      and "publicLabelId team \<in> set before"
      and "d_labelIds (p_data body) = Some after"
      and "length before < length after"
      and "w_issueLabel W (calls s @ [UpsertUser (sy_githubUserId sy) (sy_linearUserId sy),
              IssueLabel (find (\<lambda>i. i \<notin> set before) after)]) = Some (Some l)"
      and "toLowerCase C (label_name l) \<in> set (ALLOWED_LABELS C)"
      and "w_createLabel W (calls s @ [UpsertUser (sy_githubUserId sy) (sy_linearUserId sy),
              IssueLabel (find (\<lambda>i. i \<notin> set before) after),
              CreateLabel (repoName repo) l]) = Some r"
      and "createLabelError r
           \<or> w_error W (calls s @ [UpsertUser (sy_githubUserId sy) (sy_linearUserId sy),
                IssueLabel (find (\<lambda>i. i \<notin> set before) after),
                CreateLabel (repoName repo) l,
                ApplyLabel (repoName (si_GitHubRepo si)) (si_githubIssueNumber si)
                  [labelNameOf r l]]) = Some True"
  shows "linearWebhookHandler C W body originIp s =
           (Inl (ApiError (if createLabelError r then ''Could not create label.''
                           else ''Could not apply label.'') 403),
            (entered s sy mapped)
              \<lparr>calls := calls s @ [UpsertUser (sy_githubUserId sy) (sy_linearUserId sy),
                  IssueLabel (find (\<lambda>i. i \<notin> set before) after),
                  CreateLabel (repoName repo) l]
                  @ (if createLabelError r then []
                     else [ApplyLabel (repoName (si_GitHubRepo si)) (si_githubIssueNumber si)
                             [labelNameOf r l]]),
                logs := logs s @ [if createLabelError r then ''Could not create label.''
                                 else ''Could not apply label.'']\<rparr>)"
  using assms(2-)
  by (auto simp: linearWebhookHandler_def handler_accepted [OF acc] dispatch_def update_def
      label_change_def label_updated_def allowed_def repoFullName_def block_defs Let_def)

lemma priority_addition_fatal:
  assumes acc: "accepted C W body originIp s sy team repo mapped"
      and "findSyncedIssue s (p_data body) = Some si"
      and "p_action body = ''update''"
      and before: "before_priority C W (scope_of body s sy team repo) si (entered s sy mapped) = (Next, s1)"
      and "uf_priority (p_updatedFrom body) = Some prev"
      and "priorityLabelOf C prev = Some old"
      and "priorityLabelOf C (d_priority (p_data body)) = Some new"
      and "d_priority (p_data body) \<noteq> Some 0"
      and "w_createLabel W (calls s1 @ [GotDelete (issueEndpoint C si @ ''/labels/'' @ label_name old) None,
              CreateLabel (repoName repo) new]) = Some r"
      and "createLabelError r
           \<or> w_error W (calls s1 @ [GotDelete (issueEndpoint C si @ ''/labels/'' @ label_name old) None,
                CreateLabel (repoName repo) new,
                ApplyLabel (repoName (si_GitHubRepo si)) (si_githubIssueNumber si)
                  [labelNameOf r new]]) = Some True"
  shows "fst (linearWebhookHandler C W body originIp s)
           = Inl (ApiError (if createLabelError r then ''Could not create label.''
                            else ''Could not apply label.'') 403)
         \<and> calls (snd (linearWebhookHandler C W body originIp s))
           = calls s1 @ [GotDelete (issueEndpoint C si @ ''/labels/'' @ label_name old) None,
                CreateLabel (repoName repo) new]
               @ (if createLabelError r then []
                  else [ApplyLabel (repoName (si_GitHubRepo si)) (si_githubIssueNumber si)
                          [labelNameOf r new]])"
  using assms(5-)
  by (auto simp: linearWebhookHandler_def update_reaches_priority [OF assms(1-4)]
      priority_change_def priority_add_def priority_remove_run repoFullName_def
      seq_def await_def ret_def throw_def Let_def)

lemma estimate_addition_fatal:
  assumes acc: "accepted C W body originIp s sy team repo mapped"
      and "findSyncedIssue s (p_data body) = Some si"
      and "p_action body = ''update''"
      and before: "before_priority C W (scope_of body s sy team repo) si (entered s sy mapped) = (Next, s1)"
      and "uf_priority (p_updatedFrom body) = None"
      and "uf_estimate (p_updatedFrom body) = Some prev"
      and "truthy_num (d_estimate (p_data body))"
      and "w_status W (calls s1 @ [GotDelete (issueEndpoint C si @ ''/labels/'' @ show_null prev
                                     @ '' points'') None]) = Some n"
      and "new = \<lparr>label_name = show_number (d_estimate (p_data body)) @ '' points'',
                   label_color = ''666''\<rparr>"
      and "w_createLabel W (calls s1 @ [GotDelete (issueEndpoint C si @ ''/labels/'' @ show_null prev
                                     @ '' points'') None,
              CreateLabel (repoName repo) new]) = Some r"
      and "createLabelError r
           \<or> w_error W (calls s1 @ [GotDelete (issueEndpoint C si @ ''/labels/'' @ show_null prev
                                     @ '' points'') None,
                CreateLabel (repoName repo) new,
                ApplyLabel (repoName (si_GitHubRepo si)) (si_githubIssueNumber si)
                  [labelNameOf r new]]) = Some True"
  shows "fst (linearWebhookHandler C W body originIp s)
           = Inl (ApiError (if createLabelError r then ''Could not create estimate label.''
                            else ''Could not apply label.'') 403)
         \<and> calls (snd (linearWebhookHandler C W body originIp s))
           = calls s1 @ [GotDelete (issueEndpoint C si @ ''/labels/'' @ show_null prev
                                     @ '' points'') None,
                CreateLabel (repoName repo) new]
               @ (if createLabelError r then []
                  else [ApplyLabel (repoName (si_GitHubRepo si)) (si_githubIssueNumber si)
                          [labelNameOf r new]])"
  using assms(5-)
  by (auto simp: linearWebhookHandler_def update_reaches_priority [OF assms(1-4)]
      priority_change_def estimate_change_def estimate_add_def repoFullName_def
      block_defs Let_def)

text \<open>
  C1, as the handler has it. Not fatal: the removal of the previous priority label (a
  status above 201 and an exception of \<^verbatim>\<open>got\<close> are both logged, inside
  \<^verbatim>\<open>try\<close>/\<^verbatim>\<open>catch\<close>; the reconciler goes on to create and apply the new label and the
  handler returns \<^verbatim>\<open>Applied priority label ...\<close>), the removal of the previous estimate
  label with a status above 201 (logged; the new estimate label is created and applied
  and the handler runs to its end), and the post of a created comment that reports an
  error (logged, and the handler runs to its end). Fatal: in the label reconciler the
  deletion of a removed label with a status above 201 and a \<^verbatim>\<open>createLabel\<close> or
  \<^verbatim>\<open>applyLabel\<close> that reports an error for an added label, and a \<^verbatim>\<open>createLabel\<close> or
  \<^verbatim>\<open>applyLabel\<close> that reports an error for the new priority or the new estimate label.
  Each of these makes \<^verbatim>\<open>ApiError(..., 403)\<close> the outcome of the handler, and the failed
  call is the last call of the run: no reconciler after it is run.
\<close>

theorem reconciler_failures:
  \<open>(accepted C W body originIp s sy team repo mapped
      \<and> findSyncedIssue s (p_data body) = Some si
      \<and> p_action body = ''update''
      \<and> before_priority C W (scope_of body s sy team repo) si (entered s sy mapped) = (Next, s1)
      \<and> uf_priority (p_updatedFrom body) = Some prev
      \<and> priorityLabelOf C prev = Some old
      \<and> priorityLabelOf C (d_priority (p_data body)) = Some new
      \<and> d_priority (p_data body) \<noteq> Some 0
      \<and> w_status W (calls s1 @ [GotDelete (issueEndpoint C si @ ''/labels/'' @ label_name old)
                                    None]) = st
      \<and> (case st of None \<Rightarrow> True | Some n \<Rightarrow> 201 < n)
      \<and> w_createLabel W (calls s1 @ [GotDelete (issueEndpoint C si @ ''/labels/''
                                                  @ label_name old) None,
            CreateLabel (repoName repo) new]) = Some r
      \<and> \<not> createLabelError r
      \<and> w_error W (calls s1 @ [GotDelete (issueEndpoint C si @ ''/labels/'' @ label_name old)
                                   None,
            CreateLabel (repoName repo) new,
            ApplyLabel (repoName (si_GitHubRepo si)) (si_githubIssueNumber si)
              [labelNameOf r new]]) = Some False \<longrightarrow>
    linearWebhookHandler C W body originIp s =
      (Inr (Some (''Applied priority label "'' @ labelNameOf r new @ ''" to issue #''
               @ show_nat (si_githubIssueNumber si) @ ''.'')),
       s1\<lparr>calls := calls s1 @ [GotDelete (issueEndpoint C si @ ''/labels/'' @ label_name old)
                                  None,
               CreateLabel (repoName repo) new,
               ApplyLabel (repoName (si_GitHubRepo si)) (si_githubIssueNumber si)
                 [labelNameOf r new]],
          logs := logs s1 @
            [case st of
               None \<Rightarrow> ''Could not remove previous priority label.''
             | Some n \<Rightarrow> ''Did not remove priority label "'' @ label_name old @ ''".'']\<rparr>))
   \<and> (accepted C W body originIp s sy team repo mapped
       \<and> findSyncedIssue s (p_data body) = Some si
       \<and> p_action body = ''update''
       \<and> before_priority C W (scope_of body s sy team repo) si (entered s sy mapped) = (Next, s1)
       \<and> uf_priority (p_updatedFrom body) = None
       \<and> uf_estimate (p_updatedFrom body) = Some was
       \<and> truthy_num (d_estimate (p_data body))
       \<and> w_status W (calls s1 @ [GotDelete (issueEndpoint C si @ ''/labels/'' @ show_null was
                                     @ '' points'') None]) = Some n
       \<and> 201 < n
       \<and> new = \<lparr>label_name = show_number (d_estimate (p_data body)) @ '' points'',
                  label_color = ''666''\<rparr>
       \<and> w_createLabel W (calls s1 @ [GotDelete (issueEndpoint C si @ ''/labels/''
                                                   @ show_null was @ '' points'') None,
             CreateLabel (repoName repo) new]) = Some r
       \<and> \<not> createLabelError r
       \<and> w_error W (calls s1 @ [GotDelete (issueEndpoint C si @ ''/labels/'' @ show_null was
                                     @ '' points'') None,
             CreateLabel (repoName repo) new,
             ApplyLabel (repoName (si_GitHubRepo si)) (si_githubIssueNumber si)
               [labelNameOf r new]]) = Some False \<longrightarrow>
       linearWebhookHandler C W body originIp s =
         (Inr None,
          s1\<lparr>calls := calls s1 @ [GotDelete (issueEndpoint C si @ ''/labels/'' @ show_null was
                                     @ '' points'') None,
                  CreateLabel (repoName repo) new,
                  ApplyLabel (repoName (si_GitHubRepo si)) (si_githubIssueNumber si)
                    [labelNameOf r new]],
             logs := logs s1 @
               [''Did not remove estimate label "'' @ show_null was @ '' points'' @ ''".'',
                ''Applied estimate label "'' @ labelNameOf r new @ ''" to issue #''
                  @ show_nat (si_githubIssueNumber si) @ ''.'']\<rparr>))
   \<and> (accepted C W body originIp s sy team repo mapped
       \<and> p_action body = ''create'' \<and> p_type body = ''Comment''
       \<and> \<not> str_includes (d_id (p_data body)) (UUID_SUFFIX C)
       \<and> \<not> internalComment C (d_body (p_data body))
       \<and> find (\<lambda>r. prisma_where (d_issueId (p_data body)) (si_linearIssueId r)) (issues s)
           = Some link
       \<and> w_text W (calls s @ [UpsertUser (sy_githubUserId sy) (sy_linearUserId sy),
             ReplaceMentions (d_body (p_data body))]) = Some m
       \<and> w_error W (calls s @ [UpsertUser (sy_githubUserId sy) (sy_linearUserId sy),
             ReplaceMentions (d_body (p_data body)),
             CreateComment (repoName (si_GitHubRepo link)) (si_githubIssueNumber link)
               ((case m of None \<Rightarrow> [] | Some t \<Rightarrow> t)
                  @ getGitHubFooter C (d_user (p_data body)))]) = Some True \<longrightarrow>
       linearWebhookHandler C W body originIp s =
         (Inr None,
          (entered s sy mapped)
            \<lparr>calls := calls s @ [UpsertUser (sy_githubUserId sy) (sy_linearUserId sy),
                ReplaceMentions (d_body (p_data body)),
                CreateComment (repoName (si_GitHubRepo link)) (si_githubIssueNumber link)
                  ((case m of None \<Rightarrow> [] | Some t \<Rightarrow> t)
                     @ getGitHubFooter C (d_user (p_data body)))],
              logs := logs s @
                [''Failed to update GitHub issue state for ''
                   @ show_string (d_issue (p_data body)) @ '' on GitHub issue #''
                   @ show_nat (si_githubIssueNumber link) @ ''.'']\<rparr>))
   \<and> (accepted C W body originIp s sy team repo mapped
       \<and> findSyncedIssue s (p_data body) = Some si
       \<and> p_action body = ''update''
       \<and> uf_labelIds (p_updatedFrom body) = Some before
       \<and> publicLabelId team \<in> set before
       \<and> d_labelIds (p_data body) = Some after
       \<and> length after < length before
       \<and> find (\<lambda>i. i \<notin> set after) before \<noteq> Some (publicLabelId team)
       \<and> w_issueLabel W (calls s @ [UpsertUser (sy_githubUserId sy) (sy_linearUserId sy),
             IssueLabel (find (\<lambda>i. i \<notin> set after) before)]) = Some (Some l)
       \<and> w_status W (calls s @ [UpsertUser (sy_githubUserId sy) (sy_linearUserId sy),
             IssueLabel (find (\<lambda>i. i \<notin> set after) before),
             GotDelete (issueEndpoint C si @ ''/labels/'' @ label_name l) None]) = Some n
       \<and> 201 < n \<longrightarrow>
       linearWebhookHandler C W body originIp s =
         (Inl (ApiError (''Could not remove label "'' @ label_name l @ ''".'') 403),
          (entered s sy mapped)
            \<lparr>calls := calls s @ [UpsertUser (sy_githubUserId sy) (sy_linearUserId sy),
                IssueLabel (find (\<lambda>i. i \<notin> set after) before),
                GotDelete (issueEndpoint C si @ ''/labels/'' @ label_name l) None],
              logs := logs s @ [''Could not remove label "'' @ label_name l @ ''".'']\<rparr>))
   \<and> (accepted C W body originIp s sy team repo mapped
       \<and> findSyncedIssue s (p_data body) = Some si
       \<and> p_action body = ''update''
       \<and> uf_labelIds (p_updatedFrom body) = Some before
       \<and> publicLabelId team \<in> set before
       \<and> d_labelIds (p_data body) = Some after
       \<and> length before < length after
       \<and> w_issueLabel W (calls s @ [UpsertUser (sy_githubUserId sy) (sy_linearUserId sy),
             IssueLabel (find (\<lambda>i. i \<notin> set before) after)]) = Some (Some l)
       \<and> toLowerCase C (label_name l) \<in> set (ALLOWED_LABELS C)
       \<and> w_createLabel W (calls s @ [UpsertUser (sy_githubUserId sy) (sy_linearUserId sy),
             IssueLabel (find (\<lambda>i. i \<notin> set before) after),
             CreateLabel (repoName repo) l]) = Some r
       \<and> (createLabelError r
           \<or> w_error W (calls s @ [UpsertUser (sy_githubUserId sy) (sy_linearUserId sy),
                IssueLabel (find (\<lambda>i. i \<notin> set before) after),
                CreateLabel (repoName repo) l,
                ApplyLabel (repoName (si_GitHubRepo si)) (si_githubIssueNumber si)
                  [labelNameOf r l]]) = Some True) \<longrightarrow>
       linearWebhookHandler C W body originIp s =
         (Inl (ApiError (if createLabelError r then ''Could not create label.''
                         else ''Could not apply label.'') 403),
          (entered s sy mapped)
            \<lparr>calls := calls s @ [UpsertUser (sy_githubUserId sy) (sy_linearUserId sy),
                IssueLabel (find (\<lambda>i. i \<notin> set before) after),
                CreateLabel (repoName repo) l]
                @ (if createLabelError r then []
                   else [ApplyLabel (repoName (si_GitHubRepo si)) (si_githubIssueNumber si)
                           [labelNameOf r l]]),
              logs := logs s @ [if createLabelError r then ''Could not create label.''
                               else ''Could not apply label.'']\<rparr>))
   \<and> (accepted C W body originIp s sy team repo mapped
       \<and> findSyncedIssue s (p_data body) = Some si
       \<and> p_action body = ''update''
       \<and> before_priority C W (scope_of body s sy team repo) si (entered s sy mapped) = (Next, s1)
       \<and> uf_priority (p_updatedFrom body) = Some prev
       \<and> priorityLabelOf C prev = Some old
       \<and> priorityLabelOf C (d_priority (p_data body)) = Some new
       \<and> d_priority (p_data body) \<noteq> Some 0
       \<and> w_createLabel W (calls s1 @ [GotDelete (issueEndpoint C si @ ''/labels/''
                                                   @ label_name old) None,
             CreateLabel (repoName repo) new]) = Some r
       \<and> (createLabelError r
           \<or> w_error W (calls s1 @ [GotDelete (issueEndpoint C si @ ''/labels/''
                                                 @ label_name old) None,
                CreateLabel (repoName repo) new,
                ApplyLabel (repoName (si_GitHubRepo si)) (si_githubIssueNumber si)
                  [labelNameOf r new]]) = Some True) \<longrightarrow>
       fst (linearWebhookHandler C W body originIp s)
         = Inl (ApiError (if createLabelError r then ''Could not create label.''
                          else ''Could not apply label.'') 403)
       \<and> calls (snd (linearWebhookHandler C W body originIp s))
         = calls s1 @ [GotDelete (issueEndpoint C si @ ''/labels/'' @ label_name old) None,
              CreateLabel (repoName repo) new]
             @ (if createLabelError r then []
                else [ApplyLabel (repoName (si_GitHubRepo si)) (si_githubIssueNumber si)
                        [labelNameOf r new]]))
   \<and> (accepted C W body originIp s sy team repo mapped
       \<and> findSyncedIssue s (p_data body) = Some si
       \<and> p_action body = ''update''
       \<and> before_priority C W (scope_of body s sy team repo) si (entered s sy mapped) = (Next, s1)
       \<and> uf_priority (p_updatedFrom body) = None
       \<and> uf_estimate (p_updatedFrom body) = Some was
       \<and> truthy_num (d_estimate (p_data body))
       \<and> w_status W (calls s1 @ [GotDelete (issueEndpoint C si @ ''/labels/'' @ show_null was
                                     @ '' points'') None]) = Some n
       \<and> new = \<lparr>label_name = show_number (d_estimate (p_data body)) @ '' points'',
                  label_color = ''666''\<rparr>
       \<and> w_createLabel W (calls s1 @ [GotDelete (issueEndpoint C si @ ''/labels/''
                                                   @ show_null was @ '' points'') None,
             CreateLabel (repoName repo) new]) = Some r
       \<and> (createLabelError r
           \<or> w_error W (calls s1 @ [GotDelete (issueEndpoint C si @ ''/labels/''
                                                 @ show_null was @ '' points'') None,
                CreateLabel (repoName repo) new,
                ApplyLabel (repoName (si_GitHubRepo si)) (si_githubIssueNumber si)
                  [labelNameOf r new]]) = Some True) \<longrightarrow>
       fst (linearWebhookHandler C W body originIp s)
         = Inl (ApiError (if createLabelError r then ''Could not create estimate label.''
                          else ''Could not apply label.'') 403)
       \<and> calls (snd (linearWebhookHandler C W body originIp s))
         = calls s1 @ [GotDelete (issueEndpoint C si @ ''/labels/'' @ show_null was
                                     @ '' points'') None,
              CreateLabel (repoName repo) new]
             @ (if createLabelError r then []
                else [ApplyLabel (repoName (si_GitHubRepo si)) (si_githubIssueNumber si)
                        [labelNameOf r new]]))\<close>
  apply (intro conjI impI)
  subgoal by (elim conjE) (rule priority_removal_not_fatal; assumption)
  subgoal by (elim conjE) (rule estimate_removal_not_fatal; assumption)
  subgoal by (elim conjE) (rule comment_failure_not_fatal; assumption)
  subgoal by (elim conjE) (rule label_removal_fatal; assumption)
  subgoal by (elim conjE) (rule label_addition_fatal; assumption)
  subgoal by (elim conjE) (rule priority_addition_fatal [THEN conjunct1]; assumption)
  subgoal by (elim conjE) (rule priority_addition_fatal [THEN conjunct2]; assumption)
  subgoal by (elim conjE) (rule estimate_addition_fatal [THEN conjunct1]; assumption)
  subgoal by (elim conjE) (rule estimate_addition_fatal [THEN conjunct2]; assumption)
  done

lemma toLowerCase_Bug [simp]: "ascii_toLowerCase ''Bug'' = ''bug''"
  by code_simp

lemmas hyp_defs = accepted_def before_priority_def handler_defs fixture_defs block_defs
  scope_of_def entered_def Let_def

lemmas run_defs = priorityLabelOf_def issueEndpoint_def labelNameOf_def show_null_def
  show_string_def show_number_def entered_def fixture_defs

theorem reconciler_failures_witness:
  \<open>accepted the_config failing_status priority_raised ''35.231.147.226'' the_state the_sync
      the_team the_repo (users the_state)
   \<and> findSyncedIssue the_state (p_data priority_raised) = Some the_link
   \<and> p_action priority_raised = ''update''
   \<and> before_priority the_config failing_status (scope_of priority_raised the_state the_sync
       the_team the_repo) the_link (entered the_state the_sync (users the_state)) = (Next,
       (entered the_state the_sync (users the_state)))
   \<and> uf_priority (p_updatedFrom priority_raised) = Some (Some 3)
   \<and> priorityLabelOf the_config (Some 3) = Some medium_label
   \<and> priorityLabelOf the_config (d_priority (p_data priority_raised)) = Some high_label
   \<and> d_priority (p_data priority_raised) \<noteq> Some 0
   \<and> w_status failing_status (calls (entered the_state the_sync (users the_state)) @
       [GotDelete (issueEndpoint the_config the_link @ ''/labels/'' @ label_name medium_label)
       None]) = Some (404 :: nat)
   \<and> (case Some (404 :: nat) of None \<Rightarrow> True | Some n \<Rightarrow> 201 < n)
   \<and> w_createLabel failing_status (calls (entered the_state the_sync (users the_state)) @
       [GotDelete (issueEndpoint the_config the_link @ ''/labels/'' @ label_name medium_label)
       None, CreateLabel (repoName the_repo) high_label]) = Some label_exists
   \<and> \<not> createLabelError label_exists
   \<and> w_error failing_status (calls (entered the_state the_sync (users the_state)) @
       [GotDelete (issueEndpoint the_config the_link @ ''/labels/'' @ label_name medium_label)
       None, CreateLabel (repoName the_repo) high_label, ApplyLabel (repoName (si_GitHubRepo
       the_link)) (si_githubIssueNumber the_link) [labelNameOf label_exists high_label]]) = Some
       False
   \<and> accepted the_config throwing_status priority_raised ''35.231.147.226'' the_state
       the_sync the_team the_repo (users the_state)
   \<and> before_priority the_config throwing_status (scope_of priority_raised the_state the_sync
       the_team the_repo) the_link (entered the_state the_sync (users the_state)) = (Next,
       (entered the_state the_sync (users the_state)))
   \<and> w_status throwing_status (calls (entered the_state the_sync (users the_state)) @
       [GotDelete (issueEndpoint the_config the_link @ ''/labels/'' @ label_name medium_label)
       None]) = (None :: nat option)
   \<and> (case (None :: nat option) of None \<Rightarrow> True | Some n \<Rightarrow> 201 < n)
   \<and> w_createLabel throwing_status (calls (entered the_state the_sync (users the_state)) @
       [GotDelete (issueEndpoint the_config the_link @ ''/labels/'' @ label_name medium_label)
       None, CreateLabel (repoName the_repo) high_label]) = Some label_exists
   \<and> w_error throwing_status (calls (entered the_state the_sync (users the_state)) @
       [GotDelete (issueEndpoint the_config the_link @ ''/labels/'' @ label_name medium_label)
       None, CreateLabel (repoName the_repo) high_label, ApplyLabel (repoName (si_GitHubRepo
       the_link)) (si_githubIssueNumber the_link) [labelNameOf label_exists high_label]]) = Some
       False
   \<and> accepted the_config failing_status estimate_changed ''35.231.147.226'' the_state
       the_sync the_team the_repo (users the_state)
   \<and> findSyncedIssue the_state (p_data estimate_changed) = Some the_link
   \<and> p_action estimate_changed = ''update''
   \<and> before_priority the_config failing_status (scope_of estimate_changed the_state the_sync
       the_team the_repo) the_link (entered the_state the_sync (users the_state)) = (Next,
       (entered the_state the_sync (users the_state)))
   \<and> uf_priority (p_updatedFrom estimate_changed) = None
   \<and> uf_estimate (p_updatedFrom estimate_changed) = Some (Some 2)
   \<and> truthy_num (d_estimate (p_data estimate_changed))
   \<and> w_status failing_status (calls (entered the_state the_sync (users the_state)) @
       [GotDelete (issueEndpoint the_config the_link @ ''/labels/'' @ show_null (Some 2) @
       '' points'') None]) = Some 404
   \<and> 201 < (404 :: nat)
   \<and> three_points = \<lparr>label_name = show_number (d_estimate (p_data estimate_changed)) @
       '' points'', label_color = ''666''\<rparr>
   \<and> w_createLabel failing_status (calls (entered the_state the_sync (users the_state)) @
       [GotDelete (issueEndpoint the_config the_link @ ''/labels/'' @ show_null (Some 2) @
       '' points'') None, CreateLabel (repoName the_repo) three_points]) = Some label_exists
   \<and> w_error failing_status (calls (entered the_state the_sync (users the_state)) @
       [GotDelete (issueEndpoint the_config the_link @ ''/labels/'' @ show_null (Some 2) @
       '' points'') None, CreateLabel (repoName the_repo) three_points, ApplyLabel (repoName
       (si_GitHubRepo the_link)) (si_githubIssueNumber the_link) [labelNameOf label_exists
       three_points]]) = Some False
   \<and> accepted the_config failing_comment commented ''35.231.147.226'' the_state the_sync
       the_team the_repo (users the_state)
   \<and> p_action commented = ''create''
   \<and> p_type commented = ''Comment''
   \<and> \<not> str_includes (d_id (p_data commented)) (UUID_SUFFIX the_config)
   \<and> \<not> internalComment the_config (d_body (p_data commented))
   \<and> find (\<lambda>r. prisma_where (d_issueId (p_data commented)) (si_linearIssueId r))
       (issues the_state) = Some the_link
   \<and> w_text failing_comment (calls the_state @ [UpsertUser (sy_githubUserId the_sync)
       (sy_linearUserId the_sync), ReplaceMentions (d_body (p_data commented))]) = Some (Some
       ''text'')
   \<and> w_error failing_comment (calls the_state @ [UpsertUser (sy_githubUserId the_sync)
       (sy_linearUserId the_sync), ReplaceMentions (d_body (p_data commented)), CreateComment
       (repoName (si_GitHubRepo the_link)) (si_githubIssueNumber the_link) ((case Some ''text'' of
       None \<Rightarrow> [] | Some t \<Rightarrow> t) @ getGitHubFooter the_config (d_user
       (p_data commented)))]) = Some True
   \<and> accepted the_config failing_status label_removed ''35.231.147.226'' the_state the_sync
       the_team the_repo (users the_state)
   \<and> findSyncedIssue the_state (p_data label_removed) = Some the_link
   \<and> p_action label_removed = ''update''
   \<and> uf_labelIds (p_updatedFrom label_removed) = Some [''public'', ''l-bug'']
   \<and> publicLabelId the_team \<in> set [''public'', ''l-bug'']
   \<and> d_labelIds (p_data label_removed) = Some [''public'']
   \<and> length [''public''] < length [''public'', ''l-bug'']
   \<and> find (\<lambda>i. i \<notin> set [''public'']) [''public'', ''l-bug''] \<noteq> Some
       (publicLabelId the_team)
   \<and> w_issueLabel failing_status (calls the_state @ [UpsertUser (sy_githubUserId the_sync)
       (sy_linearUserId the_sync), IssueLabel (find (\<lambda>i. i \<notin> set [''public''])
       [''public'', ''l-bug''])]) = Some (Some bug_label)
   \<and> w_status failing_status (calls the_state @ [UpsertUser (sy_githubUserId the_sync)
       (sy_linearUserId the_sync), IssueLabel (find (\<lambda>i. i \<notin> set [''public''])
       [''public'', ''l-bug'']), GotDelete (issueEndpoint the_config the_link @ ''/labels/'' @
       label_name bug_label) None]) = Some 404
   \<and> accepted the_config failing_label label_added ''35.231.147.226'' the_state the_sync
       the_team the_repo (users the_state)
   \<and> findSyncedIssue the_state (p_data label_added) = Some the_link
   \<and> p_action label_added = ''update''
   \<and> uf_labelIds (p_updatedFrom label_added) = Some [''public'']
   \<and> publicLabelId the_team \<in> set [''public'']
   \<and> d_labelIds (p_data label_added) = Some [''public'', ''l-new'']
   \<and> length [''public''] < length [''public'', ''l-new'']
   \<and> w_issueLabel failing_label (calls the_state @ [UpsertUser (sy_githubUserId the_sync)
       (sy_linearUserId the_sync), IssueLabel (find (\<lambda>i. i \<notin> set [''public''])
       [''public'', ''l-new''])]) = Some (Some bug_label)
   \<and> toLowerCase the_config (label_name bug_label) \<in> set (ALLOWED_LABELS the_config)
   \<and> w_createLabel failing_label (calls the_state @ [UpsertUser (sy_githubUserId the_sync)
       (sy_linearUserId the_sync), IssueLabel (find (\<lambda>i. i \<notin> set [''public''])
       [''public'', ''l-new'']), CreateLabel (repoName the_repo) bug_label]) = Some label_refused
   \<and> (createLabelError label_refused \<or> w_error failing_label (calls the_state @
       [UpsertUser (sy_githubUserId the_sync) (sy_linearUserId the_sync), IssueLabel (find
       (\<lambda>i. i \<notin> set [''public'']) [''public'', ''l-new'']), CreateLabel (repoName
       the_repo) bug_label, ApplyLabel (repoName (si_GitHubRepo the_link)) (si_githubIssueNumber
       the_link) [labelNameOf label_refused bug_label]]) = Some True)
   \<and> accepted the_config failing_label priority_raised ''35.231.147.226'' the_state the_sync
       the_team the_repo (users the_state)
   \<and> before_priority the_config failing_label (scope_of priority_raised the_state the_sync
       the_team the_repo) the_link (entered the_state the_sync (users the_state)) = (Next,
       (entered the_state the_sync (users the_state)))
   \<and> w_createLabel failing_label (calls (entered the_state the_sync (users the_state)) @
       [GotDelete (issueEndpoint the_config the_link @ ''/labels/'' @ label_name medium_label)
       None, CreateLabel (repoName the_repo) high_label]) = Some label_refused
   \<and> (createLabelError label_refused \<or> w_error failing_label (calls (entered the_state
       the_sync (users the_state)) @ [GotDelete (issueEndpoint the_config the_link @ ''/labels/''
       @ label_name medium_label) None, CreateLabel (repoName the_repo) high_label, ApplyLabel
       (repoName (si_GitHubRepo the_link)) (si_githubIssueNumber the_link) [labelNameOf
       label_refused high_label]]) = Some True)
   \<and> accepted the_config failing_label estimate_changed ''35.231.147.226'' the_state the_sync
       the_team the_repo (users the_state)
   \<and> before_priority the_config failing_label (scope_of estimate_changed the_state the_sync
       the_team the_repo) the_link (entered the_state the_sync (users the_state)) = (Next,
       (entered the_state the_sync (users the_state)))
   \<and> w_status failing_label (calls (entered the_state the_sync (users the_state)) @
       [GotDelete (issueEndpoint the_config the_link @ ''/labels/'' @ show_null (Some 2) @
       '' points'') None]) = Some 200
   \<and> w_createLabel failing_label (calls (entered the_state the_sync (users the_state)) @
       [GotDelete (issueEndpoint the_config the_link @ ''/labels/'' @ show_null (Some 2) @
       '' points'') None, CreateLabel (repoName the_repo) three_points]) = Some label_refused
   \<and> (createLabelError label_refused \<or> w_error failing_label (calls (entered the_state
       the_sync (users the_state)) @ [GotDelete (issueEndpoint the_config the_link @ ''/labels/''
       @ show_null (Some 2) @ '' points'') None, CreateLabel (repoName the_repo) three_points,
       ApplyLabel (repoName (si_GitHubRepo the_link)) (si_githubIssueNumber the_link) [labelNameOf
       label_refused three_points]]) = Some True)
   \<and> linearWebhookHandler the_config failing_status priority_raised ''35.231.147.226''
       the_state =
      (Inr (Some ''Applied priority label "High" to issue #7.''),
       the_state\<lparr>calls :=
           [UpsertUser 5 ''ann'',
            GotDelete ''https://api.github.com/repos/acme/app/issues/7/labels/Medium'' None,
            CreateLabel ''acme/app'' high_label, ApplyLabel ''acme/app'' 7 [''High'']],
         logs := [''Did not remove priority label "Medium".'']\<rparr>)
   \<and> linearWebhookHandler the_config throwing_status priority_raised ''35.231.147.226''
       the_state =
      (Inr (Some ''Applied priority label "High" to issue #7.''),
       the_state\<lparr>calls :=
           [UpsertUser 5 ''ann'',
            GotDelete ''https://api.github.com/repos/acme/app/issues/7/labels/Medium'' None,
            CreateLabel ''acme/app'' high_label, ApplyLabel ''acme/app'' 7 [''High'']],
         logs := [''Could not remove previous priority label.'']\<rparr>)
   \<and> linearWebhookHandler the_config failing_status estimate_changed ''35.231.147.226''
       the_state =
      (Inr None,
       the_state\<lparr>calls :=
           [UpsertUser 5 ''ann'',
            GotDelete ''https://api.github.com/repos/acme/app/issues/7/labels/2 points'' None,
            CreateLabel ''acme/app'' three_points, ApplyLabel ''acme/app'' 7 [''3 points'']],
         logs := [''Did not remove estimate label "2 points".'',
                  ''Applied estimate label "3 points" to issue #7.'']\<rparr>)
   \<and> linearWebhookHandler the_config failing_comment commented ''35.231.147.226'' the_state =
      (Inr None,
       the_state\<lparr>calls :=
           [UpsertUser 5 ''ann'', ReplaceMentions (Some ''Looks good''),
            CreateComment ''acme/app'' 7 ''text (via Linear)''],
         logs := [''Failed to update GitHub issue state for issue-42 on GitHub issue #7.'']\<rparr>)
   \<and> linearWebhookHandler the_config failing_status label_removed ''35.231.147.226''
       the_state =
      (Inl (ApiError ''Could not remove label "Bug".'' 403),
       the_state\<lparr>calls :=
           [UpsertUser 5 ''ann'', IssueLabel (Some ''l-bug''),
            GotDelete ''https://api.github.com/repos/acme/app/issues/7/labels/Bug'' None],
         logs := [''Could not remove label "Bug".'']\<rparr>)
   \<and> linearWebhookHandler the_config failing_label label_added ''35.231.147.226'' the_state =
      (Inl (ApiError ''Could not create label.'' 403),
       the_state\<lparr>calls :=
           [UpsertUser 5 ''ann'', IssueLabel (Some ''l-new''),
            CreateLabel ''acme/app'' bug_label],
         logs := [''Could not create label.'']\<rparr>)
   \<and> fst (linearWebhookHandler the_config failing_label priority_raised ''35.231.147.226''
       the_state) = Inl (ApiError ''Could not create label.'' 403)
   \<and> calls (snd (linearWebhookHandler the_config failing_label priority_raised
       ''35.231.147.226'' the_state))
       = [UpsertUser 5 ''ann'',
          GotDelete ''https://api.github.com/repos/acme/app/issues/7/labels/Medium'' None,
          CreateLabel ''acme/app'' high_label]
   \<and> fst (linearWebhookHandler the_config failing_label estimate_changed ''35.231.147.226''
       the_state) = Inl (ApiError ''Could not create estimate label.'' 403)
   \<and> calls (snd (linearWebhookHandler the_config failing_label estimate_changed
       ''35.231.147.226'' the_state))
       = [UpsertUser 5 ''ann'',
          GotDelete ''https://api.github.com/repos/acme/app/issues/7/labels/2 points'' None,
          CreateLabel ''acme/app'' three_points]\<close>
proof -
  have h1: \<open>accepted the_config failing_status priority_raised ''35.231.147.226'' the_state
      the_sync the_team the_repo (users the_state)\<close>
    by (simp add: hyp_defs)
  have h2: \<open>findSyncedIssue the_state (p_data priority_raised) = Some the_link\<close>
    by (simp add: hyp_defs)
  have h3: \<open>p_action priority_raised = ''update''\<close>
    by (simp add: hyp_defs)
  have h4: \<open>before_priority the_config failing_status (scope_of priority_raised the_state
      the_sync the_team the_repo) the_link (entered the_state the_sync (users the_state)) = (Next,
      (entered the_state the_sync (users the_state)))\<close>
    by (simp add: hyp_defs)
  have h5: \<open>uf_priority (p_updatedFrom priority_raised) = Some (Some 3)\<close>
    by (simp add: hyp_defs)
  have h6: \<open>priorityLabelOf the_config (Some 3) = Some medium_label\<close>
    by (simp add: hyp_defs)
  have h7: \<open>priorityLabelOf the_config (d_priority (p_data priority_raised)) = Some
      high_label\<close>
    by (simp add: hyp_defs)
  have h8: \<open>d_priority (p_data priority_raised) \<noteq> Some 0\<close>
    by (simp add: hyp_defs)
  have h9: \<open>w_status failing_status (calls (entered the_state the_sync (users the_state)) @
      [GotDelete (issueEndpoint the_config the_link @ ''/labels/'' @ label_name medium_label)
      None]) = Some (404 :: nat)\<close>
    by (simp add: hyp_defs)
  have h10: \<open>(case Some (404 :: nat) of None \<Rightarrow> True | Some n \<Rightarrow> 201 <
      n)\<close>
    by (simp add: hyp_defs)
  have h11: \<open>w_createLabel failing_status (calls (entered the_state the_sync (users
      the_state)) @ [GotDelete (issueEndpoint the_config the_link @ ''/labels/'' @ label_name
      medium_label) None, CreateLabel (repoName the_repo) high_label]) = Some label_exists\<close>
    by (simp add: hyp_defs)
  have h12: \<open>\<not> createLabelError label_exists\<close>
    by (simp add: hyp_defs)
  have h13: \<open>w_error failing_status (calls (entered the_state the_sync (users the_state)) @
      [GotDelete (issueEndpoint the_config the_link @ ''/labels/'' @ label_name medium_label)
      None, CreateLabel (repoName the_repo) high_label, ApplyLabel (repoName (si_GitHubRepo
      the_link)) (si_githubIssueNumber the_link) [labelNameOf label_exists high_label]]) = Some
      False\<close>
    by (simp add: hyp_defs)
  have ta: \<open>linearWebhookHandler the_config failing_status priority_raised
      ''35.231.147.226'' the_state =
      (Inr (Some (''Applied priority label "'' @ labelNameOf label_exists high_label @
          ''" to issue #''
               @ show_nat (si_githubIssueNumber the_link) @ ''.'')),
       (entered the_state the_sync (users the_state))\<lparr>calls := calls (entered the_state
           the_sync (users the_state)) @ [GotDelete (issueEndpoint the_config the_link @
           ''/labels/'' @ label_name medium_label) None, CreateLabel (repoName the_repo)
           high_label, ApplyLabel (repoName (si_GitHubRepo the_link)) (si_githubIssueNumber
           the_link) [labelNameOf label_exists high_label]],
          logs := logs (entered the_state the_sync (users the_state)) @
            [case Some (404 :: nat) of
               None \<Rightarrow> ''Could not remove previous priority label.''
             | Some n \<Rightarrow> ''Did not remove priority label "'' @ label_name medium_label
                 @ ''".'']\<rparr>)\<close>
    by (rule reconciler_failures [where C = "the_config" and W = "failing_status" and body =
        "priority_raised" and originIp = "''35.231.147.226''" and s = "the_state" and sy =
        "the_sync" and team = "the_team" and repo = "the_repo" and mapped = "(users the_state)"
        and si = "the_link" and ?s1.0 = "(entered the_state the_sync (users the_state))" and prev
        = "Some 3" and old = "medium_label" and new = "high_label" and st = "Some (404 :: nat)"
        and r = "label_exists", THEN conjunct1, rule_format])
      (intro conjI h1 h2 h3 h4 h5 h6 h7 h8 h9 h10 h11 h12 h13)
  have ca: \<open>linearWebhookHandler the_config failing_status priority_raised
      ''35.231.147.226'' the_state =
      (Inr (Some ''Applied priority label "High" to issue #7.''),
       the_state\<lparr>calls :=
           [UpsertUser 5 ''ann'',
            GotDelete ''https://api.github.com/repos/acme/app/issues/7/labels/Medium'' None,
            CreateLabel ''acme/app'' high_label, ApplyLabel ''acme/app'' 7 [''High'']],
         logs := [''Did not remove priority label "Medium".'']\<rparr>)\<close>
    using ta by (simp add: run_defs)
  have h14: \<open>accepted the_config throwing_status priority_raised ''35.231.147.226''
      the_state the_sync the_team the_repo (users the_state)\<close>
    by (simp add: hyp_defs)
  have h15: \<open>before_priority the_config throwing_status (scope_of priority_raised the_state
      the_sync the_team the_repo) the_link (entered the_state the_sync (users the_state)) = (Next,
      (entered the_state the_sync (users the_state)))\<close>
    by (simp add: hyp_defs)
  have h16: \<open>w_status throwing_status (calls (entered the_state the_sync (users the_state))
      @ [GotDelete (issueEndpoint the_config the_link @ ''/labels/'' @ label_name medium_label)
      None]) = (None :: nat option)\<close>
    by (simp add: hyp_defs)
  have h17: \<open>(case (None :: nat option) of None \<Rightarrow> True | Some n \<Rightarrow>
      201 < n)\<close>
    by (simp add: hyp_defs)
  have h18: \<open>w_createLabel throwing_status (calls (entered the_state the_sync (users
      the_state)) @ [GotDelete (issueEndpoint the_config the_link @ ''/labels/'' @ label_name
      medium_label) None, CreateLabel (repoName the_repo) high_label]) = Some label_exists\<close>
    by (simp add: hyp_defs)
  have h19: \<open>w_error throwing_status (calls (entered the_state the_sync (users the_state)) @
      [GotDelete (issueEndpoint the_config the_link @ ''/labels/'' @ label_name medium_label)
      None, CreateLabel (repoName the_repo) high_label, ApplyLabel (repoName (si_GitHubRepo
      the_link)) (si_githubIssueNumber the_link) [labelNameOf label_exists high_label]]) = Some
      False\<close>
    by (simp add: hyp_defs)
  have tb: \<open>linearWebhookHandler the_config throwing_status priority_raised
      ''35.231.147.226'' the_state =
      (Inr (Some (''Applied priority label "'' @ labelNameOf label_exists high_label @
          ''" to issue #''
               @ show_nat (si_githubIssueNumber the_link) @ ''.'')),
       (entered the_state the_sync (users the_state))\<lparr>calls := calls (entered the_state
           the_sync (users the_state)) @ [GotDelete (issueEndpoint the_config the_link @
           ''/labels/'' @ label_name medium_label) None, CreateLabel (repoName the_repo)
           high_label, ApplyLabel (repoName (si_GitHubRepo the_link)) (si_githubIssueNumber
           the_link) [labelNameOf label_exists high_label]],
          logs := logs (entered the_state the_sync (users the_state)) @
            [case (None :: nat option) of
               None \<Rightarrow> ''Could not remove previous priority label.''
             | Some n \<Rightarrow> ''Did not remove priority label "'' @ label_name medium_label
                 @ ''".'']\<rparr>)\<close>
    by (rule reconciler_failures [where C = "the_config" and W = "throwing_status" and body =
        "priority_raised" and originIp = "''35.231.147.226''" and s = "the_state" and sy =
        "the_sync" and team = "the_team" and repo = "the_repo" and mapped = "(users the_state)"
        and si = "the_link" and ?s1.0 = "(entered the_state the_sync (users the_state))" and prev
        = "Some 3" and old = "medium_label" and new = "high_label" and st = "(None :: nat option)"
        and r = "label_exists", THEN conjunct1, rule_format])
      (intro conjI h14 h2 h3 h15 h5 h6 h7 h8 h16 h17 h18 h12 h19)
  have cb: \<open>linearWebhookHandler the_config throwing_status priority_raised
      ''35.231.147.226'' the_state =
      (Inr (Some ''Applied priority label "High" to issue #7.''),
       the_state\<lparr>calls :=
           [UpsertUser 5 ''ann'',
            GotDelete ''https://api.github.com/repos/acme/app/issues/7/labels/Medium'' None,
            CreateLabel ''acme/app'' high_label, ApplyLabel ''acme/app'' 7 [''High'']],
         logs := [''Could not remove previous priority label.'']\<rparr>)\<close>
    using tb by (simp add: run_defs)
  have h20: \<open>accepted the_config failing_status estimate_changed ''35.231.147.226''
      the_state the_sync the_team the_repo (users the_state)\<close>
    by (simp add: hyp_defs)
  have h21: \<open>findSyncedIssue the_state (p_data estimate_changed) = Some the_link\<close>
    by (simp add: hyp_defs)
  have h22: \<open>p_action estimate_changed = ''update''\<close>
    by (simp add: hyp_defs)
  have h23: \<open>before_priority the_config failing_status (scope_of estimate_changed the_state
      the_sync the_team the_repo) the_link (entered the_state the_sync (users the_state)) = (Next,
      (entered the_state the_sync (users the_state)))\<close>
    by (simp add: hyp_defs)
  have h24: \<open>uf_priority (p_updatedFrom estimate_changed) = None\<close>
    by (simp add: hyp_defs)
  have h25: \<open>uf_estimate (p_updatedFrom estimate_changed) = Some (Some 2)\<close>
    by (simp add: hyp_defs)
  have h26: \<open>truthy_num (d_estimate (p_data estimate_changed))\<close>
    by (simp add: hyp_defs)
  have h27: \<open>w_status failing_status (calls (entered the_state the_sync (users the_state)) @
      [GotDelete (issueEndpoint the_config the_link @ ''/labels/'' @ show_null (Some 2) @
      '' points'') None]) = Some 404\<close>
    by (simp add: hyp_defs)
  have h28: \<open>201 < (404 :: nat)\<close>
    by (simp add: hyp_defs)
  have h29: \<open>three_points = \<lparr>label_name = show_number (d_estimate (p_data
      estimate_changed)) @ '' points'', label_color = ''666''\<rparr>\<close>
    by (simp add: hyp_defs)
  have h30: \<open>w_createLabel failing_status (calls (entered the_state the_sync (users
      the_state)) @ [GotDelete (issueEndpoint the_config the_link @ ''/labels/'' @ show_null (Some
      2) @ '' points'') None, CreateLabel (repoName the_repo) three_points]) = Some
      label_exists\<close>
    by (simp add: hyp_defs)
  have h31: \<open>w_error failing_status (calls (entered the_state the_sync (users the_state)) @
      [GotDelete (issueEndpoint the_config the_link @ ''/labels/'' @ show_null (Some 2) @
      '' points'') None, CreateLabel (repoName the_repo) three_points, ApplyLabel (repoName
      (si_GitHubRepo the_link)) (si_githubIssueNumber the_link) [labelNameOf label_exists
      three_points]]) = Some False\<close>
    by (simp add: hyp_defs)
  have tc: \<open>linearWebhookHandler the_config failing_status estimate_changed
      ''35.231.147.226'' the_state =
         (Inr None,
          (entered the_state the_sync (users the_state))\<lparr>calls := calls (entered the_state
              the_sync (users the_state)) @ [GotDelete (issueEndpoint the_config the_link @
              ''/labels/'' @ show_null (Some 2) @ '' points'') None, CreateLabel (repoName
              the_repo) three_points, ApplyLabel (repoName (si_GitHubRepo the_link))
              (si_githubIssueNumber the_link) [labelNameOf label_exists three_points]],
             logs := logs (entered the_state the_sync (users the_state)) @
               [''Did not remove estimate label "'' @ show_null (Some 2) @ '' points'' @ ''".'',
                ''Applied estimate label "'' @ labelNameOf label_exists three_points @
                    ''" to issue #''
                  @ show_nat (si_githubIssueNumber the_link) @ ''.'']\<rparr>)\<close>
    by (rule reconciler_failures [where C = "the_config" and W = "failing_status" and body =
        "estimate_changed" and originIp = "''35.231.147.226''" and s = "the_state" and sy =
        "the_sync" and team = "the_team" and repo = "the_repo" and mapped = "(users the_state)"
        and si = "the_link" and ?s1.0 = "(entered the_state the_sync (users the_state))" and was =
        "Some 2" and new = "three_points" and r = "label_exists" and n = "404", THEN conjunct2,
        THEN conjunct1, rule_format])
      (intro conjI h20 h21 h22 h23 h24 h25 h26 h27 h28 h29 h30 h12 h31)
  have cc: \<open>linearWebhookHandler the_config failing_status estimate_changed
      ''35.231.147.226'' the_state =
      (Inr None,
       the_state\<lparr>calls :=
           [UpsertUser 5 ''ann'',
            GotDelete ''https://api.github.com/repos/acme/app/issues/7/labels/2 points'' None,
            CreateLabel ''acme/app'' three_points, ApplyLabel ''acme/app'' 7 [''3 points'']],
         logs := [''Did not remove estimate label "2 points".'',
                  ''Applied estimate label "3 points" to issue #7.'']\<rparr>)\<close>
    using tc by (simp add: run_defs)
  have h32: \<open>accepted the_config failing_comment commented ''35.231.147.226'' the_state
      the_sync the_team the_repo (users the_state)\<close>
    by (simp add: hyp_defs)
  have h33: \<open>p_action commented = ''create''\<close>
    by (simp add: hyp_defs)
  have h34: \<open>p_type commented = ''Comment''\<close>
    by (simp add: hyp_defs)
  have h35: \<open>\<not> str_includes (d_id (p_data commented)) (UUID_SUFFIX the_config)\<close>
    by (simp add: hyp_defs)
  have h36: \<open>\<not> internalComment the_config (d_body (p_data commented))\<close>
    by (simp add: hyp_defs)
  have h37: \<open>find (\<lambda>r. prisma_where (d_issueId (p_data commented)) (si_linearIssueId
      r)) (issues the_state) = Some the_link\<close>
    by (simp add: hyp_defs)
  have h38: \<open>w_text failing_comment (calls the_state @ [UpsertUser (sy_githubUserId
      the_sync) (sy_linearUserId the_sync), ReplaceMentions (d_body (p_data commented))]) = Some
      (Some ''text'')\<close>
    by (simp add: hyp_defs)
  have h39: \<open>w_error failing_comment (calls the_state @ [UpsertUser (sy_githubUserId
      the_sync) (sy_linearUserId the_sync), ReplaceMentions (d_body (p_data commented)),
      CreateComment (repoName (si_GitHubRepo the_link)) (si_githubIssueNumber the_link) ((case
      Some ''text'' of None \<Rightarrow> [] | Some t \<Rightarrow> t) @ getGitHubFooter
      the_config (d_user (p_data commented)))]) = Some True\<close>
    by (simp add: hyp_defs)
  have td: \<open>linearWebhookHandler the_config failing_comment commented ''35.231.147.226''
      the_state =
         (Inr None,
          (entered the_state the_sync (users the_state))
            \<lparr>calls := calls the_state @ [UpsertUser (sy_githubUserId the_sync)
                (sy_linearUserId the_sync), ReplaceMentions (d_body (p_data commented)),
                CreateComment (repoName (si_GitHubRepo the_link)) (si_githubIssueNumber the_link)
                ((case Some ''text'' of None \<Rightarrow> [] | Some t \<Rightarrow> t) @
                getGitHubFooter the_config (d_user (p_data commented)))],
              logs := logs the_state @
                [''Failed to update GitHub issue state for ''
                   @ show_string (d_issue (p_data commented)) @ '' on GitHub issue #''
                   @ show_nat (si_githubIssueNumber the_link) @ ''.'']\<rparr>)\<close>
    by (rule reconciler_failures [where C = "the_config" and W = "failing_comment" and body =
        "commented" and originIp = "''35.231.147.226''" and s = "the_state" and sy = "the_sync"
        and team = "the_team" and repo = "the_repo" and mapped = "(users the_state)" and link =
        "the_link" and m = "Some ''text''", THEN conjunct2, THEN conjunct2, THEN conjunct1,
        rule_format])
      (intro conjI h32 h33 h34 h35 h36 h37 h38 h39)
  have cd: \<open>linearWebhookHandler the_config failing_comment commented ''35.231.147.226''
      the_state =
      (Inr None,
       the_state\<lparr>calls :=
           [UpsertUser 5 ''ann'', ReplaceMentions (Some ''Looks good''),
            CreateComment ''acme/app'' 7 ''text (via Linear)''],
         logs := [''Failed to update GitHub issue state for issue-42 on GitHub issue #7.'']\<rparr>)\<close>
    using td by (simp add: run_defs)
  have h40: \<open>accepted the_config failing_status label_removed ''35.231.147.226'' the_state
      the_sync the_team the_repo (users the_state)\<close>
    by (simp add: hyp_defs)
  have h41: \<open>findSyncedIssue the_state (p_data label_removed) = Some the_link\<close>
    by (simp add: hyp_defs)
  have h42: \<open>p_action label_removed = ''update''\<close>
    by (simp add: hyp_defs)
  have h43: \<open>uf_labelIds (p_updatedFrom label_removed) = Some [''public'',
      ''l-bug'']\<close>
    by (simp add: hyp_defs)
  have h44: \<open>publicLabelId the_team \<in> set [''public'', ''l-bug'']\<close>
    by (simp add: hyp_defs)
  have h45: \<open>d_labelIds (p_data label_removed) = Some [''public'']\<close>
    by (simp add: hyp_defs)
  have h46: \<open>length [''public''] < length [''public'', ''l-bug'']\<close>
    by (simp add: hyp_defs)
  have h47: \<open>find (\<lambda>i. i \<notin> set [''public'']) [''public'', ''l-bug''] \<noteq>
      Some (publicLabelId the_team)\<close>
    by (simp add: hyp_defs)
  have h48: \<open>w_issueLabel failing_status (calls the_state @ [UpsertUser (sy_githubUserId
      the_sync) (sy_linearUserId the_sync), IssueLabel (find (\<lambda>i. i \<notin> set
      [''public'']) [''public'', ''l-bug''])]) = Some (Some bug_label)\<close>
    by (simp add: hyp_defs)
  have h49: \<open>w_status failing_status (calls the_state @ [UpsertUser (sy_githubUserId
      the_sync) (sy_linearUserId the_sync), IssueLabel (find (\<lambda>i. i \<notin> set
      [''public'']) [''public'', ''l-bug'']), GotDelete (issueEndpoint the_config the_link @
      ''/labels/'' @ label_name bug_label) None]) = Some 404\<close>
    by (simp add: hyp_defs)
  have te: \<open>linearWebhookHandler the_config failing_status label_removed ''35.231.147.226''
      the_state =
         (Inl (ApiError (''Could not remove label "'' @ label_name bug_label @ ''".'') 403),
          (entered the_state the_sync (users the_state))
            \<lparr>calls := calls the_state @ [UpsertUser (sy_githubUserId the_sync)
                (sy_linearUserId the_sync), IssueLabel (find (\<lambda>i. i \<notin> set
                [''public'']) [''public'', ''l-bug'']), GotDelete (issueEndpoint the_config
                the_link @ ''/labels/'' @ label_name bug_label) None],
              logs := logs the_state @ [''Could not remove label "'' @ label_name bug_label @
                  ''".'']\<rparr>)\<close>
    by (rule reconciler_failures [where C = "the_config" and W = "failing_status" and body =
        "label_removed" and originIp = "''35.231.147.226''" and s = "the_state" and sy =
        "the_sync" and team = "the_team" and repo = "the_repo" and mapped = "(users the_state)"
        and si = "the_link" and before = "[''public'', ''l-bug'']" and after = "[''public'']" and
        l = "bug_label" and n = "404", THEN conjunct2, THEN conjunct2, THEN conjunct2, THEN
        conjunct1, rule_format])
      (intro conjI h40 h41 h42 h43 h44 h45 h46 h47 h48 h49 h28)
  have ce: \<open>linearWebhookHandler the_config failing_status label_removed ''35.231.147.226''
      the_state =
      (Inl (ApiError ''Could not remove label "Bug".'' 403),
       the_state\<lparr>calls :=
           [UpsertUser 5 ''ann'', IssueLabel (Some ''l-bug''),
            GotDelete ''https://api.github.com/repos/acme/app/issues/7/labels/Bug'' None],
         logs := [''Could not remove label "Bug".'']\<rparr>)\<close>
    using te by (simp add: run_defs)
  have h50: \<open>accepted the_config failing_label label_added ''35.231.147.226'' the_state
      the_sync the_team the_repo (users the_state)\<close>
    by (simp add: hyp_defs)
  have h51: \<open>findSyncedIssue the_state (p_data label_added) = Some the_link\<close>
    by (simp add: hyp_defs)
  have h52: \<open>p_action label_added = ''update''\<close>
    by (simp add: hyp_defs)
  have h53: \<open>uf_labelIds (p_updatedFrom label_added) = Some [''public'']\<close>
    by (simp add: hyp_defs)
  have h54: \<open>publicLabelId the_team \<in> set [''public'']\<close>
    by (simp add: hyp_defs)
  have h55: \<open>d_labelIds (p_data label_added) = Some [''public'', ''l-new'']\<close>
    by (simp add: hyp_defs)
  have h56: \<open>length [''public''] < length [''public'', ''l-new'']\<close>
    by (simp add: hyp_defs)
  have h57: \<open>w_issueLabel failing_label (calls the_state @ [UpsertUser (sy_githubUserId
      the_sync) (sy_linearUserId the_sync), IssueLabel (find (\<lambda>i. i \<notin> set
      [''public'']) [''public'', ''l-new''])]) = Some (Some bug_label)\<close>
    by (simp add: hyp_defs)
  have h58: \<open>toLowerCase the_config (label_name bug_label) \<in> set (ALLOWED_LABELS
      the_config)\<close>
    by (simp add: fixture_defs)
  have h59: \<open>w_createLabel failing_label (calls the_state @ [UpsertUser (sy_githubUserId
      the_sync) (sy_linearUserId the_sync), IssueLabel (find (\<lambda>i. i \<notin> set
      [''public'']) [''public'', ''l-new'']), CreateLabel (repoName the_repo) bug_label]) = Some
      label_refused\<close>
    by (simp add: hyp_defs)
  have h60: \<open>createLabelError label_refused \<or> w_error failing_label (calls the_state @
      [UpsertUser (sy_githubUserId the_sync) (sy_linearUserId the_sync), IssueLabel (find
      (\<lambda>i. i \<notin> set [''public'']) [''public'', ''l-new'']), CreateLabel (repoName
      the_repo) bug_label, ApplyLabel (repoName (si_GitHubRepo the_link)) (si_githubIssueNumber
      the_link) [labelNameOf label_refused bug_label]]) = Some True\<close>
    by (simp add: hyp_defs)
  have tf: \<open>linearWebhookHandler the_config failing_label label_added ''35.231.147.226''
      the_state =
         (Inl (ApiError (if createLabelError label_refused then ''Could not create label.''
                         else ''Could not apply label.'') 403),
          (entered the_state the_sync (users the_state))
            \<lparr>calls := calls the_state @ [UpsertUser (sy_githubUserId the_sync)
                (sy_linearUserId the_sync), IssueLabel (find (\<lambda>i. i \<notin> set
                [''public'']) [''public'', ''l-new'']), CreateLabel (repoName the_repo) bug_label]
                @ (if createLabelError label_refused then []
                   else [ApplyLabel (repoName (si_GitHubRepo the_link)) (si_githubIssueNumber
                       the_link) [labelNameOf label_refused bug_label]]),
              logs := logs the_state @ [if createLabelError label_refused then
                  ''Could not create label.''
                               else ''Could not apply label.'']\<rparr>)\<close>
    by (rule reconciler_failures [where C = "the_config" and W = "failing_label" and body =
        "label_added" and originIp = "''35.231.147.226''" and s = "the_state" and sy = "the_sync"
        and team = "the_team" and repo = "the_repo" and mapped = "(users the_state)" and si =
        "the_link" and before = "[''public'']" and after = "[''public'', ''l-new'']" and l =
        "bug_label" and r = "label_refused", THEN conjunct2, THEN conjunct2, THEN conjunct2, THEN
        conjunct2, THEN conjunct1, rule_format])
      (intro conjI h50 h51 h52 h53 h54 h55 h56 h57 h58 h59 h60)
  have cf: \<open>linearWebhookHandler the_config failing_label label_added ''35.231.147.226''
      the_state =
      (Inl (ApiError ''Could not create label.'' 403),
       the_state\<lparr>calls :=
           [UpsertUser 5 ''ann'', IssueLabel (Some ''l-new''),
            CreateLabel ''acme/app'' bug_label],
         logs := [''Could not create label.'']\<rparr>)\<close>
    using tf by (simp add: run_defs)
  have h61: \<open>accepted the_config failing_label priority_raised ''35.231.147.226'' the_state
      the_sync the_team the_repo (users the_state)\<close>
    by (simp add: hyp_defs)
  have h62: \<open>before_priority the_config failing_label (scope_of priority_raised the_state
      the_sync the_team the_repo) the_link (entered the_state the_sync (users the_state)) = (Next,
      (entered the_state the_sync (users the_state)))\<close>
    by (simp add: hyp_defs)
  have h63: \<open>w_createLabel failing_label (calls (entered the_state the_sync (users
      the_state)) @ [GotDelete (issueEndpoint the_config the_link @ ''/labels/'' @ label_name
      medium_label) None, CreateLabel (repoName the_repo) high_label]) = Some
      label_refused\<close>
    by (simp add: hyp_defs)
  have h64: \<open>createLabelError label_refused \<or> w_error failing_label (calls (entered
      the_state the_sync (users the_state)) @ [GotDelete (issueEndpoint the_config the_link @
      ''/labels/'' @ label_name medium_label) None, CreateLabel (repoName the_repo) high_label,
      ApplyLabel (repoName (si_GitHubRepo the_link)) (si_githubIssueNumber the_link) [labelNameOf
      label_refused high_label]]) = Some True\<close>
    by (simp add: hyp_defs)
  have tg: \<open>fst (linearWebhookHandler the_config failing_label priority_raised
      ''35.231.147.226'' the_state)
         = Inl (ApiError (if createLabelError label_refused then ''Could not create label.''
                          else ''Could not apply label.'') 403)
       \<and> calls (snd (linearWebhookHandler the_config failing_label priority_raised
           ''35.231.147.226'' the_state))
         = calls (entered the_state the_sync (users the_state)) @ [GotDelete (issueEndpoint
             the_config the_link @ ''/labels/'' @ label_name medium_label) None, CreateLabel
             (repoName the_repo) high_label]
             @ (if createLabelError label_refused then []
                else [ApplyLabel (repoName (si_GitHubRepo the_link)) (si_githubIssueNumber
                    the_link) [labelNameOf label_refused high_label]])\<close>
    by (rule reconciler_failures [where C = "the_config" and W = "failing_label" and body =
        "priority_raised" and originIp = "''35.231.147.226''" and s = "the_state" and sy =
        "the_sync" and team = "the_team" and repo = "the_repo" and mapped = "(users the_state)"
        and si = "the_link" and ?s1.0 = "(entered the_state the_sync (users the_state))" and prev
        = "Some 3" and old = "medium_label" and new = "high_label" and r = "label_refused", THEN
        conjunct2, THEN conjunct2, THEN conjunct2, THEN conjunct2, THEN conjunct2, THEN conjunct1,
        rule_format])
      (intro conjI h61 h2 h3 h62 h5 h6 h7 h8 h63 h64)
  have cg: \<open>fst (linearWebhookHandler the_config failing_label priority_raised
      ''35.231.147.226'' the_state) = Inl (ApiError ''Could not create label.'' 403)
   \<and> calls (snd (linearWebhookHandler the_config failing_label priority_raised
       ''35.231.147.226'' the_state))
       = [UpsertUser 5 ''ann'',
          GotDelete ''https://api.github.com/repos/acme/app/issues/7/labels/Medium'' None,
          CreateLabel ''acme/app'' high_label]\<close>
    using tg by (simp add: run_defs)
  have h65: \<open>accepted the_config failing_label estimate_changed ''35.231.147.226'' the_state
      the_sync the_team the_repo (users the_state)\<close>
    by (simp add: hyp_defs)
  have h66: \<open>before_priority the_config failing_label (scope_of estimate_changed the_state
      the_sync the_team the_repo) the_link (entered the_state the_sync (users the_state)) = (Next,
      (entered the_state the_sync (users the_state)))\<close>
    by (simp add: hyp_defs)
  have h67: \<open>w_status failing_label (calls (entered the_state the_sync (users the_state)) @
      [GotDelete (issueEndpoint the_config the_link @ ''/labels/'' @ show_null (Some 2) @
      '' points'') None]) = Some 200\<close>
    by (simp add: hyp_defs)
  have h68: \<open>w_createLabel failing_label (calls (entered the_state the_sync (users
      the_state)) @ [GotDelete (issueEndpoint the_config the_link @ ''/labels/'' @ show_null (Some
      2) @ '' points'') None, CreateLabel (repoName the_repo) three_points]) = Some
      label_refused\<close>
    by (simp add: hyp_defs)
  have h69: \<open>createLabelError label_refused \<or> w_error failing_label (calls (entered
      the_state the_sync (users the_state)) @ [GotDelete (issueEndpoint the_config the_link @
      ''/labels/'' @ show_null (Some 2) @ '' points'') None, CreateLabel (repoName the_repo)
      three_points, ApplyLabel (repoName (si_GitHubRepo the_link)) (si_githubIssueNumber the_link)
      [labelNameOf label_refused three_points]]) = Some True\<close>
    by (simp add: hyp_defs)
  have th: \<open>fst (linearWebhookHandler the_config failing_label estimate_changed
      ''35.231.147.226'' the_state)
         = Inl (ApiError (if createLabelError label_refused then
             ''Could not create estimate label.''
                          else ''Could not apply label.'') 403)
       \<and> calls (snd (linearWebhookHandler the_config failing_label estimate_changed
           ''35.231.147.226'' the_state))
         = calls (entered the_state the_sync (users the_state)) @ [GotDelete (issueEndpoint
             the_config the_link @ ''/labels/'' @ show_null (Some 2) @ '' points'') None,
             CreateLabel (repoName the_repo) three_points]
             @ (if createLabelError label_refused then []
                else [ApplyLabel (repoName (si_GitHubRepo the_link)) (si_githubIssueNumber
                    the_link) [labelNameOf label_refused three_points]])\<close>
    by (rule reconciler_failures [where C = "the_config" and W = "failing_label" and body =
        "estimate_changed" and originIp = "''35.231.147.226''" and s = "the_state" and sy =
        "the_sync" and team = "the_team" and repo = "the_repo" and mapped = "(users the_state)"
        and si = "the_link" and ?s1.0 = "(entered the_state the_sync (users the_state))" and was =
        "Some 2" and new = "three_points" and r = "label_refused" and n = "200", THEN conjunct2,
        THEN conjunct2, THEN conjunct2, THEN conjunct2, THEN conjunct2, THEN conjunct2,
        rule_format])
      (intro conjI h65 h21 h22 h66 h24 h25 h26 h67 h29 h68 h69)
  have ch: \<open>fst (linearWebhookHandler the_config failing_label estimate_changed
      ''35.231.147.226'' the_state) = Inl (ApiError ''Could not create estimate label.'' 403)
   \<and> calls (snd (linearWebhookHandler the_config failing_label estimate_changed
       ''35.231.147.226'' the_state))
       = [UpsertUser 5 ''ann'',
          GotDelete ''https://api.github.com/repos/acme/app/issues/7/labels/2 points'' None,
          CreateLabel ''acme/app'' three_points]\<close>
    using th by (simp add: run_defs)
  show ?thesis
    by (intro conjI h1 h2 h3 h4 h5 h6 h7 h8 h9 h10 h11 h12 h13 h14 h15 h16 h17 h18 h19 h20 h21 h22
        h23 h24 h25 h26 h27 h28 h29 h30 h31 h32 h33 h34 h35 h36 h37 h38 h39 h40 h41 h42 h43 h44
        h45 h46 h47 h48 h49 h50 h51 h52 h53 h54 h55 h56 h57 h58 h59 h60 h61 h62 h63 h64 h65 h66
        h67 h68 h69 ca cb cc cd ce cf cg [THEN conjunct1] cg [THEN conjunct2] ch [THEN conjunct1]
        ch [THEN conjunct2])
qed

text \<open>
  C1 as stated fails. ENG-42 is synced; one update removes the label \<open>l-bug\<close> and
  changes the estimate from 2 to 3; GitHub answers the deletion of the label with status
  404. The handler logs the failure and throws \<^verbatim>\<open>ApiError(..., 403)\<close>; its calls are
  \<^verbatim>\<open>upsertUser\<close>, the look-up of the label and the failed deletion, so the estimate
  reconciler of the same event has not run.
\<close>

theorem label_failure_is_fatal:
  \<open>linearWebhookHandler the_config failing_status label_removed ''35.231.147.226'' the_state =
     (Inl (ApiError ''Could not remove label "Bug".'' 403),
      the_state\<lparr>calls :=
         [UpsertUser 5 ''ann'', IssueLabel (Some ''l-bug''),
          GotDelete ''https://api.github.com/repos/acme/app/issues/7/labels/Bug'' None],
        logs := [''Could not remove label "Bug".'']\<rparr>)\<close>
  by (simp add: handler_defs fixture_defs block_defs Let_def)

subsection \<open>Reconcilers that end the event\<close>

text \<open>
  Every path through the cycle reconciler and through the priority reconciler ends in
  \<^verbatim>\<open>return\<close> or \<^verbatim>\<open>throw\<close>: whatever follows them in the handler is not reached.
\<close>

lemma fail500_raise [simp]: "fst (fail500 reason s) = Raise (ApiError reason 500)"
  by (simp add: fail500_def console_log_def throw_def)

lemma done_with_return [simp]: "fst (done_with reason s) = Return reason"
  by (simp add: done_with_def console_log_def ret_def)

lemma throw_raise [simp]: "fst (throw e s) = Raise e"
  by (simp add: throw_def)

lemma ret_return [simp]: "fst (ret r s) = Return r"
  by (simp add: ret_def)

lemma await_next_iff:
  "fst (await c oracle k s) = Next \<longleftrightarrow>
     (\<exists>r. oracle (calls s @ [c]) = Some r \<and> fst (k r (s\<lparr>calls := calls s @ [c]\<rparr>)) = Next)"
  by (cases "oracle (calls s @ [c])") (simp_all add: await_def)

lemma await_not_next:
  assumes "\<And>r s'. fst (k r s') \<noteq> Next"
  shows "fst (await c oracle k s) \<noteq> Next"
  using assms by (cases "oracle (calls s @ [c])") (simp_all add: await_def)

lemma applyMilestone_not_next: "fst (applyMilestone W x si m s) \<noteq> Next"
  unfolding applyMilestone_def
  by (rule await_not_next) (simp add: if_distribR)

lemma cycle_change_not_next:
  assumes "uf_cycleId (updatedFrom x) \<noteq> None" and "actionType x = ''Issue''"
  shows "fst (cycle_change C W x si s) \<noteq> Next"
  using assms
  by (simp add: cycle_change_def await_next_iff if_distribR applyMilestone_not_next
      split: option.splits)

lemma priority_add_not_next: "fst (priority_add C W x si old l s) \<noteq> Next"
  by (simp add: priority_add_def await_next_iff if_distribR)

lemma priority_change_not_next:
  assumes "uf_priority (updatedFrom x) \<noteq> None"
  shows "fst (priority_change C W x si s) \<noteq> Next"
proof -
  from assms obtain prev where prev: "uf_priority (updatedFrom x) = Some prev" by blast
  show ?thesis
  proof (cases "priorityLabelOf C (d_priority (data x))")
    case None
    with prev show ?thesis by (simp add: priority_change_def throw_def)
  next
    case (Some l)
    note l = this
    show ?thesis
    proof (cases "priorityLabelOf C prev")
      case None
      with prev l show ?thesis by (simp add: priority_change_def throw_def)
    next
      case (Some old)
      with prev l priority_add_not_next [of C W x si old l] show ?thesis
        by (simp add: priority_change_def seq_def split: prod.splits outcome.splits)
    qed
  qed
qed

text \<open>Once the cycle reconciler runs, nothing after it does.\<close>

lemma after_cycle_change_unreached:
  assumes "uf_cycleId (updatedFrom x) \<noteq> None" and "actionType x = ''Issue''"
  shows "seq (cycle_change C W x si) rest s = cycle_change C W x si s"
  using cycle_change_not_next [OF assms, of C W si s]
  by (cases "cycle_change C W x si s") (auto simp: seq_def split: outcome.splits)

lemma after_priority_change_unreached:
  assumes "uf_priority (updatedFrom x) \<noteq> None"
  shows "seq (priority_change C W x si) rest s = priority_change C W x si s"
  using priority_change_not_next [OF assms, of C W si s]
  by (cases "priority_change C W x si s") (auto simp: seq_def split: outcome.splits)

text \<open>
  C2 on a concrete event. ENG-42 is synced and one update sets its cycle (for which a
  Milestone Link exists) and moves it to the done state. The handler sets the milestone
  and returns \<^verbatim>\<open>Added milestone to #7 for ENG-42.\<close>: its calls are \<^verbatim>\<open>upsertUser\<close> and
  \<^verbatim>\<open>setIssueMilestone\<close>, and the state reconciler, whose field is in the delta, is not
  invoked.
\<close>

theorem cycle_change_ends_the_event:
  "linearWebhookHandler the_config the_world cycle_and_state ''35.231.147.226'' the_state =
     (Inr (Some ''Added milestone to #7 for ENG-42.''),
      the_state\<lparr>calls := [UpsertUser 5 ''ann'', SetIssueMilestone ''acme/app'' 7 (Some 3)],
        logs := [''Added milestone to #7 for ENG-42.'']\<rparr>)"
  by (simp add: handler_defs fixture_defs block_defs Let_def)

text \<open>The same state change alone is sent to GitHub.\<close>

lemma state_change_alone:
  "calls_made the_config the_world state_only ''35.231.147.226'' the_state =
     [UpsertUser 5 ''ann'',
      GotPatch ''https://api.github.com/repos/acme/app/issues/7'' (State ''closed'' ''completed'')]"
  by (simp add: calls_made_def handler_defs fixture_defs block_defs Let_def)

subsection \<open>Order of the assignee calls\<close>

text \<open>
  When the new assignee has a GitHub username that is not among the current assignees,
  the reconciler reads the issue, then adds the new assignee, then removes the previous
  ones.
\<close>

lemma findUser_calls [simp]: "findUser (s\<lparr>calls := c\<rparr>) i = findUser s i"
  by (simp add: findUser_def)

lemma assignee_change_order:
  assumes "uf_assigneeId (updatedFrom x) \<noteq> None"
      and "d_assigneeId (data x) = Some linearId" and "linearId \<noteq> []"
      and "findUser s (Some linearId) = Some u" and "us_githubUsername u \<noteq> []"
      and "w_assignees W (calls s @ [GotGet (issueEndpoint C si)]) = Some prev"
      and "\<not> (case prev of None \<Rightarrow> False | Some p \<Rightarrow> Some (us_githubUsername u) \<in> set p)"
      and "w_status W (calls s @ [GotGet (issueEndpoint C si),
             GotPost (issueEndpoint C si @ ''/assignees'')
               (Assignees [Some (us_githubUsername u)])]) = Some added"
  shows "take 3 (calls_of (assignee_change C W x si) s) =
           [GotGet (issueEndpoint C si),
            GotPost (issueEndpoint C si @ ''/assignees'') (Assignees [Some (us_githubUsername u)]),
            GotDelete (issueEndpoint C si @ ''/assignees'') (Some (PrevAssignees prev))]"
proof -
  let ?c3 = "GotDelete (issueEndpoint C si @ ''/assignees'') (Some (PrevAssignees prev))"
  let ?t = "calls s @ [GotGet (issueEndpoint C si),
             GotPost (issueEndpoint C si @ ''/assignees'')
               (Assignees [Some (us_githubUsername u)]), ?c3]"
  show ?thesis
    using assms
    by (cases "w_status W ?t")
      (simp_all add: calls_of_def assignee_change_def truthy_def block_defs Let_def
        split: option.splits)
qed

text \<open>
  C4 on a concrete event. ENG-42 is synced and assigned to \<open>al-gh\<close> on GitHub; one update
  assigns it to the Linear user \<open>bob\<close>, mapped to \<open>bob-gh\<close>. The calls of the handler, in
  order: \<^verbatim>\<open>upsertUser\<close>, the read of the issue, the \<^verbatim>\<open>POST\<close> that adds \<open>bob-gh\<close>, and
  only then the \<^verbatim>\<open>DELETE\<close> of the previous assignees.
\<close>

theorem assignee_added_before_removed:
  "calls_made the_config the_world reassigned ''35.231.147.226'' the_state =
     [UpsertUser 5 ''ann'',
      GotGet ''https://api.github.com/repos/acme/app/issues/7'',
      GotPost ''https://api.github.com/repos/acme/app/issues/7/assignees''
        (Assignees [Some ''bob-gh'']),
      GotDelete ''https://api.github.com/repos/acme/app/issues/7/assignees''
        (Some (PrevAssignees (Some [Some ''al-gh''])))]"
  by (simp add: calls_made_def handler_defs fixture_defs block_defs Let_def)

end
